theory Spec2Isabelle
  imports Main "HOL-Library.Word" "HOL-Library.Multiset"
begin

section \<open>Data model of \<open>smart_pointers.h\<close>\<close>

text \<open>
  A control block lives at an address handed out by the allocator. A payload pointer
  \<open>T*\<close> is either the address of a separately allocated object, or the address
  \<open>reinterpret_cast<T*>(this + 1)\<close> just behind the control block at a given address
  (what \<open>MakeSharedControlBlock::get_ptr\<close> computes); \<open>nullptr\<close> is \<open>None\<close>.
\<close>

type_synonym addr = nat

type_synonym size_t = "64 word"

datatype pointer = Separate nat | Trailing addr

text \<open>\<open>struct BaseControlBlock\<close>: the two counters, both \<open>size_t\<close>.\<close>

record BaseControlBlock =
  shared :: size_t
  weak :: size_t

text \<open>\<open>class SharedPtr\<close> and \<open>class WeakPtr\<close>: a payload pointer and a control-block pointer.\<close>

record SharedPtr =
  sp_ptr :: "pointer option"
  sp_cb :: "addr option"

record WeakPtr =
  wp_ptr :: "pointer option"
  wp_cb :: "addr option"

text \<open>
  The calls of the two virtual functions of a control block are recorded in order, each
  when it is entered: \<open>destroy()\<close> runs the payload's destructor (through the allocator
  or the deleter), \<open>deallocate()\<close> gives the block's storage back to the allocator.
\<close>

datatype event = Destroy addr | Deallocate addr

text \<open>
  The heap: the storage obtained from the allocator and not yet given back, the control
  blocks constructed in it, the weak handle that is a member of the payload stored
  inline in a block, and the record of \<open>destroy()\<close> and \<open>deallocate()\<close> calls. The
  payload's weak handle member is the \<open>wptr\<close> of its \<open>EnableSharedFromThis\<close> base, or a
  \<open>WeakPtr\<close> member that the payload type declares itself, as in
  \<open>struct Node { WeakPtr<Node> self; }\<close>; a payload type without such a member, and a
  payload that has been destroyed, have \<open>None\<close>.
\<close>

record heap =
  allocated :: "addr set"
  blocks :: "addr \<rightharpoonup> BaseControlBlock"
  payload_wptr :: "addr \<rightharpoonup> WeakPtr"
  trace :: "event list"

text \<open>
  Undefined behaviour is made explicit as a fault: a member access through a null
  control-block pointer, through a pointer to a block whose storage was given back, or
  the use of a handle object that does not exist. Exceptions are the allocator's
  \<open>bad_alloc\<close> and whatever the payload's constructor throws. A failing operation
  carries the heap as it is when the failure leaves the operation.
\<close>

datatype fault = NullDeref | UseAfterFree | NoObject

datatype exn = BadAlloc | PayloadCtorThrew

datatype error = UB fault | Exn exn

datatype ('a, 's) outcome = Returns 'a 's | Fails error 's

section \<open>Control block\<close>

definition deallocate :: "addr \<Rightarrow> heap \<Rightarrow> heap" where
  "deallocate a h =
     h\<lparr>allocated := allocated h - {a}, blocks := (blocks h)(a := None),
       payload_wptr := (payload_wptr h)(a := None), trace := trace h @ [Deallocate a]\<rparr>"

definition get_ptr :: "addr \<Rightarrow> pointer" where
  "get_ptr a = Trailing a"

section \<open>Strong handle\<close>

definition SharedPtr_default :: SharedPtr where
  "SharedPtr_default = \<lparr>sp_ptr = None, sp_cb = None\<rparr>"

text \<open>Lines 190-196: the templated copy constructor increments through \<open>shptr.cb\<close> unchecked.\<close>

definition SharedPtr_copy_cov :: "SharedPtr \<Rightarrow> heap \<Rightarrow> (SharedPtr, heap) outcome" where
  "SharedPtr_copy_cov shptr h =
     (case sp_cb shptr of
        None \<Rightarrow> Fails (UB NullDeref) h
      | Some a \<Rightarrow>
          (case blocks h a of
             None \<Rightarrow> Fails (UB UseAfterFree) h
           | Some b \<Rightarrow>
               Returns \<lparr>sp_ptr = sp_ptr shptr, sp_cb = sp_cb shptr\<rparr>
                 (h\<lparr>blocks := (blocks h)(a \<mapsto> b\<lparr>shared := shared b + 1\<rparr>)\<rparr>)))"

text \<open>Lines 198-204: the same-type copy constructor checks \<open>cb != nullptr\<close> first.\<close>

definition SharedPtr_copy :: "SharedPtr \<Rightarrow> heap \<Rightarrow> (SharedPtr, heap) outcome" where
  "SharedPtr_copy shptr h =
     (case sp_cb shptr of
        None \<Rightarrow> Returns \<lparr>sp_ptr = sp_ptr shptr, sp_cb = sp_cb shptr\<rparr> h
      | Some a \<Rightarrow>
          (case blocks h a of
             None \<Rightarrow> Fails (UB UseAfterFree) h
           | Some b \<Rightarrow>
               Returns \<lparr>sp_ptr = sp_ptr shptr, sp_cb = sp_cb shptr\<rparr>
                 (h\<lparr>blocks := (blocks h)(a \<mapsto> b\<lparr>shared := shared b + 1\<rparr>)\<rparr>)))"

text \<open>
  Lines 206-220: both move constructors have the same body. The result is the new handle
  and the source as it is left.
\<close>

definition SharedPtr_move :: "SharedPtr \<Rightarrow> SharedPtr \<times> SharedPtr" where
  "SharedPtr_move shptr =
     (\<lparr>sp_ptr = sp_ptr shptr, sp_cb = sp_cb shptr\<rparr>, \<lparr>sp_ptr = None, sp_cb = None\<rparr>)"

text \<open>Lines 278-283.\<close>

definition SharedPtr_use_count :: "SharedPtr \<Rightarrow> heap \<Rightarrow> (size_t, heap) outcome" where
  "SharedPtr_use_count s h =
     (case sp_cb s of
        None \<Rightarrow> Returns 0 h
      | Some a \<Rightarrow>
          (case blocks h a of
             None \<Rightarrow> Fails (UB UseAfterFree) h
           | Some b \<Rightarrow> Returns (shared b) h))"

text \<open>Lines 285-294: only addresses are computed, nothing is read through \<open>cb\<close>.\<close>

definition SharedPtr_get :: "SharedPtr \<Rightarrow> pointer option" where
  "SharedPtr_get s =
     (case sp_ptr s of
        Some p \<Rightarrow> Some p
      | None \<Rightarrow> (case sp_cb s of Some a \<Rightarrow> Some (get_ptr a) | None \<Rightarrow> None))"

text \<open>Lines 309-313: the two handles as they are after the exchange.\<close>

definition SharedPtr_swap :: "SharedPtr \<Rightarrow> SharedPtr \<Rightarrow> SharedPtr \<times> SharedPtr" where
  "SharedPtr_swap this other =
     (\<lparr>sp_ptr = sp_ptr other, sp_cb = sp_cb other\<rparr>, \<lparr>sp_ptr = sp_ptr this, sp_cb = sp_cb this\<rparr>)"

section \<open>Weak handle\<close>

definition WeakPtr_default :: WeakPtr where
  "WeakPtr_default = \<lparr>wp_ptr = None, wp_cb = None\<rparr>"

text \<open>Lines 410-413: the non-templated constructor from a strong handle, unchecked.\<close>

definition WeakPtr_from_shared :: "SharedPtr \<Rightarrow> heap \<Rightarrow> (WeakPtr, heap) outcome" where
  "WeakPtr_from_shared sp h =
     (case sp_cb sp of
        None \<Rightarrow> Fails (UB NullDeref) h
      | Some a \<Rightarrow>
          (case blocks h a of
             None \<Rightarrow> Fails (UB UseAfterFree) h
           | Some b \<Rightarrow>
               Returns \<lparr>wp_ptr = SharedPtr_get sp, wp_cb = sp_cb sp\<rparr>
                 (h\<lparr>blocks := (blocks h)(a \<mapsto> b\<lparr>weak := weak b + 1\<rparr>)\<rparr>)))"

text \<open>Lines 415-422: the templated constructor from a strong handle, checked.\<close>

definition WeakPtr_from_shared_cov :: "SharedPtr \<Rightarrow> heap \<Rightarrow> (WeakPtr, heap) outcome" where
  "WeakPtr_from_shared_cov sp h =
     (case sp_cb sp of
        None \<Rightarrow> Returns \<lparr>wp_ptr = SharedPtr_get sp, wp_cb = sp_cb sp\<rparr> h
      | Some a \<Rightarrow>
          (case blocks h a of
             None \<Rightarrow> Fails (UB UseAfterFree) h
           | Some b \<Rightarrow>
               Returns \<lparr>wp_ptr = SharedPtr_get sp, wp_cb = sp_cb sp\<rparr>
                 (h\<lparr>blocks := (blocks h)(a \<mapsto> b\<lparr>weak := weak b + 1\<rparr>)\<rparr>)))"

text \<open>Lines 424-427: the same-type copy constructor, unchecked.\<close>

definition WeakPtr_copy :: "WeakPtr \<Rightarrow> heap \<Rightarrow> (WeakPtr, heap) outcome" where
  "WeakPtr_copy wptr h =
     (case wp_cb wptr of
        None \<Rightarrow> Fails (UB NullDeref) h
      | Some a \<Rightarrow>
          (case blocks h a of
             None \<Rightarrow> Fails (UB UseAfterFree) h
           | Some b \<Rightarrow>
               Returns \<lparr>wp_ptr = wp_ptr wptr, wp_cb = wp_cb wptr\<rparr>
                 (h\<lparr>blocks := (blocks h)(a \<mapsto> b\<lparr>weak := weak b + 1\<rparr>)\<rparr>)))"

text \<open>Lines 429-436: the templated copy constructor, checked.\<close>

definition WeakPtr_copy_cov :: "WeakPtr \<Rightarrow> heap \<Rightarrow> (WeakPtr, heap) outcome" where
  "WeakPtr_copy_cov wptr h =
     (case wp_cb wptr of
        None \<Rightarrow> Returns \<lparr>wp_ptr = wp_ptr wptr, wp_cb = wp_cb wptr\<rparr> h
      | Some a \<Rightarrow>
          (case blocks h a of
             None \<Rightarrow> Fails (UB UseAfterFree) h
           | Some b \<Rightarrow>
               Returns \<lparr>wp_ptr = wp_ptr wptr, wp_cb = wp_cb wptr\<rparr>
                 (h\<lparr>blocks := (blocks h)(a \<mapsto> b\<lparr>weak := weak b + 1\<rparr>)\<rparr>)))"

text \<open>Lines 438-450: both move constructors have the same body.\<close>

definition WeakPtr_move :: "WeakPtr \<Rightarrow> WeakPtr \<times> WeakPtr" where
  "WeakPtr_move wptr =
     (\<lparr>wp_ptr = wp_ptr wptr, wp_cb = wp_cb wptr\<rparr>, \<lparr>wp_ptr = None, wp_cb = None\<rparr>)"

text \<open>Lines 491-502.\<close>

definition WeakPtr_use_count :: "WeakPtr \<Rightarrow> heap \<Rightarrow> (size_t, heap) outcome" where
  "WeakPtr_use_count this h =
     (case wp_cb this of
        None \<Rightarrow> Returns 0 h
      | Some a \<Rightarrow>
          (case blocks h a of
             None \<Rightarrow> Fails (UB UseAfterFree) h
           | Some b \<Rightarrow> Returns (shared b) h))"

definition WeakPtr_expired :: "WeakPtr \<Rightarrow> heap \<Rightarrow> (bool, heap) outcome" where
  "WeakPtr_expired this h =
     (case WeakPtr_use_count this h of
        Returns n h' \<Rightarrow> Returns (n = 0) h'
      | Fails e h' \<Rightarrow> Fails e h')"

text \<open>Lines 512-516.\<close>

definition WeakPtr_swap :: "WeakPtr \<Rightarrow> WeakPtr \<Rightarrow> WeakPtr \<times> WeakPtr" where
  "WeakPtr_swap this other =
     (\<lparr>wp_ptr = wp_ptr other, wp_cb = wp_cb other\<rparr>, \<lparr>wp_ptr = wp_ptr this, wp_cb = wp_cb this\<rparr>)"

text \<open>Lines 518-529.\<close>

definition WeakPtr_clear :: "WeakPtr \<Rightarrow> heap \<Rightarrow> (WeakPtr, heap) outcome" where
  "WeakPtr_clear this h =
     (case wp_cb this of
        None \<Rightarrow> Returns this h
      | Some a \<Rightarrow>
          (case blocks h a of
             None \<Rightarrow> Fails (UB UseAfterFree) h
           | Some b \<Rightarrow>
               (let b1 = b\<lparr>weak := weak b - 1\<rparr>;
                    h1 = h\<lparr>blocks := (blocks h)(a \<mapsto> b1)\<rparr>;
                    h2 = (if shared b1 = 0 \<and> weak b1 = 0 then deallocate a h1 else h1)
                in Returns \<lparr>wp_ptr = None, wp_cb = None\<rparr> h2)))"

text \<open>Lines 486-489.\<close>

definition WeakPtr_destructor :: "WeakPtr \<Rightarrow> heap \<Rightarrow> (WeakPtr, heap) outcome" where
  "WeakPtr_destructor this h = WeakPtr_clear this h"

text \<open>
  Lines 320-335: the private constructor of a strong handle from a weak one. Its
  parameter is the weak handle passed by value; the caller makes and destroys that copy.
\<close>

definition SharedPtr_from_weak :: "WeakPtr \<Rightarrow> heap \<Rightarrow> (SharedPtr, heap) outcome" where
  "SharedPtr_from_weak wptr h =
     (case wp_cb wptr of
        None \<Rightarrow> Returns \<lparr>sp_ptr = None, sp_cb = None\<rparr> h
      | Some a \<Rightarrow>
          (case blocks h a of
             None \<Rightarrow> Fails (UB UseAfterFree) h
           | Some b \<Rightarrow>
               if shared b = 0 then Returns \<lparr>sp_ptr = None, sp_cb = None\<rparr> h
               else
                 Returns
                   \<lparr>sp_ptr = (case wp_ptr wptr of None \<Rightarrow> Some (get_ptr a) | Some p \<Rightarrow> Some p),
                    sp_cb = Some a\<rparr>
                   (h\<lparr>blocks := (blocks h)(a \<mapsto> b\<lparr>shared := shared b + 1\<rparr>)\<rparr>)))"

text \<open>
  Lines 504-510. \<open>SharedPtr<T>(*this)\<close> copy-constructs the by-value parameter from
  \<open>*this\<close>, runs the private constructor on it, and destroys the parameter.
\<close>

definition WeakPtr_lock :: "WeakPtr \<Rightarrow> heap \<Rightarrow> (SharedPtr, heap) outcome" where
  "WeakPtr_lock this h =
     (case WeakPtr_expired this h of
        Fails e h' \<Rightarrow> Fails e h'
      | Returns True h' \<Rightarrow> Returns SharedPtr_default h'
      | Returns False h' \<Rightarrow>
          (case WeakPtr_copy this h' of
             Fails e h1 \<Rightarrow> Fails e h1
           | Returns wptr h1 \<Rightarrow>
               (case SharedPtr_from_weak wptr h1 of
                  Fails e h2 \<Rightarrow> Fails e h2
                | Returns sp h2 \<Rightarrow>
                    (case WeakPtr_destructor wptr h2 of
                       Fails e h3 \<Rightarrow> Fails e h3
                     | Returns _ h3 \<Rightarrow> Returns sp h3))))"

section \<open>Destruction of the payload and release of a strong handle\<close>

text \<open>
  Lines 49-52 and 81, \<open>destroy()\<close>: \<open>allocator_traits::destroy\<close> on the payload behind
  the block, or the deleter on the payload pointer; either way the payload's destructor
  runs. A destructor destroys the members of its object, so the payload's weak handle
  member (if it has one) is destroyed, lines 486-489, and with the payload it is gone.
  That member may hold the very block whose \<open>destroy()\<close> is running. What else the
  payload's destructor does is not modelled (a strong handle member that held this
  block would keep the strong count above 0, so that \<open>destroy()\<close> would not be running).
\<close>

definition destroy :: "addr \<Rightarrow> heap \<Rightarrow> (unit, heap) outcome" where
  "destroy a h =
     (let h1 = h\<lparr>trace := trace h @ [Destroy a]\<rparr>
      in case payload_wptr h1 a of
           None \<Rightarrow> Returns () h1
         | Some wptr \<Rightarrow>
             (case WeakPtr_destructor wptr h1 of
                Fails e h2 \<Rightarrow> Fails e h2
              | Returns _ h2 \<Rightarrow> Returns () (h2\<lparr>payload_wptr := (payload_wptr h2)(a := None)\<rparr>)))"

text \<open>
  Lines 337-351. An empty handle returns at once, its \<open>ptr\<close> untouched. After
  \<open>cb->destroy()\<close> has returned, \<open>cb->weak\<close> is read again through \<open>cb\<close> (line 345): if
  the block's storage was given back while the payload's destructor ran, that read goes
  through a pointer to freed storage.
\<close>

definition SharedPtr_clear :: "SharedPtr \<Rightarrow> heap \<Rightarrow> (SharedPtr, heap) outcome" where
  "SharedPtr_clear this h =
     (case sp_cb this of
        None \<Rightarrow> Returns this h
      | Some a \<Rightarrow>
          (case blocks h a of
             None \<Rightarrow> Fails (UB UseAfterFree) h
           | Some b \<Rightarrow>
               (let b1 = b\<lparr>shared := shared b - 1\<rparr>;
                    h1 = h\<lparr>blocks := (blocks h)(a \<mapsto> b1)\<rparr>
                in if shared b1 = 0
                   then (case destroy a h1 of
                           Fails e h2 \<Rightarrow> Fails e h2
                         | Returns _ h2 \<Rightarrow>
                             (case blocks h2 a of
                                None \<Rightarrow> Fails (UB UseAfterFree) h2
                              | Some b2 \<Rightarrow>
                                  Returns \<lparr>sp_ptr = None, sp_cb = None\<rparr>
                                    (if weak b2 = 0 then deallocate a h2 else h2)))
                   else Returns \<lparr>sp_ptr = None, sp_cb = None\<rparr> h1)))"

text \<open>Lines 273-276.\<close>

definition SharedPtr_destructor :: "SharedPtr \<Rightarrow> heap \<Rightarrow> (SharedPtr, heap) outcome" where
  "SharedPtr_destructor this h = SharedPtr_clear this h"

text \<open>
  Lines 296-299: a default-constructed temporary is swapped with \<open>*this\<close> and then
  destroyed; the result is \<open>*this\<close>.
\<close>

definition SharedPtr_reset :: "SharedPtr \<Rightarrow> heap \<Rightarrow> (SharedPtr, heap) outcome" where
  "SharedPtr_reset this h =
     (case SharedPtr_swap SharedPtr_default this of
        (tmp, this') \<Rightarrow>
          (case SharedPtr_destructor tmp h of
             Returns _ h' \<Rightarrow> Returns this' h'
           | Fails e h' \<Rightarrow> Fails e h'))"

text \<open>
  Lines 265-271, \<open>operator->\<close>: the stored payload pointer if it is not null, else the
  address behind the block, computed from \<open>cb\<close> without a check.
\<close>

definition SharedPtr_arrow :: "SharedPtr \<Rightarrow> heap \<Rightarrow> (pointer, heap) outcome" where
  "SharedPtr_arrow this h =
     (case sp_ptr this of
        Some p \<Rightarrow> Returns p h
      | None \<Rightarrow>
          (case sp_cb this of
             None \<Rightarrow> Fails (UB NullDeref) h
           | Some a \<Rightarrow> Returns (get_ptr a) h))"

text \<open>
  The payload a strong handle points to, named by the address of the block it is stored
  behind, for a program that goes on to use the payload's weak handle member.
\<close>

definition payload_of :: "SharedPtr \<Rightarrow> heap \<Rightarrow> (addr, heap) outcome" where
  "payload_of this h =
     (case SharedPtr_arrow this h of
        Fails e h' \<Rightarrow> Fails e h'
      | Returns (Separate q) h' \<Rightarrow> Fails (UB NoObject) h'
      | Returns (Trailing a) h' \<Rightarrow>
          (case payload_wptr h' a of
             None \<Rightarrow> Fails (UB NoObject) h'
           | Some _ \<Rightarrow> Returns a h'))"

text \<open>
  Lines 452-460 and 471-476, \<open>operator=\<close> of the weak handle, with the weak handle
  member of the payload behind the block at \<open>a\<close> on the left and another object \<open>wptr\<close>
  on the right: the local \<open>copy\<close> is constructed from \<open>wptr\<close>, swapped with the member,
  and destroyed. The move assignment also returns \<open>wptr\<close> as it is left.
\<close>

definition payload_wptr_assign :: "addr \<Rightarrow> WeakPtr \<Rightarrow> heap \<Rightarrow> (unit, heap) outcome" where
  "payload_wptr_assign a wptr h =
     (case payload_wptr h a of
        None \<Rightarrow> Fails (UB NoObject) h
      | Some this \<Rightarrow>
          (case WeakPtr_copy wptr h of
             Fails e h1 \<Rightarrow> Fails e h1
           | Returns copy h1 \<Rightarrow>
               (case WeakPtr_swap this copy of
                  (this', copy') \<Rightarrow>
                    (case WeakPtr_destructor copy'
                            (h1\<lparr>payload_wptr := (payload_wptr h1)(a \<mapsto> this')\<rparr>) of
                       Fails e h2 \<Rightarrow> Fails e h2
                     | Returns _ h2 \<Rightarrow> Returns () h2))))"

definition payload_wptr_assign_move :: "addr \<Rightarrow> WeakPtr \<Rightarrow> heap \<Rightarrow> (WeakPtr, heap) outcome" where
  "payload_wptr_assign_move a wptr h =
     (case payload_wptr h a of
        None \<Rightarrow> Fails (UB NoObject) h
      | Some this \<Rightarrow>
          (case WeakPtr_move wptr of
             (copy, wptr') \<Rightarrow>
               (case WeakPtr_swap this copy of
                  (this', copy') \<Rightarrow>
                    (case WeakPtr_destructor copy'
                            (h\<lparr>payload_wptr := (payload_wptr h)(a \<mapsto> this')\<rparr>) of
                       Fails e h2 \<Rightarrow> Fails e h2
                     | Returns _ h2 \<Rightarrow> Returns wptr' h2))))"

section \<open>Construction helpers and self-observation\<close>

text \<open>
  Lines 531-541: \<open>shared_from_this\<close> of the payload object stored inline in the block
  at \<open>a\<close> locks that object's \<open>wptr\<close> member.
\<close>

definition shared_from_this :: "addr \<Rightarrow> heap \<Rightarrow> (SharedPtr, heap) outcome" where
  "shared_from_this a h =
     (case payload_wptr h a of
        None \<Rightarrow> Fails (UB NoObject) h
      | Some wptr \<Rightarrow> WeakPtr_lock wptr h)"

text \<open>
  Lines 543-554. What the allocator and the payload's constructor do is a parameter:
  \<open>raw_memory\<close> is the address \<open>allocate\<close> returns (\<open>None\<close> when it throws),
  \<open>ctor_throws\<close> says whether the payload's constructor throws, and \<open>self_observing\<close>
  whether the payload type derives from \<open>EnableSharedFromThis\<close>, whose \<open>wptr\<close> member
  is default-initialised when the payload is constructed (a payload type that declares
  a weak handle member of its own and default-initialises it is built the same way). No
  handler surrounds the placement \<open>new\<close>, and nothing after it writes to the payload.
\<close>

definition allocateShared :: "bool \<Rightarrow> bool \<Rightarrow> addr option \<Rightarrow> heap \<Rightarrow> (SharedPtr, heap) outcome" where
  "allocateShared self_observing ctor_throws raw_memory h =
     (case raw_memory of
        None \<Rightarrow> Fails (Exn BadAlloc) h
      | Some a \<Rightarrow>
          (let h1 = h\<lparr>allocated := insert a (allocated h)\<rparr>
           in if ctor_throws then Fails (Exn PayloadCtorThrew) h1
              else
                Returns \<lparr>sp_ptr = None, sp_cb = Some a\<rparr>
                  (h1\<lparr>blocks := (blocks h1)(a \<mapsto> \<lparr>shared = 1, weak = 0\<rparr>),
                      payload_wptr := (payload_wptr h1)
                        (a := if self_observing then Some WeakPtr_default else None)\<rparr>)))"

text \<open>Lines 556-570: the same steps with \<open>std::allocator\<close>.\<close>

definition makeShared :: "bool \<Rightarrow> bool \<Rightarrow> addr option \<Rightarrow> heap \<Rightarrow> (SharedPtr, heap) outcome" where
  "makeShared self_observing ctor_throws raw_memory h =
     (case raw_memory of
        None \<Rightarrow> Fails (Exn BadAlloc) h
      | Some a \<Rightarrow>
          (let h1 = h\<lparr>allocated := insert a (allocated h)\<rparr>
           in if ctor_throws then Fails (Exn PayloadCtorThrew) h1
              else
                Returns \<lparr>sp_ptr = None, sp_cb = Some a\<rparr>
                  (h1\<lparr>blocks := (blocks h1)(a \<mapsto> \<lparr>shared = 1, weak = 0\<rparr>),
                      payload_wptr := (payload_wptr h1)
                        (a := if self_observing then Some WeakPtr_default else None)\<rparr>)))"

text \<open>
  A heap with nothing allocated, the heap holding one block whose payload has no weak
  handle member, and the heap holding one block whose payload's weak handle member holds
  that block.
\<close>

definition empty_heap :: heap where
  "empty_heap = \<lparr>allocated = {}, blocks = Map.empty, payload_wptr = Map.empty, trace = []\<rparr>"

definition one_block :: "addr \<Rightarrow> size_t \<Rightarrow> size_t \<Rightarrow> heap" where
  "one_block a s w =
     \<lparr>allocated = {a}, blocks = [a \<mapsto> \<lparr>shared = s, weak = w\<rparr>], payload_wptr = Map.empty,
      trace = []\<rparr>"

definition self_weak_block :: "addr \<Rightarrow> size_t \<Rightarrow> size_t \<Rightarrow> heap" where
  "self_weak_block a s w =
     \<lparr>allocated = {a}, blocks = [a \<mapsto> \<lparr>shared = s, weak = w\<rparr>],
      payload_wptr = [a \<mapsto> \<lparr>wp_ptr = Some (Trailing a), wp_cb = Some a\<rparr>], trace = []\<rparr>"

section \<open>Programs over handle objects\<close>

text \<open>
  Assignment compares addresses of handle objects, and a moved-from or swapped object is
  changed in place, so sequences of operations run on a world: the heap and the live
  strong and weak handle objects, each named by its position. A declaration appends the
  new object, the end of an object's lifetime runs its destructor and removes it, and a
  local of a member function lives behind the objects of the caller until the function
  returns. Naming a position that holds no object is the fault \<open>NoObject\<close>.
\<close>

record world =
  hp :: heap
  sps :: "SharedPtr list"
  wps :: "WeakPtr list"

definition and_then :: "('a, 's) outcome \<Rightarrow> ('a \<Rightarrow> 's \<Rightarrow> ('b, 's) outcome) \<Rightarrow> ('b, 's) outcome" where
  "and_then r f = (case r of Returns x s \<Rightarrow> f x s | Fails e s \<Rightarrow> Fails e s)"

definition on_heap :: "world \<Rightarrow> ('a, heap) outcome \<Rightarrow> ('a, world) outcome" where
  "on_heap w r =
     (case r of Returns x h \<Rightarrow> Returns x (w\<lparr>hp := h\<rparr>) | Fails e h \<Rightarrow> Fails e (w\<lparr>hp := h\<rparr>))"

definition drop_nth :: "nat \<Rightarrow> 'a list \<Rightarrow> 'a list" where
  "drop_nth i xs = take i xs @ drop (Suc i) xs"

subsection \<open>Strong handle objects\<close>

definition decl_SharedPtr :: "world \<Rightarrow> (unit, world) outcome" where
  "decl_SharedPtr w = Returns () (w\<lparr>sps := sps w @ [SharedPtr_default]\<rparr>)"

definition decl_SharedPtr_copy :: "nat \<Rightarrow> world \<Rightarrow> (unit, world) outcome" where
  "decl_SharedPtr_copy j w =
     (if j < length (sps w)
      then and_then (on_heap w (SharedPtr_copy (sps w ! j) (hp w)))
             (\<lambda>s w1. Returns () (w1\<lparr>sps := sps w1 @ [s]\<rparr>))
      else Fails (UB NoObject) w)"

definition decl_SharedPtr_copy_cov :: "nat \<Rightarrow> world \<Rightarrow> (unit, world) outcome" where
  "decl_SharedPtr_copy_cov j w =
     (if j < length (sps w)
      then and_then (on_heap w (SharedPtr_copy_cov (sps w ! j) (hp w)))
             (\<lambda>s w1. Returns () (w1\<lparr>sps := sps w1 @ [s]\<rparr>))
      else Fails (UB NoObject) w)"

definition decl_SharedPtr_move :: "nat \<Rightarrow> world \<Rightarrow> (unit, world) outcome" where
  "decl_SharedPtr_move j w =
     (if j < length (sps w)
      then (case SharedPtr_move (sps w ! j) of
              (s, shptr) \<Rightarrow> Returns () (w\<lparr>sps := (sps w)[j := shptr] @ [s]\<rparr>))
      else Fails (UB NoObject) w)"

definition decl_SharedPtr_lock :: "nat \<Rightarrow> world \<Rightarrow> (unit, world) outcome" where
  "decl_SharedPtr_lock k w =
     (if k < length (wps w)
      then and_then (on_heap w (WeakPtr_lock (wps w ! k) (hp w)))
             (\<lambda>s w1. Returns () (w1\<lparr>sps := sps w1 @ [s]\<rparr>))
      else Fails (UB NoObject) w)"

definition SharedPtr_swap_at :: "nat \<Rightarrow> nat \<Rightarrow> world \<Rightarrow> (unit, world) outcome" where
  "SharedPtr_swap_at i j w =
     (if i < length (sps w) \<and> j < length (sps w)
      then (case SharedPtr_swap (sps w ! i) (sps w ! j) of
              (this, other) \<Rightarrow> Returns () (w\<lparr>sps := (sps w)[i := this, j := other]\<rparr>))
      else Fails (UB NoObject) w)"

definition end_SharedPtr :: "nat \<Rightarrow> world \<Rightarrow> (unit, world) outcome" where
  "end_SharedPtr i w =
     (if i < length (sps w)
      then and_then (on_heap w (SharedPtr_destructor (sps w ! i) (hp w)))
             (\<lambda>_ w1. Returns () (w1\<lparr>sps := drop_nth i (sps w1)\<rparr>))
      else Fails (UB NoObject) w)"

definition SharedPtr_reset_at :: "nat \<Rightarrow> world \<Rightarrow> (unit, world) outcome" where
  "SharedPtr_reset_at i w =
     (if i < length (sps w)
      then and_then (on_heap w (SharedPtr_reset (sps w ! i) (hp w)))
             (\<lambda>s w1. Returns () (w1\<lparr>sps := (sps w1)[i := s]\<rparr>))
      else Fails (UB NoObject) w)"

text \<open>
  Lines 222-255, \<open>operator=\<close>. The local \<open>copy\<close> is the object behind the caller's, at
  position \<open>length (sps w)\<close>; it is destroyed when the operator returns. Only the
  same-type copy assignment compares \<open>this\<close> with the address of its argument.
\<close>

definition SharedPtr_assign :: "nat \<Rightarrow> nat \<Rightarrow> world \<Rightarrow> (unit, world) outcome" where
  "SharedPtr_assign i j w =
     (if i < length (sps w)
      then if i = j then Returns () w
           else and_then (decl_SharedPtr_copy j w)
                  (\<lambda>_ w1. and_then (SharedPtr_swap_at i (length (sps w)) w1)
                     (\<lambda>_ w2. end_SharedPtr (length (sps w)) w2))
      else Fails (UB NoObject) w)"

definition SharedPtr_assign_cov :: "nat \<Rightarrow> nat \<Rightarrow> world \<Rightarrow> (unit, world) outcome" where
  "SharedPtr_assign_cov i j w =
     (if i < length (sps w)
      then and_then (decl_SharedPtr_copy_cov j w)
             (\<lambda>_ w1. and_then (SharedPtr_swap_at i (length (sps w)) w1)
                (\<lambda>_ w2. end_SharedPtr (length (sps w)) w2))
      else Fails (UB NoObject) w)"

definition SharedPtr_assign_move :: "nat \<Rightarrow> nat \<Rightarrow> world \<Rightarrow> (unit, world) outcome" where
  "SharedPtr_assign_move i j w =
     (if i < length (sps w)
      then and_then (decl_SharedPtr_move j w)
             (\<lambda>_ w1. and_then (SharedPtr_swap_at i (length (sps w)) w1)
                (\<lambda>_ w2. end_SharedPtr (length (sps w)) w2))
      else Fails (UB NoObject) w)"

subsection \<open>Weak handle objects\<close>

definition decl_WeakPtr :: "world \<Rightarrow> (unit, world) outcome" where
  "decl_WeakPtr w = Returns () (w\<lparr>wps := wps w @ [WeakPtr_default]\<rparr>)"

definition decl_WeakPtr_from_shared :: "nat \<Rightarrow> world \<Rightarrow> (unit, world) outcome" where
  "decl_WeakPtr_from_shared j w =
     (if j < length (sps w)
      then and_then (on_heap w (WeakPtr_from_shared (sps w ! j) (hp w)))
             (\<lambda>x w1. Returns () (w1\<lparr>wps := wps w1 @ [x]\<rparr>))
      else Fails (UB NoObject) w)"

definition decl_WeakPtr_from_shared_cov :: "nat \<Rightarrow> world \<Rightarrow> (unit, world) outcome" where
  "decl_WeakPtr_from_shared_cov j w =
     (if j < length (sps w)
      then and_then (on_heap w (WeakPtr_from_shared_cov (sps w ! j) (hp w)))
             (\<lambda>x w1. Returns () (w1\<lparr>wps := wps w1 @ [x]\<rparr>))
      else Fails (UB NoObject) w)"

definition decl_WeakPtr_copy :: "nat \<Rightarrow> world \<Rightarrow> (unit, world) outcome" where
  "decl_WeakPtr_copy k w =
     (if k < length (wps w)
      then and_then (on_heap w (WeakPtr_copy (wps w ! k) (hp w)))
             (\<lambda>x w1. Returns () (w1\<lparr>wps := wps w1 @ [x]\<rparr>))
      else Fails (UB NoObject) w)"

definition decl_WeakPtr_copy_cov :: "nat \<Rightarrow> world \<Rightarrow> (unit, world) outcome" where
  "decl_WeakPtr_copy_cov k w =
     (if k < length (wps w)
      then and_then (on_heap w (WeakPtr_copy_cov (wps w ! k) (hp w)))
             (\<lambda>x w1. Returns () (w1\<lparr>wps := wps w1 @ [x]\<rparr>))
      else Fails (UB NoObject) w)"

definition decl_WeakPtr_move :: "nat \<Rightarrow> world \<Rightarrow> (unit, world) outcome" where
  "decl_WeakPtr_move k w =
     (if k < length (wps w)
      then (case WeakPtr_move (wps w ! k) of
              (x, wptr) \<Rightarrow> Returns () (w\<lparr>wps := (wps w)[k := wptr] @ [x]\<rparr>))
      else Fails (UB NoObject) w)"

definition WeakPtr_swap_at :: "nat \<Rightarrow> nat \<Rightarrow> world \<Rightarrow> (unit, world) outcome" where
  "WeakPtr_swap_at k l w =
     (if k < length (wps w) \<and> l < length (wps w)
      then (case WeakPtr_swap (wps w ! k) (wps w ! l) of
              (this, other) \<Rightarrow> Returns () (w\<lparr>wps := (wps w)[k := this, l := other]\<rparr>))
      else Fails (UB NoObject) w)"

definition end_WeakPtr :: "nat \<Rightarrow> world \<Rightarrow> (unit, world) outcome" where
  "end_WeakPtr k w =
     (if k < length (wps w)
      then and_then (on_heap w (WeakPtr_destructor (wps w ! k) (hp w)))
             (\<lambda>_ w1. Returns () (w1\<lparr>wps := drop_nth k (wps w1)\<rparr>))
      else Fails (UB NoObject) w)"

text \<open>Lines 452-484, \<open>operator=\<close> of the weak handle, built the same way.\<close>

definition WeakPtr_assign :: "nat \<Rightarrow> nat \<Rightarrow> world \<Rightarrow> (unit, world) outcome" where
  "WeakPtr_assign k l w =
     (if k < length (wps w)
      then if k = l then Returns () w
           else and_then (decl_WeakPtr_copy l w)
                  (\<lambda>_ w1. and_then (WeakPtr_swap_at k (length (wps w)) w1)
                     (\<lambda>_ w2. end_WeakPtr (length (wps w)) w2))
      else Fails (UB NoObject) w)"

definition WeakPtr_assign_cov :: "nat \<Rightarrow> nat \<Rightarrow> world \<Rightarrow> (unit, world) outcome" where
  "WeakPtr_assign_cov k l w =
     (if k < length (wps w)
      then and_then (decl_WeakPtr_copy_cov l w)
             (\<lambda>_ w1. and_then (WeakPtr_swap_at k (length (wps w)) w1)
                (\<lambda>_ w2. end_WeakPtr (length (wps w)) w2))
      else Fails (UB NoObject) w)"

definition WeakPtr_assign_move :: "nat \<Rightarrow> nat \<Rightarrow> world \<Rightarrow> (unit, world) outcome" where
  "WeakPtr_assign_move k l w =
     (if k < length (wps w)
      then and_then (decl_WeakPtr_move l w)
             (\<lambda>_ w1. and_then (WeakPtr_swap_at k (length (wps w)) w1)
                (\<lambda>_ w2. end_WeakPtr (length (wps w)) w2))
      else Fails (UB NoObject) w)"

subsection \<open>The weak handle member of the payload\<close>

text \<open>
  \<open>sps[i]->member = wps[l]\<close>, \<open>sps[i]->member = std::move(wps[l])\<close> and
  \<open>sps[i]->member.lock()\<close>, the last being what \<open>sps[i]->shared_from_this()\<close> runs.
\<close>

definition payload_WeakPtr_assign :: "nat \<Rightarrow> nat \<Rightarrow> world \<Rightarrow> (unit, world) outcome" where
  "payload_WeakPtr_assign i l w =
     (if i < length (sps w) \<and> l < length (wps w)
      then and_then (on_heap w (payload_of (sps w ! i) (hp w)))
             (\<lambda>a w1. and_then (on_heap w1 (payload_wptr_assign a (wps w1 ! l) (hp w1)))
                (\<lambda>_ w2. Returns () w2))
      else Fails (UB NoObject) w)"

definition payload_WeakPtr_assign_move :: "nat \<Rightarrow> nat \<Rightarrow> world \<Rightarrow> (unit, world) outcome" where
  "payload_WeakPtr_assign_move i l w =
     (if i < length (sps w) \<and> l < length (wps w)
      then and_then (on_heap w (payload_of (sps w ! i) (hp w)))
             (\<lambda>a w1. and_then (on_heap w1 (payload_wptr_assign_move a (wps w1 ! l) (hp w1)))
                (\<lambda>wptr w2. Returns () (w2\<lparr>wps := (wps w2)[l := wptr]\<rparr>)))
      else Fails (UB NoObject) w)"

definition payload_WeakPtr_lock :: "nat \<Rightarrow> world \<Rightarrow> (unit, world) outcome" where
  "payload_WeakPtr_lock i w =
     (if i < length (sps w)
      then and_then (on_heap w (payload_of (sps w ! i) (hp w)))
             (\<lambda>a w1. and_then (on_heap w1 (shared_from_this a (hp w1)))
                (\<lambda>s w2. Returns () (w2\<lparr>sps := sps w2 @ [s]\<rparr>)))
      else Fails (UB NoObject) w)"

subsection \<open>Sequences of operations\<close>

datatype op =
    NewShared
  | CopyShared nat
  | CopySharedCov nat
  | MoveShared nat
  | LockWeak nat
  | SwapShared nat nat
  | AssignShared nat nat
  | AssignSharedCov nat nat
  | AssignSharedMove nat nat
  | ResetShared nat
  | EndShared nat
  | NewWeak
  | WeakFromShared nat
  | WeakFromSharedCov nat
  | CopyWeak nat
  | CopyWeakCov nat
  | MoveWeak nat
  | AssignWeak nat nat
  | AssignWeakCov nat nat
  | AssignWeakMove nat nat
  | EndWeak nat
  | AssignPayloadWeak nat nat
  | AssignPayloadWeakMove nat nat
  | LockPayloadWeak nat

fun exec :: "op \<Rightarrow> world \<Rightarrow> (unit, world) outcome" where
  "exec NewShared w = decl_SharedPtr w"
| "exec (CopyShared j) w = decl_SharedPtr_copy j w"
| "exec (CopySharedCov j) w = decl_SharedPtr_copy_cov j w"
| "exec (MoveShared j) w = decl_SharedPtr_move j w"
| "exec (LockWeak k) w = decl_SharedPtr_lock k w"
| "exec (SwapShared i j) w = SharedPtr_swap_at i j w"
| "exec (AssignShared i j) w = SharedPtr_assign i j w"
| "exec (AssignSharedCov i j) w = SharedPtr_assign_cov i j w"
| "exec (AssignSharedMove i j) w = SharedPtr_assign_move i j w"
| "exec (ResetShared i) w = SharedPtr_reset_at i w"
| "exec (EndShared i) w = end_SharedPtr i w"
| "exec NewWeak w = decl_WeakPtr w"
| "exec (WeakFromShared j) w = decl_WeakPtr_from_shared j w"
| "exec (WeakFromSharedCov j) w = decl_WeakPtr_from_shared_cov j w"
| "exec (CopyWeak k) w = decl_WeakPtr_copy k w"
| "exec (CopyWeakCov k) w = decl_WeakPtr_copy_cov k w"
| "exec (MoveWeak k) w = decl_WeakPtr_move k w"
| "exec (AssignWeak k l) w = WeakPtr_assign k l w"
| "exec (AssignWeakCov k l) w = WeakPtr_assign_cov k l w"
| "exec (AssignWeakMove k l) w = WeakPtr_assign_move k l w"
| "exec (EndWeak k) w = end_WeakPtr k w"
| "exec (AssignPayloadWeak i l) w = payload_WeakPtr_assign i l w"
| "exec (AssignPayloadWeakMove i l) w = payload_WeakPtr_assign_move i l w"
| "exec (LockPayloadWeak i) w = payload_WeakPtr_lock i w"

text \<open>The operations that are member functions of the weak handle.\<close>

fun weak_op :: "op \<Rightarrow> bool" where
  "weak_op NewWeak = True"
| "weak_op (WeakFromShared j) = True"
| "weak_op (WeakFromSharedCov j) = True"
| "weak_op (CopyWeak k) = True"
| "weak_op (CopyWeakCov k) = True"
| "weak_op (MoveWeak k) = True"
| "weak_op (AssignWeak k l) = True"
| "weak_op (AssignWeakCov k l) = True"
| "weak_op (AssignWeakMove k l) = True"
| "weak_op (EndWeak k) = True"
| "weak_op (LockWeak k) = True"
| "weak_op (AssignPayloadWeak i l) = True"
| "weak_op (AssignPayloadWeakMove i l) = True"
| "weak_op (LockPayloadWeak i) = True"
| "weak_op _ = False"

fun run :: "op list \<Rightarrow> world \<Rightarrow> (unit, world) outcome" where
  "run [] w = Returns () w"
| "run (x # xs) w = (case exec x w of Returns _ w' \<Rightarrow> run xs w' | Fails e w' \<Rightarrow> Fails e w')"

text \<open>
  The world a program starts in: \<open>makeShared\<close> has built one block at \<open>a\<close> and the
  program holds the strong handle it returned; \<open>self_observing\<close> says whether the
  payload has a weak handle member.
\<close>

definition world_of :: "(SharedPtr, heap) outcome \<Rightarrow> world" where
  "world_of r =
     (case r of
        Returns sp h \<Rightarrow> \<lparr>hp = h, sps = [sp], wps = []\<rparr>
      | Fails e h \<Rightarrow> \<lparr>hp = h, sps = [], wps = []\<rparr>)"

definition after_makeShared :: "bool \<Rightarrow> addr \<Rightarrow> world" where
  "after_makeShared self_observing a =
     world_of (makeShared self_observing False (Some a) empty_heap)"

text \<open>The number of live strong handle objects that hold the block at \<open>a\<close>.\<close>

definition strong_refs :: "addr \<Rightarrow> world \<Rightarrow> nat" where
  "strong_refs a w = length (filter (\<lambda>s. sp_cb s = Some a) (sps w))"

fun is_Destroy :: "event \<Rightarrow> bool" where
  "is_Destroy (Destroy a) = True"
| "is_Destroy (Deallocate a) = False"

fun is_Deallocate :: "event \<Rightarrow> bool" where
  "is_Deallocate (Destroy a) = False"
| "is_Deallocate (Deallocate a) = True"

text \<open>
  The strong count of the block at \<open>a\<close> agrees with the live strong handle objects:
  every handle, the payload's member included, holds this block or none; while a strong
  object holds the block it is allocated, its strong count is the number of those
  objects and \<open>destroy()\<close> has not been called; when none holds it \<open>destroy()\<close> has been
  called once and the strong count, if the block is still allocated, is 0.
\<close>

definition strong_consistent :: "addr \<Rightarrow> world \<Rightarrow> bool" where
  "strong_consistent a w =
     ((\<forall>s \<in> set (sps w). sp_cb s = None \<or> sp_cb s = Some a) \<and>
      (\<forall>x \<in> set (wps w). wp_cb x = None \<or> wp_cb x = Some a) \<and>
      (\<forall>a' m. payload_wptr (hp w) a' = Some m \<longrightarrow> wp_cb m = None \<or> wp_cb m = Some a) \<and>
      (if strong_refs a w = 0
       then filter is_Destroy (trace (hp w)) = [Destroy a] \<and>
            (\<forall>b. blocks (hp w) a = Some b \<longrightarrow> shared b = 0)
       else filter is_Destroy (trace (hp w)) = [] \<and>
            (\<exists>b. blocks (hp w) a = Some b \<and> unat (shared b) = strong_refs a w)))"

text \<open>
  What a member function of the weak handle other than \<open>lock()\<close> may do to the block at
  \<open>a\<close>: the strong count stays, the block is deallocated only with a strong count of 0,
  no block appears, and \<open>destroy()\<close> is not called. And what it may do to the weak
  handle members of the payloads: each is as it was, unless its payload is gone.
\<close>

definition weak_step :: "addr \<Rightarrow> heap \<Rightarrow> heap \<Rightarrow> bool" where
  "weak_step a h h' =
     ((case blocks h a of
         None \<Rightarrow> blocks h' a = None
       | Some b \<Rightarrow> (case blocks h' a of None \<Rightarrow> shared b = 0 | Some b' \<Rightarrow> shared b' = shared b)) \<and>
      filter is_Destroy (trace h') = filter is_Destroy (trace h))"

definition members_kept :: "heap \<Rightarrow> heap \<Rightarrow> bool" where
  "members_kept h h' = (\<forall>a m. payload_wptr h' a = Some m \<longrightarrow> payload_wptr h a = Some m)"

text \<open>
  From the world \<open>w\<close> to the world \<open>w'\<close> no call of \<open>destroy()\<close> was added, or exactly one
  strong object held the block at \<open>a\<close> in \<open>w\<close> and the one call of \<open>destroy()\<close> on that
  block was added.
\<close>

definition last_release :: "addr \<Rightarrow> world \<Rightarrow> world \<Rightarrow> bool" where
  "last_release a w w' =
     (filter is_Destroy (trace (hp w')) = filter is_Destroy (trace (hp w)) \<or>
      strong_refs a w = 1 \<and> filter is_Destroy (trace (hp w')) = [Destroy a])"

text \<open>
  Whether an operation returned, and the state it left, whether it returned or failed.
\<close>

fun returns :: "('a, 's) outcome \<Rightarrow> bool" where
  "returns (Returns x s) = True"
| "returns (Fails e s) = False"

fun final :: "('a, 's) outcome \<Rightarrow> 's" where
  "final (Returns x s) = s"
| "final (Fails e s) = s"

text \<open>The record of calls \<open>t'\<close> extends \<open>t\<close> by calls that all satisfy \<open>P\<close>.\<close>

definition emits :: "(event \<Rightarrow> bool) \<Rightarrow> event list \<Rightarrow> event list \<Rightarrow> bool" where
  "emits P t t' = (\<exists>u. t' = t @ u \<and> list_all P u)"


section \<open>Records and counters\<close>

lemma dec_zero_iff: "(x - 1 = 0) = (x = (1::size_t))"
  by (metis diff_add_cancel diff_self)

lemma SharedPtr_eta [simp]: "\<lparr>sp_ptr = sp_ptr s, sp_cb = sp_cb s\<rparr> = s"
  by simp

lemma WeakPtr_eta [simp]: "\<lparr>wp_ptr = wp_ptr w, wp_cb = wp_cb w\<rparr> = w"
  by simp

section \<open>Copying a strong handle\<close>

lemma SharedPtr_copy_block:
  assumes "sp_cb shptr = Some a" and "blocks h a = Some b"
  shows "SharedPtr_copy shptr h =
           Returns shptr (h\<lparr>blocks := (blocks h)(a \<mapsto> b\<lparr>shared := shared b + 1\<rparr>)\<rparr>)"
    and "SharedPtr_copy_cov shptr h =
           Returns shptr (h\<lparr>blocks := (blocks h)(a \<mapsto> b\<lparr>shared := shared b + 1\<rparr>)\<rparr>)"
  using assms by (simp_all add: SharedPtr_copy_def SharedPtr_copy_cov_def)

lemma SharedPtr_copy_empty:
  assumes "sp_cb shptr = None"
  shows "SharedPtr_copy shptr h = Returns shptr h"
    and "SharedPtr_copy_cov shptr h = Fails (UB NullDeref) h"
  using assms by (simp_all add: SharedPtr_copy_def SharedPtr_copy_cov_def)

text \<open>
  C10. The templated copy constructor of a strong handle needs a non-empty source. On a
  source that holds a live block it shares the block and increments the strong count, as
  the same-type copy constructor does. On an empty source the same-type constructor
  returns an empty handle and touches nothing, while the templated one increments through
  the null pointer; and that is the only way it gets there.
\<close>

theorem SharedPtr_copy_cov_needs_source:
  "(\<forall>a b. sp_cb shptr = Some a \<and> blocks h a = Some b \<longrightarrow>
      SharedPtr_copy_cov shptr h =
        Returns \<lparr>sp_ptr = sp_ptr shptr, sp_cb = Some a\<rparr>
          (h\<lparr>blocks := (blocks h)(a \<mapsto> b\<lparr>shared := shared b + 1\<rparr>)\<rparr>) \<and>
      SharedPtr_copy shptr h = SharedPtr_copy_cov shptr h) \<and>
   (sp_cb shptr = None \<longrightarrow>
      SharedPtr_copy_cov shptr h = Fails (UB NullDeref) h \<and>
      SharedPtr_copy shptr h = Returns \<lparr>sp_ptr = sp_ptr shptr, sp_cb = None\<rparr> h) \<and>
   ((\<exists>h'. SharedPtr_copy_cov shptr h = Fails (UB NullDeref) h') \<longleftrightarrow> sp_cb shptr = None)"
proof (intro conjI allI impI)
  fix a b
  assume "sp_cb shptr = Some a \<and> blocks h a = Some b"
  then show "SharedPtr_copy_cov shptr h =
      Returns \<lparr>sp_ptr = sp_ptr shptr, sp_cb = Some a\<rparr>
        (h\<lparr>blocks := (blocks h)(a \<mapsto> b\<lparr>shared := shared b + 1\<rparr>)\<rparr>)"
    and "SharedPtr_copy shptr h = SharedPtr_copy_cov shptr h"
    by (simp_all add: SharedPtr_copy_def SharedPtr_copy_cov_def)
next
  assume "sp_cb shptr = None"
  then show "SharedPtr_copy_cov shptr h = Fails (UB NullDeref) h"
    and "SharedPtr_copy shptr h = Returns \<lparr>sp_ptr = sp_ptr shptr, sp_cb = None\<rparr> h"
    by (simp_all add: SharedPtr_copy_def SharedPtr_copy_cov_def)
next
  show "(\<exists>h'. SharedPtr_copy_cov shptr h = Fails (UB NullDeref) h') \<longleftrightarrow> sp_cb shptr = None"
    by (auto simp: SharedPtr_copy_cov_def split: option.splits)
qed

theorem SharedPtr_copy_cov_needs_source_witness:
  "SharedPtr_copy_cov \<lparr>sp_ptr = None, sp_cb = Some 0\<rparr> (one_block 0 1 0) =
     Returns \<lparr>sp_ptr = None, sp_cb = Some 0\<rparr> (one_block 0 2 0) \<and>
   SharedPtr_copy_cov \<lparr>sp_ptr = None, sp_cb = None\<rparr> (one_block 0 1 0) =
     Fails (UB NullDeref) (one_block 0 1 0) \<and>
   SharedPtr_copy \<lparr>sp_ptr = None, sp_cb = None\<rparr> (one_block 0 1 0) =
     Returns \<lparr>sp_ptr = None, sp_cb = None\<rparr> (one_block 0 1 0)"
  using SharedPtr_copy_cov_needs_source [of "\<lparr>sp_ptr = None, sp_cb = Some 0\<rparr>" "one_block 0 1 0"]
    SharedPtr_copy_cov_needs_source [of "\<lparr>sp_ptr = None, sp_cb = None\<rparr>" "one_block 0 1 0"]
  by (simp add: one_block_def)

section \<open>Making and copying weak handles\<close>

lemma WeakPtr_copy_block:
  assumes "wp_cb wptr = Some a" and "blocks h a = Some b"
  shows "WeakPtr_copy wptr h =
           Returns wptr (h\<lparr>blocks := (blocks h)(a \<mapsto> b\<lparr>weak := weak b + 1\<rparr>)\<rparr>)"
    and "WeakPtr_copy_cov wptr h =
           Returns wptr (h\<lparr>blocks := (blocks h)(a \<mapsto> b\<lparr>weak := weak b + 1\<rparr>)\<rparr>)"
  using assms by (simp_all add: WeakPtr_copy_def WeakPtr_copy_cov_def)

lemma WeakPtr_copy_empty:
  assumes "wp_cb wptr = None"
  shows "WeakPtr_copy wptr h = Fails (UB NullDeref) h"
    and "WeakPtr_copy_cov wptr h = Returns wptr h"
  using assms by (simp_all add: WeakPtr_copy_def WeakPtr_copy_cov_def)

lemma WeakPtr_from_shared_block:
  assumes "sp_cb sp = Some a" and "blocks h a = Some b"
  shows "WeakPtr_from_shared sp h =
           Returns \<lparr>wp_ptr = SharedPtr_get sp, wp_cb = Some a\<rparr>
             (h\<lparr>blocks := (blocks h)(a \<mapsto> b\<lparr>weak := weak b + 1\<rparr>)\<rparr>)"
    and "WeakPtr_from_shared_cov sp h =
           Returns \<lparr>wp_ptr = SharedPtr_get sp, wp_cb = Some a\<rparr>
             (h\<lparr>blocks := (blocks h)(a \<mapsto> b\<lparr>weak := weak b + 1\<rparr>)\<rparr>)"
  using assms by (simp_all add: WeakPtr_from_shared_def WeakPtr_from_shared_cov_def)

lemma WeakPtr_from_shared_empty:
  assumes "sp_cb sp = None"
  shows "WeakPtr_from_shared sp h = Fails (UB NullDeref) h"
    and "WeakPtr_from_shared_cov sp h = Returns \<lparr>wp_ptr = SharedPtr_get sp, wp_cb = None\<rparr> h"
  using assms by (simp_all add: WeakPtr_from_shared_def WeakPtr_from_shared_cov_def)

text \<open>
  C9. A weak handle constructed from a strong handle that holds a live block shares the
  block and increments the weak count, through either overload. On an empty source the
  non-templated overload increments through the null pointer (undefined behaviour), while
  the templated one returns a weak handle without a block and touches no counter.
\<close>

theorem WeakPtr_from_SharedPtr:
  "(\<forall>a b. sp_cb sp = Some a \<and> blocks h a = Some b \<longrightarrow>
      WeakPtr_from_shared sp h =
        Returns \<lparr>wp_ptr = SharedPtr_get sp, wp_cb = Some a\<rparr>
          (h\<lparr>blocks := (blocks h)(a \<mapsto> b\<lparr>weak := weak b + 1\<rparr>)\<rparr>) \<and>
      WeakPtr_from_shared_cov sp h = WeakPtr_from_shared sp h) \<and>
   (sp_cb sp = None \<longrightarrow>
      WeakPtr_from_shared sp h = Fails (UB NullDeref) h \<and>
      WeakPtr_from_shared_cov sp h = Returns \<lparr>wp_ptr = SharedPtr_get sp, wp_cb = None\<rparr> h)"
  by (simp add: WeakPtr_from_shared_def WeakPtr_from_shared_cov_def)

theorem WeakPtr_from_SharedPtr_witness:
  "WeakPtr_from_shared \<lparr>sp_ptr = None, sp_cb = Some 0\<rparr> (one_block 0 1 0) =
     Returns \<lparr>wp_ptr = Some (Trailing 0), wp_cb = Some 0\<rparr> (one_block 0 1 1) \<and>
   WeakPtr_from_shared_cov \<lparr>sp_ptr = None, sp_cb = Some 0\<rparr> (one_block 0 1 0) =
     Returns \<lparr>wp_ptr = Some (Trailing 0), wp_cb = Some 0\<rparr> (one_block 0 1 1) \<and>
   WeakPtr_from_shared \<lparr>sp_ptr = None, sp_cb = None\<rparr> (one_block 0 1 0) =
     Fails (UB NullDeref) (one_block 0 1 0) \<and>
   WeakPtr_from_shared_cov \<lparr>sp_ptr = None, sp_cb = None\<rparr> (one_block 0 1 0) =
     Returns \<lparr>wp_ptr = None, wp_cb = None\<rparr> (one_block 0 1 0)"
  using WeakPtr_from_SharedPtr [of "\<lparr>sp_ptr = None, sp_cb = Some 0\<rparr>" "one_block 0 1 0"]
    WeakPtr_from_SharedPtr [of "\<lparr>sp_ptr = None, sp_cb = None\<rparr>" "one_block 0 1 0"]
  by (simp add: one_block_def SharedPtr_get_def get_ptr_def)

text \<open>
  C6. The same-type copy constructor of a weak handle shares the block of a non-empty
  source and increments the weak count. On an empty source it is not well-defined: it
  increments through the null pointer, where the templated weak copy constructor and the
  same-type strong copy constructor return an empty handle and touch no counter.
\<close>

theorem WeakPtr_copy_empty_source:
  "WeakPtr_copy WeakPtr_default h = Fails (UB NullDeref) h \<and>
   WeakPtr_copy_cov WeakPtr_default h = Returns WeakPtr_default h \<and>
   SharedPtr_copy SharedPtr_default h = Returns SharedPtr_default h"
  by (simp add: WeakPtr_copy_def WeakPtr_copy_cov_def SharedPtr_copy_def WeakPtr_default_def
      SharedPtr_default_def)

section \<open>Upgrading a weak handle\<close>

lemma WeakPtr_lock_empty:
  assumes "wp_cb this = None"
  shows "WeakPtr_lock this h = Returns SharedPtr_default h"
  using assms by (simp add: WeakPtr_lock_def WeakPtr_expired_def WeakPtr_use_count_def)

lemma WeakPtr_lock_expired:
  assumes "wp_cb this = Some a" and "blocks h a = Some b" and "shared b = 0"
  shows "WeakPtr_lock this h = Returns SharedPtr_default h"
  using assms by (simp add: WeakPtr_lock_def WeakPtr_expired_def WeakPtr_use_count_def)

lemma WeakPtr_lock_live:
  assumes "wp_cb this = Some a" and "blocks h a = Some b" and "shared b \<noteq> 0"
    and "weak b \<noteq> 0"
  shows "WeakPtr_lock this h =
    Returns \<lparr>sp_ptr = (case wp_ptr this of None \<Rightarrow> Some (get_ptr a) | Some p \<Rightarrow> Some p),
             sp_cb = Some a\<rparr>
      (h\<lparr>blocks := (blocks h)(a \<mapsto> b\<lparr>shared := shared b + 1\<rparr>)\<rparr>)"
  using assms
  by (simp add: WeakPtr_lock_def WeakPtr_expired_def WeakPtr_use_count_def WeakPtr_copy_def
      SharedPtr_from_weak_def WeakPtr_destructor_def WeakPtr_clear_def Let_def)

text \<open>
  C5. \<open>lock()\<close> of a weak handle always returns. An empty handle, and a handle whose block
  has strong count 0, give an empty strong handle, whose \<open>use_count()\<close> is 0. A handle
  whose block has a positive strong count (the block counts the weak handle itself, so
  its weak count is not 0) gives a strong handle on the same block, and the strong count
  is incremented by 1. \<open>use_count()\<close> of the weak handle is the block's strong count, and 0
  for an empty handle.
\<close>

theorem WeakPtr_lock_never_fails:
  "(wp_cb this = None \<longrightarrow>
      WeakPtr_lock this h = Returns SharedPtr_default h \<and>
      WeakPtr_use_count this h = Returns 0 h) \<and>
   (\<forall>a b. wp_cb this = Some a \<and> blocks h a = Some b \<and> shared b = 0 \<longrightarrow>
      WeakPtr_lock this h = Returns SharedPtr_default h \<and>
      WeakPtr_use_count this h = Returns 0 h) \<and>
   (\<forall>a b. wp_cb this = Some a \<and> blocks h a = Some b \<and> shared b \<noteq> 0 \<and> weak b \<noteq> 0 \<longrightarrow>
      (\<exists>p. WeakPtr_lock this h =
         Returns \<lparr>sp_ptr = p, sp_cb = Some a\<rparr>
           (h\<lparr>blocks := (blocks h)(a \<mapsto> b\<lparr>shared := shared b + 1\<rparr>)\<rparr>)) \<and>
      WeakPtr_use_count this h = Returns (shared b) h) \<and>
   SharedPtr_use_count SharedPtr_default h = Returns 0 h"
proof (intro conjI allI impI)
  assume "wp_cb this = None"
  then show "WeakPtr_lock this h = Returns SharedPtr_default h"
    and "WeakPtr_use_count this h = Returns 0 h"
    by (simp_all add: WeakPtr_lock_empty WeakPtr_use_count_def)
next
  fix a b
  assume "wp_cb this = Some a \<and> blocks h a = Some b \<and> shared b = 0"
  then show "WeakPtr_lock this h = Returns SharedPtr_default h"
    and "WeakPtr_use_count this h = Returns 0 h"
    by (simp_all add: WeakPtr_lock_expired WeakPtr_use_count_def)
next
  fix a b
  assume live: "wp_cb this = Some a \<and> blocks h a = Some b \<and> shared b \<noteq> 0 \<and> weak b \<noteq> 0"
  then show "\<exists>p. WeakPtr_lock this h =
      Returns \<lparr>sp_ptr = p, sp_cb = Some a\<rparr>
        (h\<lparr>blocks := (blocks h)(a \<mapsto> b\<lparr>shared := shared b + 1\<rparr>)\<rparr>)"
    using WeakPtr_lock_live [of this a h b] by blast
  from live show "WeakPtr_use_count this h = Returns (shared b) h"
    by (simp add: WeakPtr_use_count_def)
next
  show "SharedPtr_use_count SharedPtr_default h = Returns 0 h"
    by (simp add: SharedPtr_use_count_def SharedPtr_default_def)
qed

theorem WeakPtr_lock_never_fails_witness:
  "WeakPtr_lock \<lparr>wp_ptr = None, wp_cb = None\<rparr> (one_block 0 1 1) =
     Returns SharedPtr_default (one_block 0 1 1) \<and>
   WeakPtr_lock \<lparr>wp_ptr = None, wp_cb = Some 0\<rparr> (one_block 0 0 1) =
     Returns SharedPtr_default (one_block 0 0 1) \<and>
   (\<exists>p. WeakPtr_lock \<lparr>wp_ptr = None, wp_cb = Some 0\<rparr> (one_block 0 1 1) =
     Returns \<lparr>sp_ptr = p, sp_cb = Some 0\<rparr> (one_block 0 2 1)) \<and>
   WeakPtr_use_count \<lparr>wp_ptr = None, wp_cb = Some 0\<rparr> (one_block 0 1 1) =
     Returns 1 (one_block 0 1 1)"
  using WeakPtr_lock_never_fails [of "\<lparr>wp_ptr = None, wp_cb = None\<rparr>" "one_block 0 1 1"]
    WeakPtr_lock_never_fails [of "\<lparr>wp_ptr = None, wp_cb = Some 0\<rparr>" "one_block 0 0 1"]
    WeakPtr_lock_never_fails [of "\<lparr>wp_ptr = None, wp_cb = Some 0\<rparr>" "one_block 0 1 1"]
  by (simp add: one_block_def)

section \<open>Construction helpers\<close>

text \<open>
  C4. A payload type that derives from \<open>EnableSharedFromThis\<close> is constructed by
  \<open>makeShared\<close> or \<open>allocateShared\<close>. The helper returns a strong handle on the new block
  with \<open>use_count()\<close> 1, and leaves the payload's \<open>wptr\<close> as its default constructor made
  it: \<open>shared_from_this()\<close> then returns an empty strong handle, with \<open>use_count()\<close> 0, and
  the strong count of the block stays 1.
\<close>

theorem shared_from_this_after_helper:
  "(case makeShared True False (Some a) h of
      Fails e h' \<Rightarrow> False
    | Returns sp h' \<Rightarrow>
        sp_cb sp = Some a \<and> SharedPtr_use_count sp h' = Returns 1 h' \<and>
        payload_wptr h' a = Some WeakPtr_default \<and>
        shared_from_this a h' = Returns SharedPtr_default h' \<and>
        SharedPtr_use_count SharedPtr_default h' = Returns 0 h') \<and>
   allocateShared True False (Some a) h = makeShared True False (Some a) h"
  by (simp add: makeShared_def allocateShared_def Let_def SharedPtr_use_count_def
      shared_from_this_def WeakPtr_default_def SharedPtr_default_def WeakPtr_lock_empty)

text \<open>
  C7, as the code has it. When the allocation succeeds and the payload's constructor
  throws, the exception reaches the caller of the helper; no control block, no payload
  and no strong handle exists, and no call of \<open>destroy()\<close> or \<open>deallocate()\<close> is made. The
  storage obtained from the allocator stays allocated: the helper does not give it back.
\<close>

theorem helper_payload_ctor_throws:
  "allocateShared so True (Some a) h =
     Fails (Exn PayloadCtorThrew) (h\<lparr>allocated := insert a (allocated h)\<rparr>) \<and>
   makeShared so True (Some a) h =
     Fails (Exn PayloadCtorThrew) (h\<lparr>allocated := insert a (allocated h)\<rparr>)"
  by (simp add: allocateShared_def makeShared_def Let_def)

text \<open>
  C7, as the specification has it: the intermediate allocation would be released. With
  nothing allocated before, address 0 is still allocated when the exception leaves
  either helper.
\<close>

theorem helper_payload_ctor_throws_leak:
  "allocateShared False True (Some 0) empty_heap =
     Fails (Exn PayloadCtorThrew) (empty_heap\<lparr>allocated := {0}\<rparr>) \<and>
   makeShared False True (Some 0) empty_heap =
     Fails (Exn PayloadCtorThrew) (empty_heap\<lparr>allocated := {0}\<rparr>) \<and>
   0 \<in> allocated (empty_heap\<lparr>allocated := {0}\<rparr>) \<and>
   allocated empty_heap = {}"
  by (simp add: allocateShared_def makeShared_def Let_def empty_heap_def)

section \<open>Counting handle objects\<close>

lemma inc_unat: "unat (x::size_t) < 2 ^ 64 - 1 \<Longrightarrow> unat (x + 1) = Suc (unat x)"
  using unat_add_lem [of x 1] by simp

lemma dec_unat: "(x::size_t) \<noteq> 0 \<Longrightarrow> unat (x - 1) = unat x - 1"
  by (rule unat_minus_one)

lemma cnt_split:
  "i < length xs \<Longrightarrow>
   length (filter P xs) =
   length (filter P (take i xs)) + (if P (xs ! i) then 1 else 0) +
   length (filter P (drop (Suc i) xs))"
  using arg_cong [OF id_take_nth_drop [of i xs], of "\<lambda>l. length (filter P l)"] by simp

lemma cnt_update:
  "i < length xs \<Longrightarrow>
   length (filter P (xs[i := y])) + (if P (xs ! i) then 1 else 0) =
   length (filter P xs) + (if P y then 1 else 0)"
  by (simp add: upd_conv_take_nth_drop cnt_split [of i xs P])

lemma cnt_drop_nth:
  "i < length xs \<Longrightarrow>
   length (filter P (drop_nth i xs)) + (if P (xs ! i) then 1 else 0) = length (filter P xs)"
  by (simp add: drop_nth_def cnt_split [of i xs P])

lemma cnt_pos: "i < length xs \<Longrightarrow> P (xs ! i) \<Longrightarrow> 0 < length (filter P xs)"
  by (metis filter_empty_conv length_greater_0_conv nth_mem)

lemma set_drop_nth: "set (drop_nth i xs) \<subseteq> set xs"
  unfolding drop_nth_def by (metis Un_least set_append set_drop_subset set_take_subset)

lemma length_drop_nth: "i < length xs \<Longrightarrow> length (drop_nth i xs) = length xs - 1"
  unfolding drop_nth_def by auto

section \<open>Releasing a strong handle\<close>

lemma SharedPtr_clear_empty: "sp_cb this = None \<Longrightarrow> SharedPtr_clear this h = Returns this h"
  by (simp add: SharedPtr_clear_def)

lemma WeakPtr_clear_empty: "wp_cb this = None \<Longrightarrow> WeakPtr_clear this h = Returns this h"
  by (simp add: WeakPtr_clear_def)

lemma SharedPtr_clear_not_last:
  assumes "sp_cb this = Some a" and "blocks h a = Some b" and "shared b \<noteq> 1"
  shows "SharedPtr_clear this h =
    Returns \<lparr>sp_ptr = None, sp_cb = None\<rparr>
      (h\<lparr>blocks := (blocks h)(a \<mapsto> b\<lparr>shared := shared b - 1\<rparr>)\<rparr>)"
  using assms by (simp add: SharedPtr_clear_def Let_def dec_zero_iff)

lemma SharedPtr_clear_no_member:
  assumes "sp_cb this = Some a" and "blocks h a = Some b" and "payload_wptr h a = None"
  shows "SharedPtr_clear this h =
    Returns \<lparr>sp_ptr = None, sp_cb = None\<rparr>
      (if shared b = 1
       then (if weak b = 0
             then h\<lparr>allocated := allocated h - {a}, blocks := (blocks h)(a := None),
                    payload_wptr := (payload_wptr h)(a := None),
                    trace := trace h @ [Destroy a, Deallocate a]\<rparr>
             else h\<lparr>blocks := (blocks h)(a \<mapsto> b\<lparr>shared := 0\<rparr>),
                    trace := trace h @ [Destroy a]\<rparr>)
       else h\<lparr>blocks := (blocks h)(a \<mapsto> b\<lparr>shared := shared b - 1\<rparr>)\<rparr>)"
  using assms
  by (simp add: SharedPtr_clear_def destroy_def deallocate_def Let_def dec_zero_iff)

lemma SharedPtr_reset_destructor:
  "SharedPtr_reset this h =
     (case SharedPtr_destructor this h of
        Returns _ h' \<Rightarrow> Returns \<lparr>sp_ptr = None, sp_cb = None\<rparr> h'
      | Fails e h' \<Rightarrow> Fails e h')"
  by (simp add: SharedPtr_reset_def SharedPtr_swap_def SharedPtr_default_def)

text \<open>
  C1, at the input where it fails. The block at \<open>a\<close> has strong count 1 and weak count 1,
  and the one weak handle on it is the weak handle member of its own payload. The last
  strong handle is destroyed, or reset. The strong count reaches 0 and \<open>destroy()\<close> is
  called; the payload's destructor destroys the member, which brings the weak count to 0
  while the strong count is 0, so the member's \<open>clear()\<close> calls \<open>deallocate()\<close> before
  \<open>destroy()\<close> has returned. Back in \<open>SharedPtr::clear()\<close> the weak count is read
  through the pointer to the block that was just freed: the release does not come to
  the point where the handle's pointers are nulled. (In the source the read is followed
  by a second call of \<open>deallocate()\<close> when it finds 0.) With one more weak handle on
  the block, weak count 2, the same release returns: \<open>destroy()\<close> is called, the member
  is released, and the block stays with counts 0 and 1.
\<close>

theorem SharedPtr_release_reads_freed_block:
  "SharedPtr_destructor \<lparr>sp_ptr = None, sp_cb = Some a\<rparr> (self_weak_block a 1 1) =
     Fails (UB UseAfterFree)
       \<lparr>allocated = {}, blocks = Map.empty, payload_wptr = Map.empty,
        trace = [Destroy a, Deallocate a]\<rparr> \<and>
   SharedPtr_reset \<lparr>sp_ptr = None, sp_cb = Some a\<rparr> (self_weak_block a 1 1) =
     Fails (UB UseAfterFree)
       \<lparr>allocated = {}, blocks = Map.empty, payload_wptr = Map.empty,
        trace = [Destroy a, Deallocate a]\<rparr> \<and>
   destroy a (self_weak_block a 0 1) =
     Returns ()
       \<lparr>allocated = {}, blocks = Map.empty, payload_wptr = Map.empty,
        trace = [Destroy a, Deallocate a]\<rparr> \<and>
   SharedPtr_destructor \<lparr>sp_ptr = None, sp_cb = Some a\<rparr> (self_weak_block a 1 2) =
     Returns \<lparr>sp_ptr = None, sp_cb = None\<rparr>
       \<lparr>allocated = {a}, blocks = [a \<mapsto> \<lparr>shared = 0, weak = 1\<rparr>], payload_wptr = Map.empty,
        trace = [Destroy a]\<rparr>"
  by (simp add: SharedPtr_reset_destructor SharedPtr_destructor_def SharedPtr_clear_def
      destroy_def WeakPtr_destructor_def WeakPtr_clear_def deallocate_def self_weak_block_def
      Let_def)


section \<open>Deallocation inside \<open>destroy()\<close>\<close>

text \<open>
  C2, at the run where it fails. \<open>makeShared\<close> builds, at the block \<open>a\<close>, a payload with
  a weak handle member; the program makes a weak handle from the strong handle it got,
  moves it into the payload's member, and resets the strong handle. After the first two
  operations one strong object holds the block, the program's weak object is empty, the
  payload's member holds the block, and the counts are 1 and 1. \<open>destroy()\<close> at the
  counts 0 and 1, as the reset calls it, returns with the block already deallocated:
  \<open>deallocate()\<close> was called while \<open>destroy()\<close> ran, by the destructor of the
  payload's member. The reset then goes through the pointer to the freed block, where
  the source reads the weak count and calls \<open>deallocate()\<close> a second time. The same
  happens when the member is copy-assigned and the program's weak handle is destroyed
  before the last strong handle.
\<close>

theorem deallocate_inside_destroy:
  "run [WeakFromShared 0, AssignPayloadWeakMove 0 0] (after_makeShared True a) =
     Returns ()
       \<lparr>hp = self_weak_block a 1 1, sps = [\<lparr>sp_ptr = None, sp_cb = Some a\<rparr>],
        wps = [\<lparr>wp_ptr = None, wp_cb = None\<rparr>]\<rparr> \<and>
   destroy a (self_weak_block a 0 1) =
     Returns ()
       \<lparr>allocated = {}, blocks = Map.empty, payload_wptr = Map.empty,
        trace = [Destroy a, Deallocate a]\<rparr> \<and>
   run [WeakFromShared 0, AssignPayloadWeakMove 0 0, ResetShared 0] (after_makeShared True a) =
     Fails (UB UseAfterFree)
       \<lparr>hp = \<lparr>allocated = {}, blocks = Map.empty, payload_wptr = Map.empty,
               trace = [Destroy a, Deallocate a]\<rparr>,
        sps = [\<lparr>sp_ptr = None, sp_cb = Some a\<rparr>], wps = [\<lparr>wp_ptr = None, wp_cb = None\<rparr>]\<rparr> \<and>
   run [WeakFromShared 0, AssignPayloadWeak 0 0, EndWeak 0, EndShared 0]
       (after_makeShared True a) =
     Fails (UB UseAfterFree)
       \<lparr>hp = \<lparr>allocated = {}, blocks = Map.empty, payload_wptr = Map.empty,
               trace = [Destroy a, Deallocate a]\<rparr>,
        sps = [\<lparr>sp_ptr = None, sp_cb = Some a\<rparr>], wps = []\<rparr>"
  by (simp add: after_makeShared_def world_of_def makeShared_def empty_heap_def Let_def
      decl_WeakPtr_from_shared_def WeakPtr_from_shared_def on_heap_def and_then_def
      payload_WeakPtr_assign_move_def payload_WeakPtr_assign_def payload_of_def
      SharedPtr_arrow_def get_ptr_def payload_wptr_assign_move_def payload_wptr_assign_def
      WeakPtr_move_def WeakPtr_swap_def WeakPtr_copy_def WeakPtr_destructor_def
      WeakPtr_clear_def WeakPtr_default_def SharedPtr_get_def self_weak_block_def
      SharedPtr_reset_at_def SharedPtr_reset_destructor SharedPtr_destructor_def
      SharedPtr_clear_def destroy_def deallocate_def end_WeakPtr_def end_SharedPtr_def
      drop_nth_def)

section \<open>What an operation of a weak handle does to the strong count\<close>

lemma weak_step_refl [simp]: "weak_step a h h"
  by (simp add: weak_step_def split: option.splits)

lemma weak_step_trans: "weak_step a h h1 \<Longrightarrow> weak_step a h1 h2 \<Longrightarrow> weak_step a h h2"
  unfolding weak_step_def by (auto split: option.splits)

lemma weak_step_WeakPtr_from_shared: "weak_step a h (final (WeakPtr_from_shared s h))"
  by (auto simp: weak_step_def WeakPtr_from_shared_def split: option.splits)

lemma weak_step_WeakPtr_from_shared_cov: "weak_step a h (final (WeakPtr_from_shared_cov s h))"
  by (auto simp: weak_step_def WeakPtr_from_shared_cov_def split: option.splits)

lemma weak_step_WeakPtr_copy: "weak_step a h (final (WeakPtr_copy x h))"
  by (auto simp: weak_step_def WeakPtr_copy_def split: option.splits)

lemma weak_step_WeakPtr_copy_cov: "weak_step a h (final (WeakPtr_copy_cov x h))"
  by (auto simp: weak_step_def WeakPtr_copy_cov_def split: option.splits)

lemma weak_step_WeakPtr_clear: "weak_step a h (final (WeakPtr_clear x h))"
  by (auto simp: weak_step_def WeakPtr_clear_def deallocate_def Let_def split: option.splits)

lemma weak_step_WeakPtr_destructor: "weak_step a h (final (WeakPtr_destructor x h))"
  by (simp add: WeakPtr_destructor_def weak_step_WeakPtr_clear)

lemma members_kept_refl [simp]: "members_kept h h"
  by (simp add: members_kept_def)

lemma members_kept_trans: "members_kept h h1 \<Longrightarrow> members_kept h1 h2 \<Longrightarrow> members_kept h h2"
  by (simp add: members_kept_def)

lemma members_kept_WeakPtr_from_shared: "members_kept h (final (WeakPtr_from_shared s h))"
  by (auto simp: members_kept_def WeakPtr_from_shared_def split: option.splits)

lemma members_kept_WeakPtr_from_shared_cov:
  "members_kept h (final (WeakPtr_from_shared_cov s h))"
  by (auto simp: members_kept_def WeakPtr_from_shared_cov_def split: option.splits)

lemma members_kept_WeakPtr_copy: "members_kept h (final (WeakPtr_copy x h))"
  by (auto simp: members_kept_def WeakPtr_copy_def split: option.splits)

lemma members_kept_WeakPtr_copy_cov: "members_kept h (final (WeakPtr_copy_cov x h))"
  by (auto simp: members_kept_def WeakPtr_copy_cov_def split: option.splits)

lemma members_kept_WeakPtr_clear: "members_kept h (final (WeakPtr_clear x h))"
  by (auto simp: members_kept_def WeakPtr_clear_def deallocate_def Let_def
      split: option.splits if_splits)

lemma members_kept_WeakPtr_destructor: "members_kept h (final (WeakPtr_destructor x h))"
  by (simp add: WeakPtr_destructor_def members_kept_WeakPtr_clear)

text \<open>The handle a constructor of the weak handle makes.\<close>

lemma WeakPtr_from_shared_cb:
  "WeakPtr_from_shared s h = Returns x h' \<Longrightarrow> wp_cb x = sp_cb s"
  "WeakPtr_from_shared_cov s h = Returns x h' \<Longrightarrow> wp_cb x = sp_cb s"
  by (auto simp: WeakPtr_from_shared_def WeakPtr_from_shared_cov_def split: option.splits)

lemma WeakPtr_copy_cb:
  "WeakPtr_copy y h = Returns x h' \<Longrightarrow> x = y"
  "WeakPtr_copy_cov y h = Returns x h' \<Longrightarrow> x = y"
  by (auto simp: WeakPtr_copy_def WeakPtr_copy_cov_def split: option.splits)

lemma WeakPtr_lock_below_max:
  assumes "wp_cb this = Some a" and "blocks h a = Some b" and "shared b \<noteq> 0"
    and "shared b + 1 \<noteq> 0"
  shows "WeakPtr_lock this h =
    Returns \<lparr>sp_ptr = (case wp_ptr this of None \<Rightarrow> Some (get_ptr a) | Some p \<Rightarrow> Some p),
             sp_cb = Some a\<rparr>
      (h\<lparr>blocks := (blocks h)(a \<mapsto> b\<lparr>shared := shared b + 1\<rparr>)\<rparr>)"
  using assms
  by (simp add: WeakPtr_lock_def WeakPtr_expired_def WeakPtr_use_count_def WeakPtr_copy_def
      SharedPtr_from_weak_def WeakPtr_destructor_def WeakPtr_clear_def Let_def)

lemma WeakPtr_lock_cases:
  assumes r: "WeakPtr_lock x h = Returns s h'"
  shows "sp_cb s = None \<and> h' = h \<or>
         (\<exists>a b. wp_cb x = Some a \<and> blocks h a = Some b \<and> shared b \<noteq> 0 \<and>
            (shared b + 1 \<noteq> 0 \<longrightarrow>
               sp_cb s = Some a \<and>
               h' = h\<lparr>blocks := (blocks h)(a \<mapsto> b\<lparr>shared := shared b + 1\<rparr>)\<rparr>))"
proof (cases "wp_cb x")
  case None
  then show ?thesis using r by (auto simp: WeakPtr_lock_empty SharedPtr_default_def)
next
  case (Some a)
  show ?thesis
  proof (cases "blocks h a")
    case None
    then show ?thesis using r Some
      by (simp add: WeakPtr_lock_def WeakPtr_expired_def WeakPtr_use_count_def)
  next
    case b: (Some b)
    show ?thesis
    proof (cases "shared b = 0")
      case True
      then show ?thesis using r Some b
        by (auto simp: WeakPtr_lock_expired [where a = a and b = b] SharedPtr_default_def)
    next
      case False
      show ?thesis
      proof (cases "shared b + 1 = 0")
        case True
        then show ?thesis using Some b False by simp
      next
        case nm: False
        show ?thesis
          using r Some b False nm WeakPtr_lock_below_max [OF Some b False nm] by auto
      qed
    qed
  qed
qed

text \<open>The release of a strong handle that returns.\<close>

lemma destroy_weak_step:
  assumes "destroy a h = Returns u h'"
  shows "weak_step a (h\<lparr>trace := trace h @ [Destroy a]\<rparr>) h' \<and> members_kept h h'"
proof (cases "payload_wptr h a")
  case None
  then show ?thesis using assms by (auto simp: destroy_def Let_def members_kept_def)
next
  case (Some m)
  let ?h1 = "h\<lparr>trace := trace h @ [Destroy a]\<rparr>"
  from assms Some obtain t h2 where c: "WeakPtr_destructor m ?h1 = Returns t h2"
    and h': "h' = h2\<lparr>payload_wptr := (payload_wptr h2)(a := None)\<rparr>"
    by (auto simp: destroy_def Let_def split: outcome.splits)
  have "weak_step a ?h1 h2" "members_kept ?h1 h2"
    using weak_step_WeakPtr_destructor [of a ?h1 m] members_kept_WeakPtr_destructor [of ?h1 m] c
    by simp_all
  then show ?thesis unfolding h' weak_step_def members_kept_def
    by (auto split: option.splits if_splits)
qed

lemma SharedPtr_clear_last:
  assumes cb: "sp_cb this = Some a" and b: "blocks h a = Some b" and one: "shared b = 1"
    and r: "SharedPtr_clear this h = Returns t h'"
  shows "filter is_Destroy (trace h') = filter is_Destroy (trace h) @ [Destroy a] \<and>
         (\<forall>b'. blocks h' a = Some b' \<longrightarrow> shared b' = 0) \<and> members_kept h h'"
proof -
  let ?h1 = "h\<lparr>blocks := (blocks h)(a \<mapsto> b\<lparr>shared := shared b - 1\<rparr>)\<rparr>"
  from r cb b one obtain u h2 b2 where d: "destroy a ?h1 = Returns u h2"
    and b2: "blocks h2 a = Some b2"
    and h': "h' = (if weak b2 = 0 then deallocate a h2 else h2)"
    by (auto simp: SharedPtr_clear_def Let_def split: outcome.splits option.splits)
  have "weak_step a (?h1\<lparr>trace := trace ?h1 @ [Destroy a]\<rparr>) h2" "members_kept ?h1 h2"
    using destroy_weak_step [OF d] by simp_all
  then show ?thesis using b2 one unfolding h' weak_step_def members_kept_def
    by (auto simp: deallocate_def split: option.splits if_splits)
qed

section \<open>The strong count agrees with the live strong handle objects\<close>

lemma cnt_swap:
  "i < length xs \<Longrightarrow> j < length xs \<Longrightarrow>
   length (filter P (xs[i := xs ! j, j := xs ! i])) = length (filter P xs)"
  by (metis mset_filter mset_swap size_mset)

lemma set_swap:
  "i < length xs \<Longrightarrow> j < length xs \<Longrightarrow> set (xs[i := xs ! j, j := xs ! i]) = set xs"
  by (metis mset_swap set_mset_mset)

lemma unat_eq_1_iff: "(x = (1::size_t)) = (unat x = 1)"
  using word_unat_eq_iff [of x 1] by simp

lemma unat_eq_0_iff: "(x = (0::size_t)) = (unat x = 0)"
  by (simp add: unat_eq_0)

lemma inc_not_zero: "unat (x::size_t) < 2 ^ 64 - 1 \<Longrightarrow> x + 1 \<noteq> 0"
  using inc_unat [of x] by (auto simp: unat_eq_0_iff)

lemma sc_sps:
  "strong_consistent a w \<Longrightarrow> \<forall>s \<in> set (sps w). sp_cb s = None \<or> sp_cb s = Some a"
  by (simp add: strong_consistent_def)

lemma sc_wps:
  "strong_consistent a w \<Longrightarrow> \<forall>x \<in> set (wps w). wp_cb x = None \<or> wp_cb x = Some a"
  by (simp add: strong_consistent_def)

lemma sc_members:
  "strong_consistent a w \<Longrightarrow>
   \<forall>a' m. payload_wptr (hp w) a' = Some m \<longrightarrow> wp_cb m = None \<or> wp_cb m = Some a"
  by (simp add: strong_consistent_def)

lemma sc_sp_cb:
  "strong_consistent a w \<Longrightarrow> s \<in> set (sps w) \<Longrightarrow> sp_cb s = Some a' \<Longrightarrow> a' = a"
  by (auto simp: strong_consistent_def)

lemma sc_wp_cb:
  "strong_consistent a w \<Longrightarrow> x \<in> set (wps w) \<Longrightarrow> wp_cb x = Some a' \<Longrightarrow> a' = a"
  by (auto simp: strong_consistent_def)

lemma strong_refs_pos:
  "i < length (sps w) \<Longrightarrow> sp_cb (sps w ! i) = Some a \<Longrightarrow> 0 < strong_refs a w"
  unfolding strong_refs_def by (rule cnt_pos [where i = i]) simp_all

lemma strong_refs_le: "strong_refs a w \<le> length (sps w)"
  by (simp add: strong_refs_def)

lemma sc_live:
  assumes "strong_consistent a w" and "0 < strong_refs a w"
  shows "\<exists>b. blocks (hp w) a = Some b \<and> unat (shared b) = strong_refs a w \<and>
             filter is_Destroy (trace (hp w)) = []"
  using assms by (auto simp: strong_consistent_def)

lemma sc_trace:
  assumes "strong_consistent a w"
  shows "filter is_Destroy (trace (hp w)) = (if strong_refs a w = 0 then [Destroy a] else [])"
  using assms by (auto simp: strong_consistent_def)

lemma members_closed:
  assumes "\<forall>a' m. payload_wptr h a' = Some m \<longrightarrow> wp_cb m = None \<or> wp_cb m = Some a"
    and "members_kept h h'"
  shows "\<forall>a' m. payload_wptr h' a' = Some m \<longrightarrow> wp_cb m = None \<or> wp_cb m = Some a"
  using assms unfolding members_kept_def by blast

text \<open>The kinds of change an operation makes to the block and its holders.\<close>

lemma sc_weak:
  assumes c: "strong_consistent a w" and ws: "weak_step a (hp w) (hp w')"
    and st: "strong_refs a w' = strong_refs a w"
    and cs: "\<forall>s \<in> set (sps w'). sp_cb s = None \<or> sp_cb s = Some a"
    and cw: "\<forall>x \<in> set (wps w'). wp_cb x = None \<or> wp_cb x = Some a"
    and cm: "\<forall>a' m. payload_wptr (hp w') a' = Some m \<longrightarrow> wp_cb m = None \<or> wp_cb m = Some a"
  shows "strong_consistent a w'"
proof (cases "strong_refs a w = 0")
  case True
  then have "filter is_Destroy (trace (hp w)) = [Destroy a]"
    "\<forall>b. blocks (hp w) a = Some b \<longrightarrow> shared b = 0"
    using c by (simp_all add: strong_consistent_def)
  then have "filter is_Destroy (trace (hp w')) = [Destroy a]"
    "\<forall>b. blocks (hp w') a = Some b \<longrightarrow> shared b = 0"
    using ws unfolding weak_step_def by (auto split: option.splits)
  then show ?thesis using True st cs cw cm by (simp add: strong_consistent_def)
next
  case False
  then obtain b where b: "blocks (hp w) a = Some b" "unat (shared b) = strong_refs a w"
    "filter is_Destroy (trace (hp w)) = []"
    using sc_live [OF c] by auto
  have nz: "shared b \<noteq> 0" using b(2) False by (simp add: unat_eq_0_iff)
  have "filter is_Destroy (trace (hp w')) = []"
    "\<exists>b'. blocks (hp w') a = Some b' \<and> unat (shared b') = strong_refs a w"
    using ws b nz unfolding weak_step_def by (auto split: option.splits)
  then show ?thesis using False st cs cw cm by (simp add: strong_consistent_def)
qed

lemma sc_acquire:
  assumes c: "strong_consistent a w" and b: "blocks (hp w) a = Some b"
    and hp: "hp w' = (hp w)\<lparr>blocks := (blocks (hp w))(a \<mapsto> b\<lparr>shared := shared b + 1\<rparr>)\<rparr>"
    and st: "strong_refs a w' = Suc (strong_refs a w)"
    and pos: "0 < strong_refs a w" and bd: "strong_refs a w < 2 ^ 64 - 1"
    and cs: "\<forall>s \<in> set (sps w'). sp_cb s = None \<or> sp_cb s = Some a"
    and cw: "\<forall>x \<in> set (wps w'). wp_cb x = None \<or> wp_cb x = Some a"
  shows "strong_consistent a w'"
proof -
  have l: "unat (shared b) = strong_refs a w" "filter is_Destroy (trace (hp w)) = []"
    using sc_live [OF c pos] b by auto
  have "unat (shared b + 1) = Suc (strong_refs a w)" using l(1) bd by (simp add: inc_unat)
  then show ?thesis using l st cs cw sc_members [OF c] unfolding strong_consistent_def hp
    by simp
qed

lemma sc_release:
  assumes c: "strong_consistent a w" and cb: "sp_cb this = Some a"
    and pos: "0 < strong_refs a w"
    and clr: "SharedPtr_clear this (hp w) = Returns t h'" and hp: "hp w' = h'"
    and st: "Suc (strong_refs a w') = strong_refs a w"
    and cs: "\<forall>s \<in> set (sps w'). sp_cb s = None \<or> sp_cb s = Some a"
    and cw: "\<forall>x \<in> set (wps w'). wp_cb x = None \<or> wp_cb x = Some a"
  shows "strong_consistent a w'"
proof -
  obtain b where b: "blocks (hp w) a = Some b" "unat (shared b) = strong_refs a w"
    "filter is_Destroy (trace (hp w)) = []"
    using sc_live [OF c pos] by blast
  have nz: "shared b \<noteq> 0" using b(2) pos by (simp add: unat_eq_0_iff)
  show ?thesis
  proof (cases "shared b = 1")
    case True
    then have z: "strong_refs a w' = 0" using b(2) st by simp
    note l = SharedPtr_clear_last [OF cb b(1) True clr]
    have cm: "\<forall>a' m. payload_wptr h' a' = Some m \<longrightarrow> wp_cb m = None \<or> wp_cb m = Some a"
      using members_closed [OF sc_members [OF c]] l by blast
    show ?thesis using l z b(3) cs cw cm unfolding strong_consistent_def hp by simp
  next
    case False
    then have nz': "strong_refs a w' \<noteq> 0" using b(2) st by (auto simp: unat_eq_1_iff)
    have h': "h' = (hp w)\<lparr>blocks := (blocks (hp w))(a \<mapsto> b\<lparr>shared := shared b - 1\<rparr>)\<rparr>"
      using SharedPtr_clear_not_last [OF cb b(1) False] clr by simp
    have "unat (shared b - 1) = strong_refs a w'" using b(2) st nz by (simp add: dec_unat)
    then show ?thesis using nz' b(3) cs cw sc_members [OF c] unfolding strong_consistent_def hp h'
      by simp
  qed
qed

lemma sc_push_strong:
  assumes c: "strong_consistent a w" and bd: "length (sps w) < 2 ^ 64 - 1"
    and eff: "sp_cb s' = None \<and> h' = hp w \<or>
         sp_cb s' = Some a \<and> 0 < strong_refs a w \<and>
         (\<exists>b. blocks (hp w) a = Some b \<and>
              h' = (hp w)\<lparr>blocks := (blocks (hp w))(a \<mapsto> b\<lparr>shared := shared b + 1\<rparr>)\<rparr>)"
  shows "strong_consistent a (w\<lparr>hp := h', sps := sps w @ [s']\<rparr>)"
  using eff
proof (elim disjE conjE exE)
  assume a: "sp_cb s' = None" "h' = hp w"
  show ?thesis
    by (rule sc_weak [OF c])
       (use a sc_sps [OF c] sc_wps [OF c] sc_members [OF c] in \<open>auto simp: strong_refs_def\<close>)
next
  fix b
  assume a: "sp_cb s' = Some a" "0 < strong_refs a w" "blocks (hp w) a = Some b"
    "h' = (hp w)\<lparr>blocks := (blocks (hp w))(a \<mapsto> b\<lparr>shared := shared b + 1\<rparr>)\<rparr>"
  have lt: "strong_refs a w < 2 ^ 64 - 1" using strong_refs_le [of a w] bd by linarith
  show ?thesis
    by (rule sc_acquire [OF c a(3) _ _ a(2) lt])
       (use a sc_sps [OF c] sc_wps [OF c] in \<open>auto simp: strong_refs_def\<close>)
qed

lemma sc_push_weak:
  assumes c: "strong_consistent a w" and ws: "weak_step a (hp w) h'"
    and mk: "members_kept (hp w) h'" and cb: "wp_cb x' = None \<or> wp_cb x' = Some a"
  shows "strong_consistent a (w\<lparr>hp := h', wps := wps w @ [x']\<rparr>)"
  by (rule sc_weak [OF c])
     (use ws cb sc_sps [OF c] sc_wps [OF c] members_closed [OF sc_members [OF c] mk]
       in \<open>auto simp: strong_refs_def\<close>)

subsection \<open>Every operation keeps the agreement\<close>

lemma decl_SharedPtr_step:
  assumes c: "strong_consistent a w" and r: "decl_SharedPtr w = Returns () w'"
  shows "strong_consistent a w' \<and> length (sps w') = Suc (length (sps w))"
proof -
  have w': "w' = w\<lparr>sps := sps w @ [SharedPtr_default]\<rparr>"
    using r by (simp add: decl_SharedPtr_def)
  have "strong_consistent a w'" unfolding w'
    by (rule sc_weak [OF c])
       (use sc_sps [OF c] sc_wps [OF c] sc_members [OF c]
         in \<open>auto simp: strong_refs_def SharedPtr_default_def\<close>)
  then show ?thesis by (simp add: w')
qed

lemma decl_SharedPtr_copy_step:
  assumes c: "strong_consistent a w" and bd: "length (sps w) < 2 ^ 64 - 1"
    and r: "decl_SharedPtr_copy j w = Returns () w'"
  shows "strong_consistent a w' \<and> length (sps w') = Suc (length (sps w)) \<and>
         strong_refs a w \<le> strong_refs a w'"
proof -
  from r have j: "j < length (sps w)"
    by (auto simp: decl_SharedPtr_copy_def split: if_splits)
  let ?s = "sps w ! j"
  have mem: "?s \<in> set (sps w)" using j by simp
  show ?thesis
  proof (cases "sp_cb ?s")
    case None
    then have w': "w' = w\<lparr>hp := hp w, sps := sps w @ [?s]\<rparr>"
      using r j by (simp add: decl_SharedPtr_copy_def SharedPtr_copy_empty on_heap_def and_then_def)
    have "strong_consistent a w'" unfolding w'
      by (rule sc_push_strong [OF c bd]) (simp add: None)
    then show ?thesis by (simp add: w' strong_refs_def)
  next
    case (Some a')
    then have [simp]: "a' = a" using sc_sp_cb [OF c mem] by simp
    have pos: "0 < strong_refs a w" using strong_refs_pos [OF j] Some by simp
    obtain b where b: "blocks (hp w) a = Some b"
      using sc_live [OF c pos] by blast
    have w': "w' = w\<lparr>hp := (hp w)\<lparr>blocks := (blocks (hp w))(a \<mapsto> b\<lparr>shared := shared b + 1\<rparr>)\<rparr>,
                     sps := sps w @ [?s]\<rparr>"
      using r j Some b
      by (simp add: decl_SharedPtr_copy_def SharedPtr_copy_block on_heap_def and_then_def)
    have "strong_consistent a w'" unfolding w'
      by (rule sc_push_strong [OF c bd]) (use Some pos b in simp)
    then show ?thesis by (simp add: w' strong_refs_def)
  qed
qed

lemma decl_SharedPtr_copy_cov_step:
  assumes c: "strong_consistent a w" and bd: "length (sps w) < 2 ^ 64 - 1"
    and r: "decl_SharedPtr_copy_cov j w = Returns () w'"
  shows "strong_consistent a w' \<and> length (sps w') = Suc (length (sps w)) \<and>
         strong_refs a w \<le> strong_refs a w'"
proof -
  from r have j: "j < length (sps w)"
    by (auto simp: decl_SharedPtr_copy_cov_def split: if_splits)
  let ?s = "sps w ! j"
  have mem: "?s \<in> set (sps w)" using j by simp
  from r j obtain a' where Some: "sp_cb ?s = Some a'"
    by (cases "sp_cb ?s")
       (auto simp: decl_SharedPtr_copy_cov_def SharedPtr_copy_empty on_heap_def and_then_def)
  then have [simp]: "a' = a" using sc_sp_cb [OF c mem] by simp
  have pos: "0 < strong_refs a w" using strong_refs_pos [OF j] Some by simp
  obtain b where b: "blocks (hp w) a = Some b"
    using sc_live [OF c pos] by blast
  have w': "w' = w\<lparr>hp := (hp w)\<lparr>blocks := (blocks (hp w))(a \<mapsto> b\<lparr>shared := shared b + 1\<rparr>)\<rparr>,
                   sps := sps w @ [?s]\<rparr>"
    using r j Some b
    by (simp add: decl_SharedPtr_copy_cov_def SharedPtr_copy_block on_heap_def and_then_def)
  have "strong_consistent a w'" unfolding w'
    by (rule sc_push_strong [OF c bd]) (use Some pos b in simp)
  then show ?thesis by (simp add: w' strong_refs_def)
qed

text \<open>A strong handle made by \<open>lock()\<close> of a weak handle that holds this block or none.\<close>

lemma lock_push:
  assumes c: "strong_consistent a w" and bd: "length (sps w) < 2 ^ 64 - 1"
    and cl: "wp_cb x = None \<or> wp_cb x = Some a"
    and l: "WeakPtr_lock x (hp w) = Returns s h'"
  shows "strong_consistent a (w\<lparr>hp := h', sps := sps w @ [s]\<rparr>)"
proof (rule sc_push_strong [OF c bd])
  from WeakPtr_lock_cases [OF l]
  show "sp_cb s = None \<and> h' = hp w \<or>
         sp_cb s = Some a \<and> 0 < strong_refs a w \<and>
         (\<exists>b. blocks (hp w) a = Some b \<and>
              h' = (hp w)\<lparr>blocks := (blocks (hp w))(a \<mapsto> b\<lparr>shared := shared b + 1\<rparr>)\<rparr>)"
  proof (elim disjE exE conjE)
    assume "sp_cb s = None" "h' = hp w"
    then show ?thesis by simp
  next
    fix a' b
    assume x: "wp_cb x = Some a'" and b: "blocks (hp w) a' = Some b" and nz: "shared b \<noteq> 0"
      and imp: "shared b + 1 \<noteq> 0 \<longrightarrow>
         sp_cb s = Some a' \<and>
         h' = (hp w)\<lparr>blocks := (blocks (hp w))(a' \<mapsto> b\<lparr>shared := shared b + 1\<rparr>)\<rparr>"
    have a': "a' = a" using cl x by simp
    have pos: "0 < strong_refs a w"
      using c b nz unfolding a' strong_consistent_def by (auto split: if_splits)
    obtain b0 where b0: "blocks (hp w) a = Some b0" "unat (shared b0) = strong_refs a w"
      using sc_live [OF c pos] by blast
    have "unat (shared b) < 2 ^ 64 - 1"
      using b0 b strong_refs_le [of a w] bd unfolding a' by simp
    then have "shared b + 1 \<noteq> 0" by (rule inc_not_zero)
    then show ?thesis using imp pos b unfolding a' by simp
  qed
qed

lemma decl_SharedPtr_lock_step:
  assumes c: "strong_consistent a w" and bd: "length (sps w) < 2 ^ 64 - 1"
    and r: "decl_SharedPtr_lock k w = Returns () w'"
  shows "strong_consistent a w' \<and> length (sps w') = Suc (length (sps w))"
proof -
  from r have k: "k < length (wps w)"
    by (auto simp: decl_SharedPtr_lock_def split: if_splits)
  from r k obtain s h' where l: "WeakPtr_lock (wps w ! k) (hp w) = Returns s h'"
    and w': "w' = w\<lparr>hp := h', sps := sps w @ [s]\<rparr>"
    by (auto simp: decl_SharedPtr_lock_def on_heap_def and_then_def split: outcome.splits)
  have cl: "wp_cb (wps w ! k) = None \<or> wp_cb (wps w ! k) = Some a"
    using sc_wps [OF c] k by simp
  have "strong_consistent a w'" unfolding w' by (rule lock_push [OF c bd cl l])
  then show ?thesis by (simp add: w')
qed

lemma payload_of_Returns:
  assumes "payload_of s h = Returns a' h'"
  shows "h' = h \<and> (\<exists>m. payload_wptr h a' = Some m)"
  using assms
  by (auto simp: payload_of_def SharedPtr_arrow_def split: option.splits pointer.splits)

lemma payload_WeakPtr_lock_step:
  assumes c: "strong_consistent a w" and bd: "length (sps w) < 2 ^ 64 - 1"
    and r: "payload_WeakPtr_lock i w = Returns () w'"
  shows "strong_consistent a w' \<and> length (sps w') = Suc (length (sps w))"
proof -
  from r have i: "i < length (sps w)"
    by (auto simp: payload_WeakPtr_lock_def split: if_splits)
  from r i obtain a' h0 where p: "payload_of (sps w ! i) (hp w) = Returns a' h0"
    and r1: "and_then (on_heap (w\<lparr>hp := h0\<rparr>) (shared_from_this a' h0))
               (\<lambda>s w2. Returns () (w2\<lparr>sps := sps w2 @ [s]\<rparr>)) = Returns () w'"
    by (auto simp: payload_WeakPtr_lock_def on_heap_def and_then_def split: outcome.splits)
  obtain m where h0: "h0 = hp w" and m: "payload_wptr (hp w) a' = Some m"
    using payload_of_Returns [OF p] by blast
  from r1 obtain s h' where l: "WeakPtr_lock m (hp w) = Returns s h'"
    and w': "w' = w\<lparr>hp := h', sps := sps w @ [s]\<rparr>"
    unfolding h0 using m
    by (auto simp: shared_from_this_def on_heap_def and_then_def split: outcome.splits)
  have cl: "wp_cb m = None \<or> wp_cb m = Some a" using sc_members [OF c] m by blast
  have "strong_consistent a w'" unfolding w' by (rule lock_push [OF c bd cl l])
  then show ?thesis by (simp add: w')
qed

lemma decl_SharedPtr_move_step:
  assumes c: "strong_consistent a w" and r: "decl_SharedPtr_move j w = Returns () w'"
  shows "strong_consistent a w' \<and> length (sps w') = Suc (length (sps w)) \<and>
         strong_refs a w \<le> strong_refs a w'"
proof -
  from r have j: "j < length (sps w)"
    by (auto simp: decl_SharedPtr_move_def split: if_splits)
  have w': "w' = w\<lparr>sps := (sps w)[j := \<lparr>sp_ptr = None, sp_cb = None\<rparr>] @ [sps w ! j]\<rparr>"
    using r j by (simp add: decl_SharedPtr_move_def SharedPtr_move_def)
  have cnt: "strong_refs a w' = strong_refs a w"
    using cnt_update [OF j, of "\<lambda>s. sp_cb s = Some a" "\<lparr>sp_ptr = None, sp_cb = None\<rparr>"]
    by (auto simp: w' strong_refs_def split: if_splits)
  have mem: "sps w ! j \<in> set (sps w)" using j by simp
  have cs: "\<forall>s \<in> set (sps w'). sp_cb s = None \<or> sp_cb s = Some a"
    using sc_sps [OF c] mem
      set_update_subset_insert [of "sps w" j "\<lparr>sp_ptr = None, sp_cb = None\<rparr>"]
    by (auto simp: w')
  have "strong_consistent a w'"
    by (rule sc_weak [OF c _ cnt cs]) (use sc_wps [OF c] sc_members [OF c] in \<open>simp_all add: w'\<close>)
  then show ?thesis using cnt by (simp add: w')
qed

lemma SharedPtr_swap_at_step:
  assumes c: "strong_consistent a w" and r: "SharedPtr_swap_at i j w = Returns () w'"
  shows "strong_consistent a w' \<and> length (sps w') = length (sps w) \<and>
         strong_refs a w' = strong_refs a w \<and> hp w' = hp w"
proof -
  from r have ij: "i < length (sps w)" "j < length (sps w)"
    by (auto simp: SharedPtr_swap_at_def split: if_splits)
  have w': "w' = w\<lparr>sps := (sps w)[i := sps w ! j, j := sps w ! i]\<rparr>"
    using r ij by (simp add: SharedPtr_swap_at_def SharedPtr_swap_def)
  have "strong_consistent a w'"
    by (rule sc_weak [OF c])
       (use sc_sps [OF c] sc_wps [OF c] sc_members [OF c]
         in \<open>simp_all add: w' strong_refs_def cnt_swap [OF ij] set_swap [OF ij]\<close>)
  then show ?thesis by (simp add: w' strong_refs_def cnt_swap [OF ij])
qed

text \<open>Releasing one strong object, which leaves the list of objects \<open>xs'\<close>.\<close>

lemma closed_sub_s:
  assumes "\<forall>s \<in> set xs. sp_cb s = None \<or> sp_cb s = Some a"
    and "set xs' \<subseteq> insert \<lparr>sp_ptr = None, sp_cb = None\<rparr> (set xs)"
  shows "\<forall>s \<in> set xs'. sp_cb s = None \<or> sp_cb s = Some a"
proof
  fix s assume "s \<in> set xs'"
  then have "s = \<lparr>sp_ptr = None, sp_cb = None\<rparr> \<or> s \<in> set xs" using assms(2) by blast
  then show "sp_cb s = None \<or> sp_cb s = Some a" using assms(1) by auto
qed

lemma closed_sub_w:
  assumes "\<forall>x \<in> set ys. wp_cb x = None \<or> wp_cb x = Some a"
    and "set ys' \<subseteq> insert \<lparr>wp_ptr = None, wp_cb = None\<rparr> (set ys)"
  shows "\<forall>x \<in> set ys'. wp_cb x = None \<or> wp_cb x = Some a"
proof
  fix x assume "x \<in> set ys'"
  then have "x = \<lparr>wp_ptr = None, wp_cb = None\<rparr> \<or> x \<in> set ys" using assms(2) by blast
  then show "wp_cb x = None \<or> wp_cb x = Some a" using assms(1) by auto
qed

lemma strong_release_step:
  assumes c: "strong_consistent a w" and i: "i < length (sps w)"
    and clr: "SharedPtr_clear (sps w ! i) (hp w) = Returns t h'"
    and cnt: "length (filter (\<lambda>s. sp_cb s = Some a) xs') +
                (if sp_cb (sps w ! i) = Some a then 1 else 0) =
              length (filter (\<lambda>s. sp_cb s = Some a) (sps w))"
    and sub: "set xs' \<subseteq> insert \<lparr>sp_ptr = None, sp_cb = None\<rparr> (set (sps w))"
  shows "strong_consistent a (w\<lparr>hp := h', sps := xs'\<rparr>)"
proof -
  let ?w' = "w\<lparr>hp := h', sps := xs'\<rparr>"
  have cs: "\<forall>s \<in> set (sps ?w'). sp_cb s = None \<or> sp_cb s = Some a"
    using closed_sub_s [OF sc_sps [OF c] sub] by simp
  have cw: "\<forall>x \<in> set (wps ?w'). wp_cb x = None \<or> wp_cb x = Some a"
    using sc_wps [OF c] by simp
  show ?thesis
  proof (cases "sp_cb (sps w ! i)")
    case None
    then have h': "h' = hp w" using clr by (simp add: SharedPtr_clear_empty)
    have st: "strong_refs a ?w' = strong_refs a w"
      using cnt None by (simp add: strong_refs_def)
    show ?thesis
      by (rule sc_weak [OF c _ st cs cw]) (use sc_members [OF c] in \<open>simp_all add: h'\<close>)
  next
    case (Some a')
    have mem: "sps w ! i \<in> set (sps w)" using i by simp
    have a': "a' = a" using sc_sp_cb [OF c mem Some] .
    have pos: "0 < strong_refs a w" using strong_refs_pos [OF i] Some a' by simp
    have st: "Suc (strong_refs a ?w') = strong_refs a w"
      using cnt Some a' by (simp add: strong_refs_def)
    have h': "hp ?w' = h'" by simp
    have cb: "sp_cb (sps w ! i) = Some a" using Some a' by simp
    show ?thesis by (rule sc_release [OF c cb pos clr h' st cs cw])
  qed
qed

lemma end_SharedPtr_step:
  assumes c: "strong_consistent a w" and r: "end_SharedPtr i w = Returns () w'"
  shows "strong_consistent a w' \<and> Suc (length (sps w')) = length (sps w)"
proof -
  from r have i: "i < length (sps w)"
    by (auto simp: end_SharedPtr_def split: if_splits)
  from r i obtain t h' where clr: "SharedPtr_clear (sps w ! i) (hp w) = Returns t h'"
    and w': "w' = w\<lparr>hp := h', sps := drop_nth i (sps w)\<rparr>"
    by (auto simp: end_SharedPtr_def SharedPtr_destructor_def on_heap_def and_then_def
        split: outcome.splits)
  have sub: "set (drop_nth i (sps w)) \<subseteq> insert \<lparr>sp_ptr = None, sp_cb = None\<rparr> (set (sps w))"
    using set_drop_nth [of i "sps w"] by blast
  have "strong_consistent a w'" unfolding w'
    by (rule strong_release_step [OF c i clr cnt_drop_nth [OF i] sub])
  then show ?thesis using i by (simp add: w' length_drop_nth)
qed

lemma SharedPtr_reset_at_step:
  assumes c: "strong_consistent a w" and r: "SharedPtr_reset_at i w = Returns () w'"
  shows "strong_consistent a w' \<and> length (sps w') = length (sps w)"
proof -
  from r have i: "i < length (sps w)"
    by (auto simp: SharedPtr_reset_at_def split: if_splits)
  from r i obtain t h' where clr: "SharedPtr_clear (sps w ! i) (hp w) = Returns t h'"
    and w': "w' = w\<lparr>hp := h', sps := (sps w)[i := \<lparr>sp_ptr = None, sp_cb = None\<rparr>]\<rparr>"
    by (auto simp: SharedPtr_reset_at_def SharedPtr_reset_def SharedPtr_swap_def
        SharedPtr_default_def SharedPtr_destructor_def on_heap_def and_then_def
        split: outcome.splits)
  have cnt: "length (filter (\<lambda>s. sp_cb s = Some a) ((sps w)[i := \<lparr>sp_ptr = None, sp_cb = None\<rparr>])) +
      (if sp_cb (sps w ! i) = Some a then 1 else 0) =
      length (filter (\<lambda>s. sp_cb s = Some a) (sps w))"
    using cnt_update [OF i, of "\<lambda>s. sp_cb s = Some a" "\<lparr>sp_ptr = None, sp_cb = None\<rparr>"]
    by simp
  have "strong_consistent a w'" unfolding w'
    by (rule strong_release_step [OF c i clr cnt set_update_subset_insert])
  then show ?thesis by (simp add: w')
qed

lemma and_then_Returns:
  "and_then r f = Returns y s' \<Longrightarrow> \<exists>x s. r = Returns x s \<and> f x s = Returns y s'"
  by (cases r) (auto simp: and_then_def)

lemma strong_assign_chain:
  assumes c: "strong_consistent a w"
    and d: "\<And>w1. decl w = Returns () w1 \<Longrightarrow>
          strong_consistent a w1 \<and> length (sps w1) = Suc (length (sps w)) \<and>
          strong_refs a w \<le> strong_refs a w1"
    and r: "and_then (decl w)
              (\<lambda>_ w1. and_then (SharedPtr_swap_at i n w1) (\<lambda>_ w2. end_SharedPtr n w2)) =
            Returns () w'"
  shows "strong_consistent a w' \<and> length (sps w') = length (sps w)"
proof -
  from and_then_Returns [OF r] obtain w1 where
    r1: "decl w = Returns () w1" and
    r': "and_then (SharedPtr_swap_at i n w1) (\<lambda>_ w2. end_SharedPtr n w2) = Returns () w'"
    by auto
  from and_then_Returns [OF r'] obtain w2 where
    r2: "SharedPtr_swap_at i n w1 = Returns () w2" and r3: "end_SharedPtr n w2 = Returns () w'"
    by auto
  note s1 = d [OF r1]
  note s2 = SharedPtr_swap_at_step [OF conjunct1 [OF s1] r2]
  note s3 = end_SharedPtr_step [OF conjunct1 [OF s2] r3]
  show ?thesis using s1 s2 s3 by simp
qed

lemma SharedPtr_assign_step:
  assumes c: "strong_consistent a w" and bd: "length (sps w) < 2 ^ 64 - 1"
    and r: "SharedPtr_assign i j w = Returns () w'"
  shows "strong_consistent a w' \<and> length (sps w') = length (sps w)"
proof (cases "i = j")
  case True
  then have "w' = w" using r by (auto simp: SharedPtr_assign_def split: if_splits)
  then show ?thesis using c by simp
next
  case False
  then have r': "and_then (decl_SharedPtr_copy j w)
      (\<lambda>_ w1. and_then (SharedPtr_swap_at i (length (sps w)) w1)
         (\<lambda>_ w2. end_SharedPtr (length (sps w)) w2)) = Returns () w'"
    using r by (auto simp: SharedPtr_assign_def split: if_splits)
  show ?thesis
    by (rule strong_assign_chain [where decl = "decl_SharedPtr_copy j",
          OF c decl_SharedPtr_copy_step [OF c bd] r'])
qed

lemma SharedPtr_assign_cov_step:
  assumes c: "strong_consistent a w" and bd: "length (sps w) < 2 ^ 64 - 1"
    and r: "SharedPtr_assign_cov i j w = Returns () w'"
  shows "strong_consistent a w' \<and> length (sps w') = length (sps w)"
proof -
  have r': "and_then (decl_SharedPtr_copy_cov j w)
      (\<lambda>_ w1. and_then (SharedPtr_swap_at i (length (sps w)) w1)
         (\<lambda>_ w2. end_SharedPtr (length (sps w)) w2)) = Returns () w'"
    using r by (auto simp: SharedPtr_assign_cov_def split: if_splits)
  show ?thesis
    by (rule strong_assign_chain [where decl = "decl_SharedPtr_copy_cov j",
          OF c decl_SharedPtr_copy_cov_step [OF c bd] r'])
qed

lemma SharedPtr_assign_move_step:
  assumes c: "strong_consistent a w"
    and r: "SharedPtr_assign_move i j w = Returns () w'"
  shows "strong_consistent a w' \<and> length (sps w') = length (sps w)"
proof -
  have r': "and_then (decl_SharedPtr_move j w)
      (\<lambda>_ w1. and_then (SharedPtr_swap_at i (length (sps w)) w1)
         (\<lambda>_ w2. end_SharedPtr (length (sps w)) w2)) = Returns () w'"
    using r by (auto simp: SharedPtr_assign_move_def split: if_splits)
  show ?thesis
    by (rule strong_assign_chain [where decl = "decl_SharedPtr_move j",
          OF c decl_SharedPtr_move_step [OF c] r'])
qed

text \<open>Operations of weak handle objects.\<close>

lemma decl_WeakPtr_step:
  assumes c: "strong_consistent a w" and r: "decl_WeakPtr w = Returns () w'"
  shows "strong_consistent a w' \<and> sps w' = sps w"
proof -
  have w': "w' = w\<lparr>hp := hp w, wps := wps w @ [WeakPtr_default]\<rparr>"
    using r by (simp add: decl_WeakPtr_def)
  have "strong_consistent a w'" unfolding w'
    by (rule sc_push_weak [OF c]) (simp_all add: WeakPtr_default_def)
  then show ?thesis by (simp add: w')
qed

lemma weak_push_step:
  assumes c: "strong_consistent a w"
    and f: "f y (hp w) = Returns x h'"
    and ws: "weak_step a (hp w) (final (f y (hp w)))"
    and mk: "members_kept (hp w) (final (f y (hp w)))"
    and cb: "wp_cb x = None \<or> wp_cb x = Some a"
  shows "strong_consistent a (w\<lparr>hp := h', wps := wps w @ [x]\<rparr>)"
  by (rule sc_push_weak [OF c _ _ cb]) (use ws mk f in simp_all)

lemma decl_WeakPtr_from_shared_step:
  assumes c: "strong_consistent a w" and r: "decl_WeakPtr_from_shared j w = Returns () w'"
  shows "strong_consistent a w' \<and> sps w' = sps w"
proof -
  from r have j: "j < length (sps w)"
    by (auto simp: decl_WeakPtr_from_shared_def split: if_splits)
  from r j obtain x h' where f: "WeakPtr_from_shared (sps w ! j) (hp w) = Returns x h'"
    and w': "w' = w\<lparr>hp := h', wps := wps w @ [x]\<rparr>"
    by (auto simp: decl_WeakPtr_from_shared_def on_heap_def and_then_def split: outcome.splits)
  have cb: "wp_cb x = None \<or> wp_cb x = Some a"
    using WeakPtr_from_shared_cb(1) [OF f] sc_sps [OF c] j by simp
  have "strong_consistent a w'" unfolding w'
    by (rule weak_push_step [where f = WeakPtr_from_shared, OF c f
          weak_step_WeakPtr_from_shared members_kept_WeakPtr_from_shared cb])
  then show ?thesis by (simp add: w')
qed

lemma decl_WeakPtr_from_shared_cov_step:
  assumes c: "strong_consistent a w" and r: "decl_WeakPtr_from_shared_cov j w = Returns () w'"
  shows "strong_consistent a w' \<and> sps w' = sps w"
proof -
  from r have j: "j < length (sps w)"
    by (auto simp: decl_WeakPtr_from_shared_cov_def split: if_splits)
  from r j obtain x h' where f: "WeakPtr_from_shared_cov (sps w ! j) (hp w) = Returns x h'"
    and w': "w' = w\<lparr>hp := h', wps := wps w @ [x]\<rparr>"
    by (auto simp: decl_WeakPtr_from_shared_cov_def on_heap_def and_then_def
        split: outcome.splits)
  have cb: "wp_cb x = None \<or> wp_cb x = Some a"
    using WeakPtr_from_shared_cb(2) [OF f] sc_sps [OF c] j by simp
  have "strong_consistent a w'" unfolding w'
    by (rule weak_push_step [where f = WeakPtr_from_shared_cov, OF c f
          weak_step_WeakPtr_from_shared_cov members_kept_WeakPtr_from_shared_cov cb])
  then show ?thesis by (simp add: w')
qed

lemma decl_WeakPtr_copy_step:
  assumes c: "strong_consistent a w" and r: "decl_WeakPtr_copy k w = Returns () w'"
  shows "strong_consistent a w' \<and> sps w' = sps w"
proof -
  from r have k: "k < length (wps w)"
    by (auto simp: decl_WeakPtr_copy_def split: if_splits)
  from r k obtain x h' where f: "WeakPtr_copy (wps w ! k) (hp w) = Returns x h'"
    and w': "w' = w\<lparr>hp := h', wps := wps w @ [x]\<rparr>"
    by (auto simp: decl_WeakPtr_copy_def on_heap_def and_then_def split: outcome.splits)
  have cb: "wp_cb x = None \<or> wp_cb x = Some a"
    using WeakPtr_copy_cb(1) [OF f] sc_wps [OF c] k by simp
  have "strong_consistent a w'" unfolding w'
    by (rule weak_push_step [where f = WeakPtr_copy, OF c f
          weak_step_WeakPtr_copy members_kept_WeakPtr_copy cb])
  then show ?thesis by (simp add: w')
qed

lemma decl_WeakPtr_copy_cov_step:
  assumes c: "strong_consistent a w" and r: "decl_WeakPtr_copy_cov k w = Returns () w'"
  shows "strong_consistent a w' \<and> sps w' = sps w"
proof -
  from r have k: "k < length (wps w)"
    by (auto simp: decl_WeakPtr_copy_cov_def split: if_splits)
  from r k obtain x h' where f: "WeakPtr_copy_cov (wps w ! k) (hp w) = Returns x h'"
    and w': "w' = w\<lparr>hp := h', wps := wps w @ [x]\<rparr>"
    by (auto simp: decl_WeakPtr_copy_cov_def on_heap_def and_then_def split: outcome.splits)
  have cb: "wp_cb x = None \<or> wp_cb x = Some a"
    using WeakPtr_copy_cb(2) [OF f] sc_wps [OF c] k by simp
  have "strong_consistent a w'" unfolding w'
    by (rule weak_push_step [where f = WeakPtr_copy_cov, OF c f
          weak_step_WeakPtr_copy_cov members_kept_WeakPtr_copy_cov cb])
  then show ?thesis by (simp add: w')
qed

lemma decl_WeakPtr_move_step:
  assumes c: "strong_consistent a w" and r: "decl_WeakPtr_move k w = Returns () w'"
  shows "strong_consistent a w' \<and> sps w' = sps w"
proof -
  from r have k: "k < length (wps w)"
    by (auto simp: decl_WeakPtr_move_def split: if_splits)
  have w': "w' = w\<lparr>wps := (wps w)[k := \<lparr>wp_ptr = None, wp_cb = None\<rparr>] @ [wps w ! k]\<rparr>"
    using r k by (simp add: decl_WeakPtr_move_def WeakPtr_move_def)
  have mem: "wps w ! k \<in> set (wps w)" using k by simp
  have cw: "\<forall>x \<in> set (wps w'). wp_cb x = None \<or> wp_cb x = Some a"
    using sc_wps [OF c] mem
      set_update_subset_insert [of "wps w" k "\<lparr>wp_ptr = None, wp_cb = None\<rparr>"]
    by (auto simp: w')
  have "strong_consistent a w'"
    by (rule sc_weak [OF c _ _ _ cw])
       (use sc_sps [OF c] sc_members [OF c] in \<open>simp_all add: w' strong_refs_def\<close>)
  then show ?thesis by (simp add: w')
qed

lemma WeakPtr_swap_at_step:
  assumes c: "strong_consistent a w" and r: "WeakPtr_swap_at k l w = Returns () w'"
  shows "strong_consistent a w' \<and> sps w' = sps w"
proof -
  from r have kl: "k < length (wps w)" "l < length (wps w)"
    by (auto simp: WeakPtr_swap_at_def split: if_splits)
  have w': "w' = w\<lparr>wps := (wps w)[k := wps w ! l, l := wps w ! k]\<rparr>"
    using r kl by (simp add: WeakPtr_swap_at_def WeakPtr_swap_def)
  have "strong_consistent a w'"
    by (rule sc_weak [OF c])
       (use sc_sps [OF c] sc_wps [OF c] sc_members [OF c]
         in \<open>simp_all add: w' strong_refs_def set_swap [OF kl]\<close>)
  then show ?thesis by (simp add: w')
qed

lemma end_WeakPtr_step:
  assumes c: "strong_consistent a w" and r: "end_WeakPtr k w = Returns () w'"
  shows "strong_consistent a w' \<and> sps w' = sps w"
proof -
  from r have k: "k < length (wps w)"
    by (auto simp: end_WeakPtr_def split: if_splits)
  from r k obtain t h' where clr: "WeakPtr_destructor (wps w ! k) (hp w) = Returns t h'"
    and w': "w' = w\<lparr>hp := h', wps := drop_nth k (wps w)\<rparr>"
    by (auto simp: end_WeakPtr_def on_heap_def and_then_def split: outcome.splits)
  have ws: "weak_step a (hp w) h'" "members_kept (hp w) h'"
    using weak_step_WeakPtr_destructor [of a "hp w" "wps w ! k"]
      members_kept_WeakPtr_destructor [of "hp w" "wps w ! k"] clr
    by simp_all
  have cw: "\<forall>x \<in> set (wps w'). wp_cb x = None \<or> wp_cb x = Some a"
    using sc_wps [OF c] set_drop_nth [of k "wps w"] by (auto simp: w')
  have "strong_consistent a w'"
    by (rule sc_weak [OF c _ _ _ cw])
       (use ws sc_sps [OF c] members_closed [OF sc_members [OF c] ws(2)]
         in \<open>simp_all add: w' strong_refs_def\<close>)
  then show ?thesis by (simp add: w')
qed

lemma weak_assign_chain:
  assumes c: "strong_consistent a w"
    and d: "\<And>w1. decl w = Returns () w1 \<Longrightarrow> strong_consistent a w1 \<and> sps w1 = sps w"
    and r: "and_then (decl w)
              (\<lambda>_ w1. and_then (WeakPtr_swap_at k n w1) (\<lambda>_ w2. end_WeakPtr n w2)) =
            Returns () w'"
  shows "strong_consistent a w' \<and> sps w' = sps w"
proof -
  from and_then_Returns [OF r] obtain w1 where
    r1: "decl w = Returns () w1" and
    r': "and_then (WeakPtr_swap_at k n w1) (\<lambda>_ w2. end_WeakPtr n w2) = Returns () w'"
    by auto
  from and_then_Returns [OF r'] obtain w2 where
    r2: "WeakPtr_swap_at k n w1 = Returns () w2" and r3: "end_WeakPtr n w2 = Returns () w'"
    by auto
  note s1 = d [OF r1]
  note s2 = WeakPtr_swap_at_step [OF conjunct1 [OF s1] r2]
  note s3 = end_WeakPtr_step [OF conjunct1 [OF s2] r3]
  show ?thesis using s1 s2 s3 by simp
qed

lemma WeakPtr_assign_step:
  assumes c: "strong_consistent a w" and r: "WeakPtr_assign k l w = Returns () w'"
  shows "strong_consistent a w' \<and> sps w' = sps w"
proof (cases "k = l")
  case True
  then have "w' = w" using r by (auto simp: WeakPtr_assign_def split: if_splits)
  then show ?thesis using c by simp
next
  case False
  then have r': "and_then (decl_WeakPtr_copy l w)
      (\<lambda>_ w1. and_then (WeakPtr_swap_at k (length (wps w)) w1)
         (\<lambda>_ w2. end_WeakPtr (length (wps w)) w2)) = Returns () w'"
    using r by (auto simp: WeakPtr_assign_def split: if_splits)
  show ?thesis
    by (rule weak_assign_chain [where decl = "decl_WeakPtr_copy l",
          OF c decl_WeakPtr_copy_step [OF c] r'])
qed

lemma WeakPtr_assign_cov_step:
  assumes c: "strong_consistent a w" and r: "WeakPtr_assign_cov k l w = Returns () w'"
  shows "strong_consistent a w' \<and> sps w' = sps w"
proof -
  have r': "and_then (decl_WeakPtr_copy_cov l w)
      (\<lambda>_ w1. and_then (WeakPtr_swap_at k (length (wps w)) w1)
         (\<lambda>_ w2. end_WeakPtr (length (wps w)) w2)) = Returns () w'"
    using r by (auto simp: WeakPtr_assign_cov_def split: if_splits)
  show ?thesis
    by (rule weak_assign_chain [where decl = "decl_WeakPtr_copy_cov l",
          OF c decl_WeakPtr_copy_cov_step [OF c] r'])
qed

lemma WeakPtr_assign_move_step:
  assumes c: "strong_consistent a w" and r: "WeakPtr_assign_move k l w = Returns () w'"
  shows "strong_consistent a w' \<and> sps w' = sps w"
proof -
  have r': "and_then (decl_WeakPtr_move l w)
      (\<lambda>_ w1. and_then (WeakPtr_swap_at k (length (wps w)) w1)
         (\<lambda>_ w2. end_WeakPtr (length (wps w)) w2)) = Returns () w'"
    using r by (auto simp: WeakPtr_assign_move_def split: if_splits)
  show ?thesis
    by (rule weak_assign_chain [where decl = "decl_WeakPtr_move l",
          OF c decl_WeakPtr_move_step [OF c] r'])
qed

text \<open>Assignment to the weak handle member of the payload.\<close>

lemma payload_wptr_assign_step:
  assumes r: "payload_wptr_assign a' x h = Returns u h'"
  shows "weak_step a h h' \<and>
         (\<forall>a'' m. payload_wptr h' a'' = Some m \<longrightarrow> payload_wptr h a'' = Some m \<or> m = x)"
proof -
  from r obtain this where t: "payload_wptr h a' = Some this"
    by (auto simp: payload_wptr_assign_def split: option.splits)
  from r t obtain copy h1 where cp: "WeakPtr_copy x h = Returns copy h1"
    by (auto simp: payload_wptr_assign_def split: outcome.splits)
  have copy: "copy = x" using WeakPtr_copy_cb(1) [OF cp] .
  let ?h1 = "h1\<lparr>payload_wptr := (payload_wptr h1)(a' \<mapsto> x)\<rparr>"
  from r t cp copy obtain v where d: "WeakPtr_destructor this ?h1 = Returns v h'"
    by (auto simp: payload_wptr_assign_def WeakPtr_swap_def split: outcome.splits)
  have 1: "weak_step a h h1" "members_kept h h1"
    using weak_step_WeakPtr_copy [of a h x] members_kept_WeakPtr_copy [of h x] cp by simp_all
  have 2: "weak_step a h1 ?h1" by (simp add: weak_step_def split: option.splits)
  have 3: "weak_step a ?h1 h'" "members_kept ?h1 h'"
    using weak_step_WeakPtr_destructor [of a ?h1 this]
      members_kept_WeakPtr_destructor [of ?h1 this] d
    by simp_all
  have "weak_step a h h'" using 1(1) 2 3(1) by (blast intro: weak_step_trans)
  moreover have "\<forall>a'' m. payload_wptr h' a'' = Some m \<longrightarrow> payload_wptr h a'' = Some m \<or> m = x"
    using 1(2) 3(2) unfolding members_kept_def by (auto split: if_splits)
  ultimately show ?thesis by blast
qed

lemma payload_wptr_assign_move_step:
  assumes r: "payload_wptr_assign_move a' x h = Returns x' h'"
  shows "weak_step a h h' \<and> x' = \<lparr>wp_ptr = None, wp_cb = None\<rparr> \<and>
         (\<forall>a'' m. payload_wptr h' a'' = Some m \<longrightarrow> payload_wptr h a'' = Some m \<or> m = x)"
proof -
  from r obtain this where t: "payload_wptr h a' = Some this"
    by (auto simp: payload_wptr_assign_move_def split: option.splits)
  let ?h1 = "h\<lparr>payload_wptr := (payload_wptr h)(a' \<mapsto> x)\<rparr>"
  from r t obtain v where d: "WeakPtr_destructor this ?h1 = Returns v h'"
    and x': "x' = \<lparr>wp_ptr = None, wp_cb = None\<rparr>"
    by (auto simp: payload_wptr_assign_move_def WeakPtr_swap_def WeakPtr_move_def
        split: outcome.splits)
  have 2: "weak_step a h ?h1" by (simp add: weak_step_def split: option.splits)
  have 3: "weak_step a ?h1 h'" "members_kept ?h1 h'"
    using weak_step_WeakPtr_destructor [of a ?h1 this]
      members_kept_WeakPtr_destructor [of ?h1 this] d
    by simp_all
  have "weak_step a h h'" using 2 3(1) by (blast intro: weak_step_trans)
  moreover have "\<forall>a'' m. payload_wptr h' a'' = Some m \<longrightarrow> payload_wptr h a'' = Some m \<or> m = x"
    using 3(2) unfolding members_kept_def by (auto split: if_splits)
  ultimately show ?thesis using x' by blast
qed

lemma payload_WeakPtr_assign_step:
  assumes c: "strong_consistent a w" and r: "payload_WeakPtr_assign i l w = Returns () w'"
  shows "strong_consistent a w' \<and> sps w' = sps w"
proof -
  from r have il: "i < length (sps w)" "l < length (wps w)"
    by (auto simp: payload_WeakPtr_assign_def split: if_splits)
  from r il obtain a' h0 where p: "payload_of (sps w ! i) (hp w) = Returns a' h0"
    and r1: "and_then (on_heap (w\<lparr>hp := h0\<rparr>) (payload_wptr_assign a' (wps w ! l) h0))
               (\<lambda>_ w2. Returns () w2) = Returns () w'"
    by (auto simp: payload_WeakPtr_assign_def on_heap_def and_then_def split: outcome.splits)
  have h0: "h0 = hp w" using payload_of_Returns [OF p] by blast
  from r1 obtain u h' where f: "payload_wptr_assign a' (wps w ! l) (hp w) = Returns u h'"
    and w': "w' = w\<lparr>hp := h'\<rparr>"
    unfolding h0 by (auto simp: on_heap_def and_then_def split: outcome.splits)
  note s = payload_wptr_assign_step [OF f, of a]
  have cl: "wp_cb (wps w ! l) = None \<or> wp_cb (wps w ! l) = Some a"
    using sc_wps [OF c] il by simp
  have cm: "\<forall>a'' m. payload_wptr h' a'' = Some m \<longrightarrow> wp_cb m = None \<or> wp_cb m = Some a"
    using s sc_members [OF c] cl by blast
  have "strong_consistent a w'"
    by (rule sc_weak [OF c])
       (use s cm sc_sps [OF c] sc_wps [OF c] in \<open>simp_all add: w' strong_refs_def\<close>)
  then show ?thesis by (simp add: w')
qed

lemma payload_WeakPtr_assign_move_step:
  assumes c: "strong_consistent a w" and r: "payload_WeakPtr_assign_move i l w = Returns () w'"
  shows "strong_consistent a w' \<and> sps w' = sps w"
proof -
  from r have il: "i < length (sps w)" "l < length (wps w)"
    by (auto simp: payload_WeakPtr_assign_move_def split: if_splits)
  from r il obtain a' h0 where p: "payload_of (sps w ! i) (hp w) = Returns a' h0"
    and r1: "and_then (on_heap (w\<lparr>hp := h0\<rparr>) (payload_wptr_assign_move a' (wps w ! l) h0))
               (\<lambda>wptr w2. Returns () (w2\<lparr>wps := (wps w2)[l := wptr]\<rparr>)) = Returns () w'"
    by (auto simp: payload_WeakPtr_assign_move_def on_heap_def and_then_def
        split: outcome.splits)
  have h0: "h0 = hp w" using payload_of_Returns [OF p] by blast
  from r1 obtain x' h' where f: "payload_wptr_assign_move a' (wps w ! l) (hp w) = Returns x' h'"
    and w': "w' = w\<lparr>hp := h', wps := (wps w)[l := x']\<rparr>"
    unfolding h0 by (auto simp: on_heap_def and_then_def split: outcome.splits)
  note s = payload_wptr_assign_move_step [OF f, of a]
  have cl: "wp_cb (wps w ! l) = None \<or> wp_cb (wps w ! l) = Some a"
    using sc_wps [OF c] il by simp
  have cm: "\<forall>a'' m. payload_wptr h' a'' = Some m \<longrightarrow> wp_cb m = None \<or> wp_cb m = Some a"
    using s sc_members [OF c] cl by blast
  have cw: "\<forall>x \<in> set (wps w'). wp_cb x = None \<or> wp_cb x = Some a"
    using closed_sub_w [OF sc_wps [OF c], of "(wps w)[l := x']"] s
      set_update_subset_insert [of "wps w" l x']
    by (simp add: w')
  have "strong_consistent a w'"
    by (rule sc_weak [OF c _ _ _ cw])
       (use s cm sc_sps [OF c] in \<open>simp_all add: w' strong_refs_def\<close>)
  then show ?thesis by (simp add: w')
qed

lemma exec_step:
  assumes c: "strong_consistent a w" and bd: "length (sps w) < 2 ^ 64 - 1"
    and r: "exec x w = Returns () w'"
  shows "strong_consistent a w' \<and> length (sps w') \<le> Suc (length (sps w))"
proof (cases x)
  case NewShared
  then show ?thesis using decl_SharedPtr_step [OF c, of w'] r by simp
next
  case (CopyShared j)
  then show ?thesis using decl_SharedPtr_copy_step [OF c bd, of j w'] r by simp
next
  case (CopySharedCov j)
  then show ?thesis using decl_SharedPtr_copy_cov_step [OF c bd, of j w'] r by simp
next
  case (MoveShared j)
  then show ?thesis using decl_SharedPtr_move_step [OF c, of j w'] r by simp
next
  case (LockWeak k)
  then show ?thesis using decl_SharedPtr_lock_step [OF c bd, of k w'] r by simp
next
  case (SwapShared i j)
  then show ?thesis using SharedPtr_swap_at_step [OF c, of i j w'] r by simp
next
  case (AssignShared i j)
  then show ?thesis using SharedPtr_assign_step [OF c bd, of i j w'] r by simp
next
  case (AssignSharedCov i j)
  then show ?thesis using SharedPtr_assign_cov_step [OF c bd, of i j w'] r by simp
next
  case (AssignSharedMove i j)
  then show ?thesis using SharedPtr_assign_move_step [OF c, of i j w'] r by simp
next
  case (ResetShared i)
  then show ?thesis using SharedPtr_reset_at_step [OF c, of i w'] r by simp
next
  case (EndShared i)
  then show ?thesis using end_SharedPtr_step [OF c, of i w'] r by auto
next
  case NewWeak
  then show ?thesis using decl_WeakPtr_step [OF c, of w'] r by simp
next
  case (WeakFromShared j)
  then show ?thesis using decl_WeakPtr_from_shared_step [OF c, of j w'] r by simp
next
  case (WeakFromSharedCov j)
  then show ?thesis using decl_WeakPtr_from_shared_cov_step [OF c, of j w'] r by simp
next
  case (CopyWeak k)
  then show ?thesis using decl_WeakPtr_copy_step [OF c, of k w'] r by simp
next
  case (CopyWeakCov k)
  then show ?thesis using decl_WeakPtr_copy_cov_step [OF c, of k w'] r by simp
next
  case (MoveWeak k)
  then show ?thesis using decl_WeakPtr_move_step [OF c, of k w'] r by simp
next
  case (AssignWeak k l)
  then show ?thesis using WeakPtr_assign_step [OF c, of k l w'] r by simp
next
  case (AssignWeakCov k l)
  then show ?thesis using WeakPtr_assign_cov_step [OF c, of k l w'] r by simp
next
  case (AssignWeakMove k l)
  then show ?thesis using WeakPtr_assign_move_step [OF c, of k l w'] r by simp
next
  case (EndWeak k)
  then show ?thesis using end_WeakPtr_step [OF c, of k w'] r by simp
next
  case (AssignPayloadWeak i l)
  then show ?thesis using payload_WeakPtr_assign_step [OF c, of i l w'] r by simp
next
  case (AssignPayloadWeakMove i l)
  then show ?thesis using payload_WeakPtr_assign_move_step [OF c, of i l w'] r by simp
next
  case (LockPayloadWeak i)
  then show ?thesis using payload_WeakPtr_lock_step [OF c bd, of i w'] r by simp
qed

lemma run_consistent:
  assumes "strong_consistent a w"
    and "length (sps w) + length ops < 2 ^ 64 - 1"
    and "run ops w = Returns () w'"
  shows "strong_consistent a w' \<and> length (sps w') \<le> length (sps w) + length ops"
  using assms
proof (induction ops arbitrary: w)
  case Nil
  then show ?case by simp
next
  case (Cons x xs)
  from Cons.prems(3) obtain w1 where x: "exec x w = Returns () w1" and xs: "run xs w1 = Returns () w'"
    by (auto split: outcome.splits)
  have bd: "length (sps w) < 2 ^ 64 - 1" using Cons.prems(2) by simp
  note s = exec_step [OF Cons.prems(1) bd x]
  have "length (sps w1) + length xs < 2 ^ 64 - 1"
    using s Cons.prems(2) by simp
  from Cons.IH [OF conjunct1 [OF s] this xs] show ?case using s by simp
qed

lemma consistent_after_makeShared: "strong_consistent a (after_makeShared so a)"
  by (simp add: after_makeShared_def world_of_def makeShared_def empty_heap_def Let_def
      strong_consistent_def strong_refs_def WeakPtr_default_def)

lemma objects_after_makeShared: "length (sps (after_makeShared so a)) = 1"
  by (simp add: after_makeShared_def world_of_def makeShared_def empty_heap_def Let_def)

section \<open>Calls recorded by an operation\<close>

lemma emits_refl [simp]: "emits P t t"
  by (simp add: emits_def)

lemma emits_app [simp]: "emits P t (t @ u) = list_all P u"
  by (simp add: emits_def)

lemma emits_trans: "emits P s t \<Longrightarrow> emits P t u \<Longrightarrow> emits P s u"
  by (auto simp: emits_def)

lemma emits_weaken: "emits P s t \<Longrightarrow> (\<And>e. P e \<Longrightarrow> Q e) \<Longrightarrow> emits Q s t"
  by (auto simp: emits_def list_all_iff)

text \<open>Member functions, on the heap.\<close>

lemma emits_SharedPtr_copy: "emits P (trace h) (trace (final (SharedPtr_copy s h)))"
  by (simp add: SharedPtr_copy_def split: option.splits)

lemma emits_SharedPtr_copy_cov: "emits P (trace h) (trace (final (SharedPtr_copy_cov s h)))"
  by (simp add: SharedPtr_copy_cov_def split: option.splits)

lemma emits_WeakPtr_clear:
  "emits is_Deallocate (trace h) (trace (final (WeakPtr_clear x h)))"
  by (simp add: WeakPtr_clear_def deallocate_def Let_def split: option.splits)

lemma emits_destroy:
  "emits is_Deallocate (trace h @ [Destroy a]) (trace (final (destroy a h)))"
proof (cases "payload_wptr h a")
  case None
  then show ?thesis by (simp add: destroy_def Let_def)
next
  case (Some m)
  let ?h1 = "h\<lparr>trace := trace h @ [Destroy a]\<rparr>"
  have "emits is_Deallocate (trace ?h1) (trace (final (WeakPtr_clear m ?h1)))"
    by (rule emits_WeakPtr_clear)
  then show ?thesis using Some
    by (cases "WeakPtr_clear m ?h1") (simp_all add: destroy_def Let_def WeakPtr_destructor_def)
qed

lemma emits_SharedPtr_clear_last:
  assumes "sp_cb this = Some a" and "blocks h a = Some b" and "shared b = 1"
  shows "emits is_Deallocate (trace h @ [Destroy a]) (trace (final (SharedPtr_clear this h)))"
proof -
  let ?h1 = "h\<lparr>blocks := (blocks h)(a \<mapsto> b\<lparr>shared := shared b - 1\<rparr>)\<rparr>"
  have d: "emits is_Deallocate (trace h @ [Destroy a]) (trace (final (destroy a ?h1)))"
    using emits_destroy [of ?h1 a] by simp
  then have "emits is_Deallocate (trace h @ [Destroy a])
      (trace (final (destroy a ?h1)) @ [Deallocate a])"
    by (auto simp: emits_def)
  then show ?thesis using assms d
    by (cases "destroy a ?h1")
       (auto simp: SharedPtr_clear_def Let_def deallocate_def split: option.splits)
qed

lemma emits_SharedPtr_clear:
  "emits (\<lambda>e. True) (trace h) (trace (final (SharedPtr_clear s h)))"
proof (cases "sp_cb s")
  case None
  then show ?thesis by (simp add: SharedPtr_clear_def)
next
  case (Some a)
  show ?thesis
  proof (cases "blocks h a")
    case None
    then show ?thesis using Some by (simp add: SharedPtr_clear_def)
  next
    case b: (Some b)
    show ?thesis
    proof (cases "shared b = 1")
      case True
      from emits_SharedPtr_clear_last [OF Some b True]
      show ?thesis by (auto simp: emits_def list_all_iff)
    next
      case False
      then show ?thesis using SharedPtr_clear_not_last [OF Some b False] by simp
    qed
  qed
qed

lemma emits_SharedPtr_reset:
  "emits (\<lambda>e. True) (trace h) (trace (final (SharedPtr_reset s h)))"
  using emits_SharedPtr_clear [of h s]
  by (cases "SharedPtr_clear s h")
     (simp_all add: SharedPtr_reset_def SharedPtr_swap_def SharedPtr_destructor_def)

lemma emits_WeakPtr_from_shared: "emits P (trace h) (trace (final (WeakPtr_from_shared s h)))"
  by (simp add: WeakPtr_from_shared_def split: option.splits)

lemma emits_WeakPtr_from_shared_cov:
  "emits P (trace h) (trace (final (WeakPtr_from_shared_cov s h)))"
  by (simp add: WeakPtr_from_shared_cov_def split: option.splits)

lemma emits_WeakPtr_copy: "emits P (trace h) (trace (final (WeakPtr_copy x h)))"
  by (simp add: WeakPtr_copy_def split: option.splits)

lemma emits_WeakPtr_copy_cov: "emits P (trace h) (trace (final (WeakPtr_copy_cov x h)))"
  by (simp add: WeakPtr_copy_cov_def split: option.splits)

lemma emits_SharedPtr_from_weak: "emits P (trace h) (trace (final (SharedPtr_from_weak x h)))"
  by (simp add: SharedPtr_from_weak_def split: option.splits)

lemma emits_WeakPtr_lock:
  "emits is_Deallocate (trace h) (trace (final (WeakPtr_lock x h)))"
proof (cases "WeakPtr_expired x h")
  case (Fails e h')
  then show ?thesis
    by (auto simp: WeakPtr_lock_def WeakPtr_expired_def WeakPtr_use_count_def
        split: option.splits)
next
  case (Returns ex h')
  then have h': "h' = h"
    by (auto simp: WeakPtr_expired_def WeakPtr_use_count_def split: option.splits)
  show ?thesis
  proof (cases ex)
    case True
    then show ?thesis using Returns h' by (simp add: WeakPtr_lock_def)
  next
    case False
    show ?thesis
    proof (cases "WeakPtr_copy x h")
      case (Fails e h1)
      then show ?thesis
        using Returns h' False emits_WeakPtr_copy [of is_Deallocate h x]
        by (simp add: WeakPtr_lock_def)
    next
      case c: (Returns y h1)
      then have 1: "emits is_Deallocate (trace h) (trace h1)"
        using emits_WeakPtr_copy [of is_Deallocate h x] by simp
      show ?thesis
      proof (cases "SharedPtr_from_weak y h1")
        case (Fails e h2)
        then show ?thesis
          using Returns h' False c emits_SharedPtr_from_weak [of is_Deallocate h1 y] 1
          by (auto simp: WeakPtr_lock_def intro: emits_trans)
      next
        case f: (Returns sp h2)
        then have 2: "emits is_Deallocate (trace h1) (trace h2)"
          using emits_SharedPtr_from_weak [of is_Deallocate h1 y] by simp
        have 3: "emits is_Deallocate (trace h2) (trace (final (WeakPtr_clear y h2)))"
          by (rule emits_WeakPtr_clear)
        have "emits is_Deallocate (trace h) (trace (final (WeakPtr_clear y h2)))"
          using 1 2 3 by (blast intro: emits_trans)
        then show ?thesis
          using Returns h' False c f
          by (cases "WeakPtr_clear y h2") (simp_all add: WeakPtr_lock_def WeakPtr_destructor_def)
      qed
    qed
  qed
qed

lemma emits_shared_from_this:
  "emits is_Deallocate (trace h) (trace (final (shared_from_this a h)))"
  by (cases "payload_wptr h a") (simp_all add: shared_from_this_def emits_WeakPtr_lock)

lemma emits_payload_of: "emits P (trace h) (trace (final (payload_of s h)))"
  by (simp add: payload_of_def SharedPtr_arrow_def split: option.splits pointer.splits)

lemma emits_payload_wptr_assign:
  "emits is_Deallocate (trace h) (trace (final (payload_wptr_assign a x h)))"
proof (cases "payload_wptr h a")
  case None
  then show ?thesis by (simp add: payload_wptr_assign_def)
next
  case (Some this)
  show ?thesis
  proof (cases "WeakPtr_copy x h")
    case (Fails e h1)
    then show ?thesis using Some emits_WeakPtr_copy [of is_Deallocate h x]
      by (simp add: payload_wptr_assign_def)
  next
    case (Returns copy h1)
    let ?h1 = "h1\<lparr>payload_wptr := (payload_wptr h1)(a \<mapsto> copy)\<rparr>"
    have 1: "emits is_Deallocate (trace h) (trace ?h1)"
      using emits_WeakPtr_copy [of is_Deallocate h x] Returns by simp
    have 2: "emits is_Deallocate (trace ?h1) (trace (final (WeakPtr_clear this ?h1)))"
      by (rule emits_WeakPtr_clear)
    show ?thesis using Some Returns emits_trans [OF 1 2]
      by (cases "WeakPtr_clear this ?h1")
         (simp_all add: payload_wptr_assign_def WeakPtr_swap_def WeakPtr_destructor_def)
  qed
qed

lemma emits_payload_wptr_assign_move:
  "emits is_Deallocate (trace h) (trace (final (payload_wptr_assign_move a x h)))"
proof (cases "payload_wptr h a")
  case None
  then show ?thesis by (simp add: payload_wptr_assign_move_def)
next
  case (Some this)
  let ?h1 = "h\<lparr>payload_wptr := (payload_wptr h)(a \<mapsto> x)\<rparr>"
  have "emits is_Deallocate (trace ?h1) (trace (final (WeakPtr_clear this ?h1)))"
    by (rule emits_WeakPtr_clear)
  then show ?thesis using Some
    by (cases "WeakPtr_clear this ?h1")
       (simp_all add: payload_wptr_assign_move_def WeakPtr_swap_def WeakPtr_move_def
         WeakPtr_destructor_def)
qed

lemma emits_lift:
  assumes "emits P (trace (hp v)) (trace (final r))" and "\<And>x w1. hp (g x w1) = hp w1"
  shows "emits P (trace (hp v))
           (trace (hp (final (and_then (on_heap v r) (\<lambda>x w1. Returns () (g x w1))))))"
  using assms by (cases r) (simp_all add: on_heap_def and_then_def)

lemma emits_and_then:
  assumes "emits P t (trace (hp (final r)))"
    and "\<And>x s. emits P (trace (hp s)) (trace (hp (final (f x s))))"
  shows "emits P t (trace (hp (final (and_then r f))))"
  using assms by (cases r) (auto simp: and_then_def intro: emits_trans)

lemma emits_decl_SharedPtr: "emits P (trace (hp v)) (trace (hp (final (decl_SharedPtr v))))"
  by (simp add: decl_SharedPtr_def)

lemma emits_decl_WeakPtr: "emits P (trace (hp v)) (trace (hp (final (decl_WeakPtr v))))"
  by (simp add: decl_WeakPtr_def)

lemma emits_decl_SharedPtr_copy:
  "emits P (trace (hp v)) (trace (hp (final (decl_SharedPtr_copy j v))))"
  unfolding decl_SharedPtr_copy_def
  by (auto intro!: emits_lift emits_SharedPtr_copy)

lemma emits_decl_SharedPtr_copy_cov:
  "emits P (trace (hp v)) (trace (hp (final (decl_SharedPtr_copy_cov j v))))"
  unfolding decl_SharedPtr_copy_cov_def
  by (auto intro!: emits_lift emits_SharedPtr_copy_cov)

lemma emits_decl_SharedPtr_move:
  "emits P (trace (hp v)) (trace (hp (final (decl_SharedPtr_move j v))))"
  by (simp add: decl_SharedPtr_move_def SharedPtr_move_def)

lemma emits_decl_SharedPtr_lock:
  "emits is_Deallocate (trace (hp v)) (trace (hp (final (decl_SharedPtr_lock k v))))"
  unfolding decl_SharedPtr_lock_def
  by (auto intro!: emits_lift emits_WeakPtr_lock)

lemma emits_SharedPtr_swap_at:
  "emits P (trace (hp v)) (trace (hp (final (SharedPtr_swap_at i j v))))"
  by (simp add: SharedPtr_swap_at_def SharedPtr_swap_def)

lemma emits_end_SharedPtr:
  "emits (\<lambda>e. True) (trace (hp v)) (trace (hp (final (end_SharedPtr i v))))"
  unfolding end_SharedPtr_def SharedPtr_destructor_def
  by (auto intro!: emits_lift emits_SharedPtr_clear)

lemma emits_SharedPtr_reset_at:
  "emits (\<lambda>e. True) (trace (hp v)) (trace (hp (final (SharedPtr_reset_at i v))))"
  unfolding SharedPtr_reset_at_def
  by (auto intro!: emits_lift emits_SharedPtr_reset)

lemma emits_strong_assign:
  assumes "\<And>v. emits (\<lambda>e. True) (trace (hp v)) (trace (hp (final (decl v))))"
  shows "emits (\<lambda>e. True) (trace (hp v))
     (trace (hp (final (and_then (decl v)
        (\<lambda>_ w1. and_then (SharedPtr_swap_at i n w1) (\<lambda>_ w2. end_SharedPtr n w2))))))"
  by (intro emits_and_then assms emits_SharedPtr_swap_at emits_end_SharedPtr)

lemma emits_SharedPtr_assign:
  "emits (\<lambda>e. True) (trace (hp v)) (trace (hp (final (SharedPtr_assign i j v))))"
  unfolding SharedPtr_assign_def
  using emits_strong_assign [where decl = "decl_SharedPtr_copy j", OF emits_decl_SharedPtr_copy]
  by simp

lemma emits_SharedPtr_assign_cov:
  "emits (\<lambda>e. True) (trace (hp v)) (trace (hp (final (SharedPtr_assign_cov i j v))))"
  unfolding SharedPtr_assign_cov_def
  using emits_strong_assign [where decl = "decl_SharedPtr_copy_cov j",
      OF emits_decl_SharedPtr_copy_cov]
  by simp

lemma emits_SharedPtr_assign_move:
  "emits (\<lambda>e. True) (trace (hp v)) (trace (hp (final (SharedPtr_assign_move i j v))))"
  unfolding SharedPtr_assign_move_def
  using emits_strong_assign [where decl = "decl_SharedPtr_move j", OF emits_decl_SharedPtr_move]
  by simp

lemma emits_decl_WeakPtr_from_shared:
  "emits P (trace (hp v)) (trace (hp (final (decl_WeakPtr_from_shared j v))))"
  unfolding decl_WeakPtr_from_shared_def
  by (auto intro!: emits_lift emits_WeakPtr_from_shared)

lemma emits_decl_WeakPtr_from_shared_cov:
  "emits P (trace (hp v)) (trace (hp (final (decl_WeakPtr_from_shared_cov j v))))"
  unfolding decl_WeakPtr_from_shared_cov_def
  by (auto intro!: emits_lift emits_WeakPtr_from_shared_cov)

lemma emits_decl_WeakPtr_copy:
  "emits P (trace (hp v)) (trace (hp (final (decl_WeakPtr_copy k v))))"
  unfolding decl_WeakPtr_copy_def
  by (auto intro!: emits_lift emits_WeakPtr_copy)

lemma emits_decl_WeakPtr_copy_cov:
  "emits P (trace (hp v)) (trace (hp (final (decl_WeakPtr_copy_cov k v))))"
  unfolding decl_WeakPtr_copy_cov_def
  by (auto intro!: emits_lift emits_WeakPtr_copy_cov)

lemma emits_decl_WeakPtr_move:
  "emits P (trace (hp v)) (trace (hp (final (decl_WeakPtr_move k v))))"
  by (simp add: decl_WeakPtr_move_def WeakPtr_move_def)

lemma emits_WeakPtr_swap_at:
  "emits P (trace (hp v)) (trace (hp (final (WeakPtr_swap_at k l v))))"
  by (simp add: WeakPtr_swap_at_def WeakPtr_swap_def)

lemma emits_end_WeakPtr:
  "emits is_Deallocate (trace (hp v)) (trace (hp (final (end_WeakPtr k v))))"
  unfolding end_WeakPtr_def WeakPtr_destructor_def
  by (auto intro!: emits_lift emits_WeakPtr_clear)

lemma emits_weak_assign:
  assumes "\<And>v. emits is_Deallocate (trace (hp v)) (trace (hp (final (decl v))))"
  shows "emits is_Deallocate (trace (hp v))
     (trace (hp (final (and_then (decl v)
        (\<lambda>_ w1. and_then (WeakPtr_swap_at k n w1) (\<lambda>_ w2. end_WeakPtr n w2))))))"
  by (intro emits_and_then assms emits_WeakPtr_swap_at emits_end_WeakPtr)

lemma emits_WeakPtr_assign:
  "emits is_Deallocate (trace (hp v)) (trace (hp (final (WeakPtr_assign k l v))))"
  unfolding WeakPtr_assign_def
  using emits_weak_assign [where decl = "decl_WeakPtr_copy l", OF emits_decl_WeakPtr_copy]
  by simp

lemma emits_WeakPtr_assign_cov:
  "emits is_Deallocate (trace (hp v)) (trace (hp (final (WeakPtr_assign_cov k l v))))"
  unfolding WeakPtr_assign_cov_def
  using emits_weak_assign [where decl = "decl_WeakPtr_copy_cov l", OF emits_decl_WeakPtr_copy_cov]
  by simp

lemma emits_WeakPtr_assign_move:
  "emits is_Deallocate (trace (hp v)) (trace (hp (final (WeakPtr_assign_move k l v))))"
  unfolding WeakPtr_assign_move_def
  using emits_weak_assign [where decl = "decl_WeakPtr_move l", OF emits_decl_WeakPtr_move]
  by simp

lemma emits_on_heap:
  "emits P (trace (hp v)) (trace (final r)) \<Longrightarrow>
   emits P (trace (hp v)) (trace (hp (final (on_heap v r))))"
  by (cases r) (simp_all add: on_heap_def)

lemma emits_payload_WeakPtr_assign:
  "emits is_Deallocate (trace (hp v)) (trace (hp (final (payload_WeakPtr_assign i l v))))"
  unfolding payload_WeakPtr_assign_def
  by (auto intro!: emits_and_then emits_on_heap emits_payload_of emits_payload_wptr_assign)

lemma emits_payload_WeakPtr_assign_move:
  "emits is_Deallocate (trace (hp v)) (trace (hp (final (payload_WeakPtr_assign_move i l v))))"
  unfolding payload_WeakPtr_assign_move_def
  by (auto intro!: emits_and_then emits_on_heap emits_payload_of
        emits_payload_wptr_assign_move)

lemma emits_payload_WeakPtr_lock:
  "emits is_Deallocate (trace (hp v)) (trace (hp (final (payload_WeakPtr_lock i v))))"
  unfolding payload_WeakPtr_lock_def
  by (auto intro!: emits_and_then emits_on_heap emits_payload_of emits_shared_from_this)

lemma emits_weak_op:
  "weak_op x \<Longrightarrow> emits is_Deallocate (trace (hp v)) (trace (hp (final (exec x v))))"
  by (cases x)
     (simp_all add: emits_decl_WeakPtr emits_decl_WeakPtr_from_shared
       emits_decl_WeakPtr_from_shared_cov emits_decl_WeakPtr_copy emits_decl_WeakPtr_copy_cov
       emits_decl_WeakPtr_move emits_WeakPtr_assign emits_WeakPtr_assign_cov
       emits_WeakPtr_assign_move emits_end_WeakPtr emits_decl_SharedPtr_lock
       emits_payload_WeakPtr_assign emits_payload_WeakPtr_assign_move
       emits_payload_WeakPtr_lock)

lemma emits_exec: "emits (\<lambda>e. True) (trace (hp v)) (trace (hp (final (exec x v))))"
proof (cases "weak_op x")
  case True
  then show ?thesis by (rule emits_weaken [OF emits_weak_op]) simp
next
  case False
  then show ?thesis
    by (cases x)
       (simp_all add: emits_decl_SharedPtr emits_decl_SharedPtr_copy
         emits_decl_SharedPtr_copy_cov emits_decl_SharedPtr_move emits_SharedPtr_swap_at
         emits_SharedPtr_assign emits_SharedPtr_assign_cov emits_SharedPtr_assign_move
         emits_SharedPtr_reset_at emits_end_SharedPtr)
qed

lemma filter_Destroy_emits:
  "emits is_Deallocate t t' \<Longrightarrow> filter is_Destroy t' = filter is_Destroy t"
proof -
  have "list_all is_Deallocate u \<Longrightarrow> filter is_Destroy u = []" for u
    by (induction u) (auto elim: is_Deallocate.elims)
  then show "emits is_Deallocate t t' \<Longrightarrow> filter is_Destroy t' = filter is_Destroy t"
    by (auto simp: emits_def)
qed

section \<open>Runs from a fresh block\<close>

lemma returns_final: "returns r \<Longrightarrow> r = Returns () (final r)" for r :: "(unit, 's) outcome"
  by (cases r) auto

lemma run_snoc:
  "run (ops @ [x]) w = (case run ops w of Returns _ w1 \<Rightarrow> exec x w1 | Fails e w1 \<Rightarrow> Fails e w1)"
  by (induction ops arbitrary: w) (auto split: outcome.splits)

lemma run_snoc_returns:
  assumes "returns (run ops w)"
  shows "run (ops @ [x]) w = exec x (final (run ops w))"
  using assms by (auto simp: run_snoc split: outcome.splits)

lemma reachable_consistent:
  assumes "length ops < 2 ^ 64 - 2" and "returns (run ops (after_makeShared so a))"
  shows "strong_consistent a (final (run ops (after_makeShared so a)))"
    and "length (sps (final (run ops (after_makeShared so a)))) \<le> Suc (length ops)"
proof -
  have "length (sps (after_makeShared so a)) + length ops < 2 ^ 64 - 1"
    using assms(1) by (simp add: objects_after_makeShared)
  from run_consistent [OF consistent_after_makeShared this returns_final [OF assms(2)]]
  show "strong_consistent a (final (run ops (after_makeShared so a)))"
    and "length (sps (final (run ops (after_makeShared so a)))) \<le> Suc (length ops)"
    by (simp_all add: objects_after_makeShared)
qed

text \<open>What the operations on one strong handle object leave.\<close>

lemma end_SharedPtr_effect:
  assumes "returns (end_SharedPtr i w)"
  shows "sps (final (end_SharedPtr i w)) = drop_nth i (sps w) \<and>
         hp (final (end_SharedPtr i w)) = final (SharedPtr_destructor (sps w ! i) (hp w))"
  using assms
  by (cases "SharedPtr_destructor (sps w ! i) (hp w)")
     (auto simp: end_SharedPtr_def on_heap_def and_then_def split: if_splits)

lemma SharedPtr_reset_at_effect:
  assumes "returns (SharedPtr_reset_at i w)"
  shows "sps (final (SharedPtr_reset_at i w)) = (sps w)[i := \<lparr>sp_ptr = None, sp_cb = None\<rparr>] \<and>
         hp (final (SharedPtr_reset_at i w)) = final (SharedPtr_destructor (sps w ! i) (hp w))"
  using assms
  by (cases "SharedPtr_destructor (sps w ! i) (hp w)")
     (auto simp: SharedPtr_reset_at_def SharedPtr_reset_destructor on_heap_def and_then_def
       split: if_splits)

lemma decl_SharedPtr_copy_effect:
  assumes "returns (decl_SharedPtr_copy j w)"
  shows "sps (final (decl_SharedPtr_copy j w)) = sps w @ [sps w ! j]"
  using assms
  by (cases "SharedPtr_copy (sps w ! j) (hp w)")
     (auto simp: decl_SharedPtr_copy_def SharedPtr_copy_def on_heap_def and_then_def
       split: if_splits option.splits)

lemma decl_SharedPtr_copy_cov_effect:
  assumes "returns (decl_SharedPtr_copy_cov j w)"
  shows "sps (final (decl_SharedPtr_copy_cov j w)) = sps w @ [sps w ! j]"
  using assms
  by (cases "SharedPtr_copy_cov (sps w ! j) (hp w)")
     (auto simp: decl_SharedPtr_copy_cov_def SharedPtr_copy_cov_def on_heap_def and_then_def
       split: if_splits option.splits)

lemma decl_SharedPtr_move_effect:
  assumes "returns (decl_SharedPtr_move j w)"
  shows "sps (final (decl_SharedPtr_move j w)) =
           (sps w)[j := \<lparr>sp_ptr = None, sp_cb = None\<rparr>] @ [sps w ! j] \<and>
         hp (final (decl_SharedPtr_move j w)) = hp w"
  using assms by (auto simp: decl_SharedPtr_move_def SharedPtr_move_def split: if_splits)

lemma destroy_gate:
  assumes "sp_cb this = Some a" and "blocks h a = Some b"
  shows "filter is_Destroy (trace (final (SharedPtr_clear this h))) =
         filter is_Destroy (trace h) @ (if shared b - 1 = 0 then [Destroy a] else [])"
proof (cases "shared b = 1")
  case True
  from filter_Destroy_emits [OF emits_SharedPtr_clear_last [OF assms True]]
  show ?thesis using True by simp
next
  case False
  then show ?thesis using SharedPtr_clear_not_last [OF assms False] by (simp add: dec_zero_iff)
qed

section \<open>Every operation destroys the payload at most once, with the last strong object\<close>

lemma last_release_same:
  "emits is_Deallocate (trace (hp w)) (trace (hp w')) \<Longrightarrow> last_release a w w'"
  by (simp add: last_release_def filter_Destroy_emits)

lemma release_adds:
  assumes c: "strong_consistent a v" and i: "i < length (sps v)"
  shows "filter is_Destroy (trace (final (SharedPtr_destructor (sps v ! i) (hp v)))) =
           filter is_Destroy (trace (hp v)) \<or>
         strong_refs a v = 1 \<and>
         filter is_Destroy (trace (final (SharedPtr_destructor (sps v ! i) (hp v)))) = [Destroy a]"
proof (cases "sp_cb (sps v ! i)")
  case None
  then show ?thesis by (simp add: SharedPtr_destructor_def SharedPtr_clear_empty)
next
  case (Some a')
  have mem: "sps v ! i \<in> set (sps v)" using i by simp
  have a': "a' = a" using sc_sp_cb [OF c mem Some] .
  have cb: "sp_cb (sps v ! i) = Some a" using Some a' by simp
  have pos: "0 < strong_refs a v" using strong_refs_pos [OF i cb] .
  obtain b where b: "blocks (hp v) a = Some b" "unat (shared b) = strong_refs a v"
    "filter is_Destroy (trace (hp v)) = []"
    using sc_live [OF c pos] by blast
  show ?thesis
    using destroy_gate [OF cb b(1)] b(2,3)
    by (auto simp: SharedPtr_destructor_def dec_zero_iff unat_eq_1_iff)
qed

lemma end_SharedPtr_heap:
  "hp (final (end_SharedPtr i v)) =
     (if i < length (sps v) then final (SharedPtr_destructor (sps v ! i) (hp v)) else hp v)"
  by (cases "SharedPtr_destructor (sps v ! i) (hp v)")
     (auto simp: end_SharedPtr_def on_heap_def and_then_def)

lemma SharedPtr_reset_at_heap:
  "hp (final (SharedPtr_reset_at i v)) =
     (if i < length (sps v) then final (SharedPtr_destructor (sps v ! i) (hp v)) else hp v)"
  by (cases "SharedPtr_destructor (sps v ! i) (hp v)")
     (auto simp: SharedPtr_reset_at_def SharedPtr_reset_destructor on_heap_def and_then_def)

lemma last_release_end:
  assumes c: "strong_consistent a v"
  shows "last_release a v (final (end_SharedPtr i v))"
  using release_adds [OF c, of i] by (auto simp: last_release_def end_SharedPtr_heap)

lemma last_release_reset:
  assumes c: "strong_consistent a v"
  shows "last_release a v (final (SharedPtr_reset_at i v))"
  using release_adds [OF c, of i] by (auto simp: last_release_def SharedPtr_reset_at_heap)

lemma last_release_chain:
  assumes c: "strong_consistent a w"
    and d: "\<And>w1. decl w = Returns () w1 \<Longrightarrow>
          strong_consistent a w1 \<and> length (sps w1) = Suc (length (sps w)) \<and>
          strong_refs a w \<le> strong_refs a w1"
    and e: "emits is_Deallocate (trace (hp w)) (trace (hp (final (decl w))))"
  shows "last_release a w
           (final (and_then (decl w)
              (\<lambda>_ w1. and_then (SharedPtr_swap_at i n w1) (\<lambda>_ w2. end_SharedPtr n w2))))"
proof (cases "decl w")
  case (Fails err w1)
  then show ?thesis using e by (simp add: and_then_def last_release_same)
next
  case (Returns u w1)
  then have r1: "decl w = Returns () w1" by simp
  note s1 = d [OF r1]
  have t1: "filter is_Destroy (trace (hp w1)) = filter is_Destroy (trace (hp w))"
    using e r1 by (simp add: filter_Destroy_emits)
  show ?thesis
  proof (cases "SharedPtr_swap_at i n w1")
    case (Fails err w2)
    then have "w2 = w1" by (auto simp: SharedPtr_swap_at_def SharedPtr_swap_def split: if_splits)
    then show ?thesis using r1 Fails t1 by (simp add: and_then_def last_release_def)
  next
    case sw: (Returns u2 w2)
    then have r2: "SharedPtr_swap_at i n w1 = Returns () w2" by simp
    note s2 = SharedPtr_swap_at_step [OF conjunct1 [OF s1] r2]
    have t2: "filter is_Destroy (trace (hp w2)) = filter is_Destroy (trace (hp w))"
      using s2 t1 by simp
    have fin: "final (and_then (decl w)
        (\<lambda>_ w1. and_then (SharedPtr_swap_at i n w1) (\<lambda>_ w2. end_SharedPtr n w2))) =
        final (end_SharedPtr n w2)"
      using r1 r2 by (simp add: and_then_def)
    from last_release_end [OF conjunct1 [OF s2], of n]
    show ?thesis unfolding fin last_release_def
    proof (elim disjE conjE)
      assume "filter is_Destroy (trace (hp (final (end_SharedPtr n w2)))) =
              filter is_Destroy (trace (hp w2))"
      then show "filter is_Destroy (trace (hp (final (end_SharedPtr n w2)))) =
              filter is_Destroy (trace (hp w)) \<or>
            strong_refs a w = 1 \<and>
            filter is_Destroy (trace (hp (final (end_SharedPtr n w2)))) = [Destroy a]"
        using t2 by simp
    next
      assume one: "strong_refs a w2 = 1"
        and f: "filter is_Destroy (trace (hp (final (end_SharedPtr n w2)))) = [Destroy a]"
      have "filter is_Destroy (trace (hp w2)) = []"
        using sc_trace [OF conjunct1 [OF s2]] one by simp
      then have "strong_refs a w \<noteq> 0" using sc_trace [OF c] t2 by (auto split: if_splits)
      moreover have "strong_refs a w \<le> 1" using s1 s2 one by simp
      ultimately have "strong_refs a w = 1" by simp
      then show "filter is_Destroy (trace (hp (final (end_SharedPtr n w2)))) =
              filter is_Destroy (trace (hp w)) \<or>
            strong_refs a w = 1 \<and>
            filter is_Destroy (trace (hp (final (end_SharedPtr n w2)))) = [Destroy a]"
        using f by simp
    qed
  qed
qed

lemma last_release_exec:
  assumes c: "strong_consistent a w" and bd: "length (sps w) < 2 ^ 64 - 1"
  shows "last_release a w (final (exec x w))"
proof (cases "weak_op x")
  case True
  then show ?thesis by (intro last_release_same emits_weak_op)
next
  case False
  show ?thesis
  proof (cases x)
    case NewShared
    then show ?thesis by (simp add: last_release_same emits_decl_SharedPtr)
  next
    case (CopyShared j)
    then show ?thesis by (simp add: last_release_same emits_decl_SharedPtr_copy)
  next
    case (CopySharedCov j)
    then show ?thesis by (simp add: last_release_same emits_decl_SharedPtr_copy_cov)
  next
    case (MoveShared j)
    then show ?thesis by (simp add: last_release_same emits_decl_SharedPtr_move)
  next
    case (SwapShared i j)
    then show ?thesis by (simp add: last_release_same emits_SharedPtr_swap_at)
  next
    case (AssignShared i j)
    show ?thesis
    proof (cases "i < length (sps w) \<and> i \<noteq> j")
      case True
      then show ?thesis
        using last_release_chain [where decl = "decl_SharedPtr_copy j" and i = i
            and n = "length (sps w)", OF c decl_SharedPtr_copy_step [OF c bd]
            emits_decl_SharedPtr_copy]
        by (simp add: AssignShared SharedPtr_assign_def)
    next
      case False
      then show ?thesis by (auto simp: AssignShared SharedPtr_assign_def last_release_def)
    qed
  next
    case (AssignSharedCov i j)
    show ?thesis
    proof (cases "i < length (sps w)")
      case True
      then show ?thesis
        using last_release_chain [where decl = "decl_SharedPtr_copy_cov j" and i = i
            and n = "length (sps w)", OF c decl_SharedPtr_copy_cov_step [OF c bd]
            emits_decl_SharedPtr_copy_cov]
        by (simp add: AssignSharedCov SharedPtr_assign_cov_def)
    next
      case False
      then show ?thesis by (simp add: AssignSharedCov SharedPtr_assign_cov_def last_release_def)
    qed
  next
    case (AssignSharedMove i j)
    show ?thesis
    proof (cases "i < length (sps w)")
      case True
      then show ?thesis
        using last_release_chain [where decl = "decl_SharedPtr_move j" and i = i
            and n = "length (sps w)", OF c decl_SharedPtr_move_step [OF c]
            emits_decl_SharedPtr_move]
        by (simp add: AssignSharedMove SharedPtr_assign_move_def)
    next
      case False
      then show ?thesis
        by (simp add: AssignSharedMove SharedPtr_assign_move_def last_release_def)
    qed
  next
    case (ResetShared i)
    then show ?thesis using last_release_reset [OF c, of i] by simp
  next
    case (EndShared i)
    then show ?thesis using last_release_end [OF c, of i] by simp
  qed (use False in simp_all)
qed

section \<open>Destruction happens once\<close>

text \<open>
  C3. A program starts with the strong handle \<open>makeShared\<close> returned and runs a sequence
  \<open>ops\<close> of copies, moves, assignments, swaps, resets, locks and destructions of strong
  and weak handle objects, and assignments to the payload's weak handle member, fewer
  than \<open>2 ^ 64 - 3\<close> of them (so that the strong count cannot wrap around), which all
  return; then it runs one more operation \<open>x\<close>, which returns or fails.

  Before \<open>x\<close>, \<open>destroy()\<close> has been called once if no strong object holds the block and
  not at all otherwise. Whatever \<open>x\<close> is and however it ends, it adds no call of
  \<open>destroy()\<close>, or it is an operation of a strong handle, exactly one strong object held
  the block before it, and with it \<open>destroy()\<close> has been called exactly once.

  When \<open>x\<close> returns: every strong object holds this block or none, the strong count of
  the block is the number of strong objects that hold it, \<open>destroy()\<close> has again been
  called once if no strong object holds the block and not at all otherwise, and \<open>x\<close>
  added the call exactly when some strong object held the block before it and none holds
  it after it. Destroying the strong object at position \<open>i\<close> removes it, resetting it
  leaves it empty, and both leave the heap that the destructor of the handle leaves; a
  copy adds an object equal to its source; a move adds the object its source was and
  leaves the source empty.

  An operation of a weak handle, \<open>lock()\<close> included, never adds a call of \<open>destroy()\<close>, in
  any world and whether it returns or fails. Releasing a strong handle makes the call
  exactly when the strong count is 0 after the decrement.
\<close>

theorem destroy_once:
  assumes "length ops < 2 ^ 64 - 3" and "returns (run ops (after_makeShared so a))"
  shows "let w = final (run ops (after_makeShared so a));
             w' = final (run (ops @ [x]) (after_makeShared so a))
         in filter is_Destroy (trace (hp w)) =
              (if strong_refs a w = 0 then [Destroy a] else []) \<and>
            (filter is_Destroy (trace (hp w')) = filter is_Destroy (trace (hp w)) \<or>
             \<not> weak_op x \<and> strong_refs a w = 1 \<and>
             filter is_Destroy (trace (hp w')) = [Destroy a]) \<and>
            (returns (run (ops @ [x]) (after_makeShared so a)) \<longrightarrow>
               filter is_Destroy (trace (hp w')) =
                 (if strong_refs a w' = 0 then [Destroy a] else []) \<and>
               (filter is_Destroy (trace (hp w')) \<noteq> filter is_Destroy (trace (hp w))) =
                 (0 < strong_refs a w \<and> strong_refs a w' = 0) \<and>
               (\<forall>s \<in> set (sps w'). sp_cb s = None \<or> sp_cb s = Some a) \<and>
               (\<forall>b. blocks (hp w') a = Some b \<longrightarrow> unat (shared b) = strong_refs a w') \<and>
               (0 < strong_refs a w' \<longrightarrow> blocks (hp w') a \<noteq> None) \<and>
               (\<forall>i. x = EndShared i \<longrightarrow>
                  sps w' = drop_nth i (sps w) \<and>
                  hp w' = final (SharedPtr_destructor (sps w ! i) (hp w))) \<and>
               (\<forall>i. x = ResetShared i \<longrightarrow>
                  sps w' = (sps w)[i := \<lparr>sp_ptr = None, sp_cb = None\<rparr>] \<and>
                  hp w' = final (SharedPtr_destructor (sps w ! i) (hp w))) \<and>
               (\<forall>j. x = CopyShared j \<or> x = CopySharedCov j \<longrightarrow>
                  sps w' = sps w @ [sps w ! j]) \<and>
               (\<forall>j. x = MoveShared j \<longrightarrow>
                  sps w' = (sps w)[j := \<lparr>sp_ptr = None, sp_cb = None\<rparr>] @ [sps w ! j] \<and>
                  hp w' = hp w)) \<and>
            (\<forall>y v. weak_op y \<longrightarrow>
               filter is_Destroy (trace (hp (final (exec y v)))) =
               filter is_Destroy (trace (hp v))) \<and>
            (\<forall>this h b. sp_cb this = Some a \<and> blocks h a = Some b \<longrightarrow>
               filter is_Destroy (trace (final (SharedPtr_clear this h))) =
               filter is_Destroy (trace h) @ (if shared b - 1 = 0 then [Destroy a] else []))"
proof -
  let ?W = "after_makeShared so a"
  let ?w = "final (run ops ?W)"
  let ?w' = "final (run (ops @ [x]) ?W)"
  have lt: "length ops < 2 ^ 64 - 2" using assms(1) by simp
  note c = reachable_consistent(1) [OF lt assms(2)]
  have bd: "length (sps ?w) < 2 ^ 64 - 1"
    using reachable_consistent(2) [OF lt assms(2)] assms(1) by simp
  have rx: "run (ops @ [x]) ?W = exec x ?w" by (rule run_snoc_returns [OF assms(2)])
  have wk: "\<forall>y v. weak_op y \<longrightarrow>
      filter is_Destroy (trace (hp (final (exec y v)))) = filter is_Destroy (trace (hp v))"
    by (blast intro: filter_Destroy_emits emits_weak_op)
  have 1: "filter is_Destroy (trace (hp ?w)) = (if strong_refs a ?w = 0 then [Destroy a] else [])"
    by (rule sc_trace [OF c])
  have 2: "filter is_Destroy (trace (hp ?w')) = filter is_Destroy (trace (hp ?w)) \<or>
      \<not> weak_op x \<and> strong_refs a ?w = 1 \<and> filter is_Destroy (trace (hp ?w')) = [Destroy a]"
    using last_release_exec [OF c bd, of x] wk unfolding rx last_release_def by blast
  have 3: "filter is_Destroy (trace (hp ?w')) =
        (if strong_refs a ?w' = 0 then [Destroy a] else []) \<and>
      (filter is_Destroy (trace (hp ?w')) \<noteq> filter is_Destroy (trace (hp ?w))) =
        (0 < strong_refs a ?w \<and> strong_refs a ?w' = 0) \<and>
      (\<forall>s \<in> set (sps ?w'). sp_cb s = None \<or> sp_cb s = Some a) \<and>
      (\<forall>b. blocks (hp ?w') a = Some b \<longrightarrow> unat (shared b) = strong_refs a ?w') \<and>
      (0 < strong_refs a ?w' \<longrightarrow> blocks (hp ?w') a \<noteq> None) \<and>
      (\<forall>i. x = EndShared i \<longrightarrow>
         sps ?w' = drop_nth i (sps ?w) \<and>
         hp ?w' = final (SharedPtr_destructor (sps ?w ! i) (hp ?w))) \<and>
      (\<forall>i. x = ResetShared i \<longrightarrow>
         sps ?w' = (sps ?w)[i := \<lparr>sp_ptr = None, sp_cb = None\<rparr>] \<and>
         hp ?w' = final (SharedPtr_destructor (sps ?w ! i) (hp ?w))) \<and>
      (\<forall>j. x = CopyShared j \<or> x = CopySharedCov j \<longrightarrow> sps ?w' = sps ?w @ [sps ?w ! j]) \<and>
      (\<forall>j. x = MoveShared j \<longrightarrow>
         sps ?w' = (sps ?w)[j := \<lparr>sp_ptr = None, sp_cb = None\<rparr>] @ [sps ?w ! j] \<and>
         hp ?w' = hp ?w)"
    if ret: "returns (run (ops @ [x]) ?W)"
  proof -
    have lt': "length (ops @ [x]) < 2 ^ 64 - 2" using assms(1) by simp
    note c' = reachable_consistent(1) [OF lt' ret]
    note t' = sc_trace [OF c']
    have rx': "returns (exec x ?w)" using ret unfolding rx .
    have a: "(filter is_Destroy (trace (hp ?w')) \<noteq> filter is_Destroy (trace (hp ?w))) =
        (0 < strong_refs a ?w \<and> strong_refs a ?w' = 0)"
      using 1 2 t' by (auto split: if_splits)
    have b: "\<forall>b. blocks (hp ?w') a = Some b \<longrightarrow> unat (shared b) = strong_refs a ?w'"
      using c' unfolding strong_consistent_def by (auto split: if_splits)
    have l: "0 < strong_refs a ?w' \<longrightarrow> blocks (hp ?w') a \<noteq> None"
      using sc_live [OF c'] by auto
    have e: "\<forall>i. x = EndShared i \<longrightarrow>
        sps ?w' = drop_nth i (sps ?w) \<and>
        hp ?w' = final (SharedPtr_destructor (sps ?w ! i) (hp ?w))"
      using rx' end_SharedPtr_effect [of _ ?w] unfolding rx by auto
    have r: "\<forall>i. x = ResetShared i \<longrightarrow>
        sps ?w' = (sps ?w)[i := \<lparr>sp_ptr = None, sp_cb = None\<rparr>] \<and>
        hp ?w' = final (SharedPtr_destructor (sps ?w ! i) (hp ?w))"
      using rx' SharedPtr_reset_at_effect [of _ ?w] unfolding rx by auto
    have cp: "\<forall>j. x = CopyShared j \<or> x = CopySharedCov j \<longrightarrow> sps ?w' = sps ?w @ [sps ?w ! j]"
      using rx' decl_SharedPtr_copy_effect [of _ ?w] decl_SharedPtr_copy_cov_effect [of _ ?w]
      unfolding rx by auto
    have mv: "\<forall>j. x = MoveShared j \<longrightarrow>
        sps ?w' = (sps ?w)[j := \<lparr>sp_ptr = None, sp_cb = None\<rparr>] @ [sps ?w ! j] \<and>
        hp ?w' = hp ?w"
      using rx' decl_SharedPtr_move_effect [of _ ?w] unfolding rx by auto
    show ?thesis by (intro conjI t' a sc_sps [OF c'] b l e r cp mv)
  qed
  have 4: "\<forall>this h b. sp_cb this = Some a \<and> blocks h a = Some b \<longrightarrow>
      filter is_Destroy (trace (final (SharedPtr_clear this h))) =
      filter is_Destroy (trace h) @ (if shared b - 1 = 0 then [Destroy a] else [])"
    using destroy_gate by blast
  show ?thesis
    unfolding Let_def using 1 2 3 wk 4 by (intro conjI impI) blast+
qed

theorem destroy_once_witness:
  "returns (run [CopyShared 0, EndShared 0] (after_makeShared False 0)) \<and>
   returns (run ([CopyShared 0, EndShared 0] @ [ResetShared 0]) (after_makeShared False 0)) \<and>
   sps (final (run [CopyShared 0, EndShared 0] (after_makeShared False 0))) =
     [\<lparr>sp_ptr = None, sp_cb = Some 0\<rparr>] \<and>
   filter is_Destroy
     (trace (hp (final (run [CopyShared 0, EndShared 0] (after_makeShared False 0))))) = [] \<and>
   filter is_Destroy
     (trace (hp (final (run ([CopyShared 0, EndShared 0] @ [ResetShared 0])
                          (after_makeShared False 0))))) = [Destroy 0] \<and>
   sps (final (run ([CopyShared 0, EndShared 0] @ [ResetShared 0]) (after_makeShared False 0))) =
     [\<lparr>sp_ptr = None, sp_cb = None\<rparr>] \<and>
   hp (final (run ([CopyShared 0, EndShared 0] @ [ResetShared 0]) (after_makeShared False 0))) =
     final (SharedPtr_destructor \<lparr>sp_ptr = None, sp_cb = Some 0\<rparr>
              (hp (final (run [CopyShared 0, EndShared 0] (after_makeShared False 0))))) \<and>
   returns (run [WeakFromShared 0, AssignPayloadWeakMove 0 0] (after_makeShared True 0)) \<and>
   \<not> returns (run ([WeakFromShared 0, AssignPayloadWeakMove 0 0] @ [ResetShared 0])
                (after_makeShared True 0)) \<and>
   strong_refs 0 (final (run [WeakFromShared 0, AssignPayloadWeakMove 0 0]
                           (after_makeShared True 0))) = 1 \<and>
   filter is_Destroy
     (trace (hp (final (run ([WeakFromShared 0, AssignPayloadWeakMove 0 0] @ [ResetShared 0])
                          (after_makeShared True 0))))) = [Destroy 0] \<and>
   returns (run ([WeakFromShared 0, WeakFromShared 0, AssignPayloadWeakMove 0 0] @ [EndShared 0])
              (after_makeShared True 0)) \<and>
   filter is_Destroy
     (trace (hp (final (run ([WeakFromShared 0, WeakFromShared 0, AssignPayloadWeakMove 0 0] @
                              [EndShared 0]) (after_makeShared True 0))))) = [Destroy 0] \<and>
   sps (final (run ([WeakFromShared 0, WeakFromShared 0, AssignPayloadWeakMove 0 0] @
                     [EndShared 0]) (after_makeShared True 0))) = [] \<and>
   weak_op (EndWeak 0) \<and>
   trace (hp (final (run [WeakFromShared 0, EndShared 0] (after_makeShared False 0)))) =
     [Destroy 0] \<and>
   filter is_Destroy
     (trace (hp (final (exec (EndWeak 0)
        (final (run [WeakFromShared 0, EndShared 0] (after_makeShared False 0))))))) =
     [Destroy 0] \<and>
   filter is_Destroy
     (trace (final (SharedPtr_clear \<lparr>sp_ptr = None, sp_cb = Some 0\<rparr> (one_block 0 1 1)))) =
     [Destroy 0] \<and>
   filter is_Destroy
     (trace (final (SharedPtr_clear \<lparr>sp_ptr = None, sp_cb = Some 0\<rparr> (one_block 0 2 0)))) = [] \<and>
   filter is_Destroy
     (trace (final (SharedPtr_clear \<lparr>sp_ptr = None, sp_cb = Some 0\<rparr>
                      (self_weak_block 0 1 1)))) = [Destroy 0]"
proof -
  let ?W = "after_makeShared False 0"
  let ?ops = "[CopyShared 0, EndShared 0]"
  let ?w = "final (run ?ops ?W)"
  let ?w' = "final (run (?ops @ [ResetShared 0]) ?W)"
  have h1: "length ?ops < 2 ^ 64 - 3" by simp
  have h2: "returns (run ?ops ?W)" by code_simp
  have h3: "returns (run (?ops @ [ResetShared 0]) ?W)" by code_simp
  have e: "strong_refs 0 ?w' = 0" "sps ?w = [\<lparr>sp_ptr = None, sp_cb = Some 0\<rparr>]"
    "strong_refs 0 ?w = 1"
    by code_simp+
  note th = destroy_once [OF h1 h2, of "ResetShared 0", unfolded Let_def]
  note ret = th [THEN conjunct2, THEN conjunct2, THEN conjunct1, THEN mp, OF h3]
  have 0: "filter is_Destroy (trace (hp ?w)) = []"
    using th [THEN conjunct1] e(3) by simp
  have 1: "filter is_Destroy (trace (hp ?w')) = [Destroy 0]"
    using ret [THEN conjunct1] e(1) by presburger
  have "sps ?w' = (sps ?w)[0 := \<lparr>sp_ptr = None, sp_cb = None\<rparr>] \<and>
        hp ?w' = final (SharedPtr_destructor (sps ?w ! 0) (hp ?w))"
    using ret [THEN conjunct2, THEN conjunct2, THEN conjunct2, THEN conjunct2, THEN conjunct2,
        THEN conjunct2, THEN conjunct1]
    by blast
  then have 2: "sps ?w' = [\<lparr>sp_ptr = None, sp_cb = None\<rparr>]"
    and 3: "hp ?w' = final (SharedPtr_destructor \<lparr>sp_ptr = None, sp_cb = Some 0\<rparr> (hp ?w))"
    unfolding e(2) by simp_all
  let ?V = "after_makeShared True 0"
  let ?ops1 = "[WeakFromShared 0, AssignPayloadWeakMove 0 0]"
  let ?p = "final (run ?ops1 ?V)"
  let ?p' = "final (run (?ops1 @ [ResetShared 0]) ?V)"
  have j1: "length ?ops1 < 2 ^ 64 - 3" by simp
  have j2: "returns (run ?ops1 ?V)" by code_simp
  have j3: "\<not> returns (run (?ops1 @ [ResetShared 0]) ?V)" by code_simp
  have j4: "filter is_Destroy (trace (hp ?p')) \<noteq> filter is_Destroy (trace (hp ?p))"
    by code_simp
  note th1 = destroy_once [OF j1 j2, of "ResetShared 0", unfolded Let_def]
  have 10: "strong_refs 0 ?p = 1" and 11: "filter is_Destroy (trace (hp ?p')) = [Destroy 0]"
    using th1 [THEN conjunct2, THEN conjunct1] j4 by blast+
  let ?ops2 = "[WeakFromShared 0, WeakFromShared 0, AssignPayloadWeakMove 0 0]"
  let ?v = "final (run ?ops2 ?V)"
  let ?v' = "final (run (?ops2 @ [EndShared 0]) ?V)"
  have k1: "length ?ops2 < 2 ^ 64 - 3" by simp
  have k2: "returns (run ?ops2 ?V)" by code_simp
  have k3: "returns (run (?ops2 @ [EndShared 0]) ?V)" by code_simp
  have f: "strong_refs 0 ?v' = 0" "sps ?v = [\<lparr>sp_ptr = None, sp_cb = Some 0\<rparr>]"
    by code_simp+
  note th2 = destroy_once [OF k1 k2, of "EndShared 0", unfolded Let_def]
  note ret2 = th2 [THEN conjunct2, THEN conjunct2, THEN conjunct1, THEN mp, OF k3]
  have 4: "filter is_Destroy (trace (hp ?v')) = [Destroy 0]"
    using ret2 [THEN conjunct1] f(1) by presburger
  have "sps ?v' = drop_nth 0 (sps ?v)"
    using ret2 [THEN conjunct2, THEN conjunct2, THEN conjunct2, THEN conjunct2, THEN conjunct2,
        THEN conjunct1]
    by blast
  then have 5: "sps ?v' = []" unfolding f(2) by (simp add: drop_nth_def)
  let ?u = "final (run [WeakFromShared 0, EndShared 0] ?W)"
  have g: "weak_op (EndWeak 0)" "trace (hp ?u) = [Destroy 0]"
    by code_simp+
  note wk = th [THEN conjunct2, THEN conjunct2, THEN conjunct2, THEN conjunct1, rule_format]
  have 6: "filter is_Destroy (trace (hp (final (exec (EndWeak 0) ?u)))) = [Destroy 0]"
    using wk [OF g(1), of ?u] g(2) by simp
  note gate = th [THEN conjunct2, THEN conjunct2, THEN conjunct2, THEN conjunct2, rule_format]
  have 7: "filter is_Destroy
     (trace (final (SharedPtr_clear \<lparr>sp_ptr = None, sp_cb = Some 0\<rparr> (one_block 0 1 1)))) =
     [Destroy 0]"
    using gate [of "\<lparr>sp_ptr = None, sp_cb = Some 0\<rparr>" "one_block 0 1 1" "\<lparr>shared = 1, weak = 1\<rparr>"]
    by (simp add: one_block_def)
  have 8: "filter is_Destroy
     (trace (final (SharedPtr_clear \<lparr>sp_ptr = None, sp_cb = Some 0\<rparr> (one_block 0 2 0)))) = []"
    using gate [of "\<lparr>sp_ptr = None, sp_cb = Some 0\<rparr>" "one_block 0 2 0" "\<lparr>shared = 2, weak = 0\<rparr>"]
    by (simp add: one_block_def)
  have 9: "filter is_Destroy
     (trace (final (SharedPtr_clear \<lparr>sp_ptr = None, sp_cb = Some 0\<rparr>
                      (self_weak_block 0 1 1)))) = [Destroy 0]"
    using gate [of "\<lparr>sp_ptr = None, sp_cb = Some 0\<rparr>" "self_weak_block 0 1 1"
        "\<lparr>shared = 1, weak = 1\<rparr>"]
    by (simp add: self_weak_block_def)
  show ?thesis by (intro conjI h2 h3 e(2) 0 1 2 3 j2 j3 10 11 k3 4 5 g 6 7 8 9)
qed


section \<open>Assignment of strong handles\<close>

lemma drop_nth_last [simp]: "n = length xs \<Longrightarrow> drop_nth n (xs @ [y]) = xs"
  by (simp add: drop_nth_def)

lemma swap_with_last [simp]:
  "i < length xs \<Longrightarrow> (xs @ [y])[i := z, length xs := u] = xs[i := z] @ [u]"
  by (simp add: list_update_append)

text \<open>The swap and the end of the local, given what its declaration made.\<close>

lemma assign_tail:
  assumes i: "i < length xs" and w1: "sps w1 = xs @ [y]"
  shows "and_then (SharedPtr_swap_at i (length xs) w1) (\<lambda>_ w2. end_SharedPtr (length xs) w2) =
    (case SharedPtr_destructor (xs ! i) (hp w1) of
       Returns t h' \<Rightarrow> Returns () (w1\<lparr>hp := h', sps := xs[i := y]\<rparr>)
     | Fails e h' \<Rightarrow> Fails e (w1\<lparr>hp := h', sps := xs[i := y] @ [xs ! i]\<rparr>))"
  using i
  by (simp add: SharedPtr_swap_at_def SharedPtr_swap_def end_SharedPtr_def and_then_def
      on_heap_def w1 nth_append split: outcome.splits)

lemma SharedPtr_assign_self: "i < length (sps w) \<Longrightarrow> SharedPtr_assign i i w = Returns () w"
  by (simp add: SharedPtr_assign_def)

lemma and_then_fails: "\<not> returns r \<Longrightarrow> and_then r f = Fails (case r of Fails e s \<Rightarrow> e) (final r)"
  by (cases r) (simp_all add: and_then_def)

lemma assign_construction_fails:
  assumes "\<not> returns (decl w)" and "final (decl w) = w"
  shows "and_then (decl w) f = decl w \<and> final (and_then (decl w) f) = w"
  using assms by (cases "decl w") (simp_all add: and_then_def)

lemma decl_SharedPtr_copy_fails: "\<not> returns (decl_SharedPtr_copy j w) \<Longrightarrow> final (decl_SharedPtr_copy j w) = w"
  by (auto simp: decl_SharedPtr_copy_def SharedPtr_copy_def on_heap_def and_then_def
      split: if_splits option.splits)

lemma decl_SharedPtr_copy_cov_fails: "\<not> returns (decl_SharedPtr_copy_cov j w) \<Longrightarrow> final (decl_SharedPtr_copy_cov j w) = w"
  by (auto simp: decl_SharedPtr_copy_cov_def SharedPtr_copy_cov_def on_heap_def and_then_def
      split: if_splits option.splits)

lemma decl_SharedPtr_move_fails: "\<not> returns (decl_SharedPtr_move j w) \<Longrightarrow> final (decl_SharedPtr_move j w) = w"
  by (auto simp: decl_SharedPtr_move_def SharedPtr_move_def split: if_splits)

lemma SharedPtr_assign_effect:
  assumes i: "i < length (sps w)" and j: "j < length (sps w)" and ij: "i \<noteq> j"
    and r: "returns (SharedPtr_assign i j w)"
  shows "sps (final (SharedPtr_assign i j w)) = (sps w)[i := sps w ! j]"
    and "wps (final (SharedPtr_assign i j w)) = wps w"
    and "hp (final (SharedPtr_assign i j w)) =
         final (SharedPtr_destructor (sps w ! i) (final (SharedPtr_copy (sps w ! j) (hp w))))"
proof -
  obtain s h1 where c: "SharedPtr_copy (sps w ! j) (hp w) = Returns s h1"
    using r i j ij
    by (cases "SharedPtr_copy (sps w ! j) (hp w)")
       (auto simp: SharedPtr_assign_def decl_SharedPtr_copy_def on_heap_def and_then_def)
  have s: "s = sps w ! j" using c by (auto simp: SharedPtr_copy_def split: option.splits)
  have d: "decl_SharedPtr_copy j w = Returns () (w\<lparr>hp := h1, sps := sps w @ [s]\<rparr>)"
    using c j by (simp add: decl_SharedPtr_copy_def on_heap_def and_then_def)
  have a: "SharedPtr_assign i j w =
    (case SharedPtr_destructor (sps w ! i) h1 of
       Returns t h' \<Rightarrow> Returns () (w\<lparr>hp := h', sps := (sps w)[i := s]\<rparr>)
     | Fails e h' \<Rightarrow> Fails e (w\<lparr>hp := h', sps := (sps w)[i := s] @ [sps w ! i]\<rparr>))"
    using i ij assign_tail [OF i, of "w\<lparr>hp := h1, sps := sps w @ [s]\<rparr>" s]
    by (simp add: SharedPtr_assign_def d and_then_def split: outcome.splits)
  show "sps (final (SharedPtr_assign i j w)) = (sps w)[i := sps w ! j]"
    and "wps (final (SharedPtr_assign i j w)) = wps w"
    and "hp (final (SharedPtr_assign i j w)) =
         final (SharedPtr_destructor (sps w ! i) (final (SharedPtr_copy (sps w ! j) (hp w))))"
    using r unfolding a c s by (auto split: outcome.splits)
qed

lemma SharedPtr_assign_cov_effect:
  assumes i: "i < length (sps w)" and j: "j < length (sps w)"
    and r: "returns (SharedPtr_assign_cov i j w)"
  shows "sps (final (SharedPtr_assign_cov i j w)) = (sps w)[i := sps w ! j]"
    and "wps (final (SharedPtr_assign_cov i j w)) = wps w"
    and "hp (final (SharedPtr_assign_cov i j w)) =
         final (SharedPtr_destructor (sps w ! i) (final (SharedPtr_copy_cov (sps w ! j) (hp w))))"
proof -
  obtain s h1 where c: "SharedPtr_copy_cov (sps w ! j) (hp w) = Returns s h1"
    using r i j
    by (cases "SharedPtr_copy_cov (sps w ! j) (hp w)")
       (auto simp: SharedPtr_assign_cov_def decl_SharedPtr_copy_cov_def on_heap_def and_then_def)
  have s: "s = sps w ! j" using c by (auto simp: SharedPtr_copy_cov_def split: option.splits)
  have d: "decl_SharedPtr_copy_cov j w = Returns () (w\<lparr>hp := h1, sps := sps w @ [s]\<rparr>)"
    using c j by (simp add: decl_SharedPtr_copy_cov_def on_heap_def and_then_def)
  have a: "SharedPtr_assign_cov i j w =
    (case SharedPtr_destructor (sps w ! i) h1 of
       Returns t h' \<Rightarrow> Returns () (w\<lparr>hp := h', sps := (sps w)[i := s]\<rparr>)
     | Fails e h' \<Rightarrow> Fails e (w\<lparr>hp := h', sps := (sps w)[i := s] @ [sps w ! i]\<rparr>))"
    using i assign_tail [OF i, of "w\<lparr>hp := h1, sps := sps w @ [s]\<rparr>" s]
    by (simp add: SharedPtr_assign_cov_def d and_then_def split: outcome.splits)
  show "sps (final (SharedPtr_assign_cov i j w)) = (sps w)[i := sps w ! j]"
    and "wps (final (SharedPtr_assign_cov i j w)) = wps w"
    and "hp (final (SharedPtr_assign_cov i j w)) =
         final (SharedPtr_destructor (sps w ! i) (final (SharedPtr_copy_cov (sps w ! j) (hp w))))"
    using r unfolding a c s by (auto split: outcome.splits)
qed

lemma SharedPtr_assign_move_effect:
  assumes i: "i < length (sps w)" and j: "j < length (sps w)"
    and r: "returns (SharedPtr_assign_move i j w)"
  shows "sps (final (SharedPtr_assign_move i j w)) =
           (sps w)[j := \<lparr>sp_ptr = None, sp_cb = None\<rparr>, i := sps w ! j]"
    and "wps (final (SharedPtr_assign_move i j w)) = wps w"
    and "hp (final (SharedPtr_assign_move i j w)) =
         final (SharedPtr_destructor ((sps w)[j := \<lparr>sp_ptr = None, sp_cb = None\<rparr>] ! i) (hp w))"
proof -
  let ?xs = "(sps w)[j := \<lparr>sp_ptr = None, sp_cb = None\<rparr>]"
  have d: "decl_SharedPtr_move j w = Returns () (w\<lparr>sps := ?xs @ [sps w ! j]\<rparr>)"
    using j by (simp add: decl_SharedPtr_move_def SharedPtr_move_def)
  have i': "i < length ?xs" using i by simp
  have a: "SharedPtr_assign_move i j w =
    (case SharedPtr_destructor (?xs ! i) (hp w) of
       Returns t h' \<Rightarrow> Returns () (w\<lparr>hp := h', sps := ?xs[i := sps w ! j]\<rparr>)
     | Fails e h' \<Rightarrow> Fails e (w\<lparr>hp := h', sps := ?xs[i := sps w ! j] @ [?xs ! i]\<rparr>))"
    using i assign_tail [OF i', of "w\<lparr>sps := ?xs @ [sps w ! j]\<rparr>" "sps w ! j"]
    by (simp add: SharedPtr_assign_move_def d and_then_def split: outcome.splits)
  show "sps (final (SharedPtr_assign_move i j w)) = ?xs[i := sps w ! j]"
    and "wps (final (SharedPtr_assign_move i j w)) = wps w"
    and "hp (final (SharedPtr_assign_move i j w)) =
         final (SharedPtr_destructor (?xs ! i) (hp w))"
    using r unfolding a by (auto split: outcome.splits)
qed


text \<open>
  C8. Assignment to the strong handle at position \<open>i\<close> from the one at position \<open>j\<close>.
  Same-type copy assignment of an object to itself returns at once with the world
  unchanged. When the construction of the local \<open>copy\<close> fails, the assignment fails with
  that failure and the world, the assigned-to handle included, is as it was before. When
  the assignment returns, the assigned-to handle holds what the source held (a moved-from
  source is left empty), the other objects are untouched, and the heap is the one left by
  constructing the local from the source and then destroying the value the assigned-to
  handle held before.
\<close>

theorem SharedPtr_assignment:
  "(i < length (sps w) \<longrightarrow> SharedPtr_assign i i w = Returns () w) \<and>
   (i < length (sps w) \<and> i \<noteq> j \<and> \<not> returns (decl_SharedPtr_copy j w) \<longrightarrow>
      SharedPtr_assign i j w = decl_SharedPtr_copy j w \<and>
      final (SharedPtr_assign i j w) = w) \<and>
   (i < length (sps w) \<and> \<not> returns (decl_SharedPtr_copy_cov j w) \<longrightarrow>
      SharedPtr_assign_cov i j w = decl_SharedPtr_copy_cov j w \<and>
      final (SharedPtr_assign_cov i j w) = w) \<and>
   (i < length (sps w) \<and> \<not> returns (decl_SharedPtr_move j w) \<longrightarrow>
      SharedPtr_assign_move i j w = decl_SharedPtr_move j w \<and>
      final (SharedPtr_assign_move i j w) = w) \<and>
   (i < length (sps w) \<and> j < length (sps w) \<and> i \<noteq> j \<and>
    returns (SharedPtr_assign i j w) \<longrightarrow>
      sps (final (SharedPtr_assign i j w)) = (sps w)[i := sps w ! j] \<and>
      wps (final (SharedPtr_assign i j w)) = wps w \<and>
      hp (final (SharedPtr_assign i j w)) =
        final (SharedPtr_destructor (sps w ! i) (final (SharedPtr_copy (sps w ! j) (hp w))))) \<and>
   (i < length (sps w) \<and> j < length (sps w) \<and> returns (SharedPtr_assign_cov i j w) \<longrightarrow>
      sps (final (SharedPtr_assign_cov i j w)) = (sps w)[i := sps w ! j] \<and>
      wps (final (SharedPtr_assign_cov i j w)) = wps w \<and>
      hp (final (SharedPtr_assign_cov i j w)) =
        final (SharedPtr_destructor (sps w ! i)
                 (final (SharedPtr_copy_cov (sps w ! j) (hp w))))) \<and>
   (i < length (sps w) \<and> j < length (sps w) \<and> returns (SharedPtr_assign_move i j w) \<longrightarrow>
      sps (final (SharedPtr_assign_move i j w)) =
        (sps w)[j := \<lparr>sp_ptr = None, sp_cb = None\<rparr>, i := sps w ! j] \<and>
      wps (final (SharedPtr_assign_move i j w)) = wps w \<and>
      hp (final (SharedPtr_assign_move i j w)) =
        final (SharedPtr_destructor ((sps w)[j := \<lparr>sp_ptr = None, sp_cb = None\<rparr>] ! i) (hp w)))"
proof (intro conjI impI)
  show "SharedPtr_assign i i w = Returns () w" if "i < length (sps w)"
    using that by (rule SharedPtr_assign_self)
  show "SharedPtr_assign i j w = decl_SharedPtr_copy j w"
    and "final (SharedPtr_assign i j w) = w"
    if "i < length (sps w) \<and> i \<noteq> j \<and> \<not> returns (decl_SharedPtr_copy j w)"
    using that assign_construction_fails [where decl = "decl_SharedPtr_copy j" and w = w]
      decl_SharedPtr_copy_fails [of j w]
    by (simp_all add: SharedPtr_assign_def)
  show "SharedPtr_assign_cov i j w = decl_SharedPtr_copy_cov j w"
    and "final (SharedPtr_assign_cov i j w) = w"
    if "i < length (sps w) \<and> \<not> returns (decl_SharedPtr_copy_cov j w)"
    using that assign_construction_fails [where decl = "decl_SharedPtr_copy_cov j" and w = w]
      decl_SharedPtr_copy_cov_fails [of j w]
    by (simp_all add: SharedPtr_assign_cov_def)
  show "SharedPtr_assign_move i j w = decl_SharedPtr_move j w"
    and "final (SharedPtr_assign_move i j w) = w"
    if "i < length (sps w) \<and> \<not> returns (decl_SharedPtr_move j w)"
    using that assign_construction_fails [where decl = "decl_SharedPtr_move j" and w = w]
      decl_SharedPtr_move_fails [of j w]
    by (simp_all add: SharedPtr_assign_move_def)
  show "sps (final (SharedPtr_assign i j w)) = (sps w)[i := sps w ! j]"
    and "wps (final (SharedPtr_assign i j w)) = wps w"
    and "hp (final (SharedPtr_assign i j w)) =
        final (SharedPtr_destructor (sps w ! i) (final (SharedPtr_copy (sps w ! j) (hp w))))"
    if "i < length (sps w) \<and> j < length (sps w) \<and> i \<noteq> j \<and> returns (SharedPtr_assign i j w)"
    using that SharedPtr_assign_effect [of i w j] by simp_all
  show "sps (final (SharedPtr_assign_cov i j w)) = (sps w)[i := sps w ! j]"
    and "wps (final (SharedPtr_assign_cov i j w)) = wps w"
    and "hp (final (SharedPtr_assign_cov i j w)) =
        final (SharedPtr_destructor (sps w ! i)
                 (final (SharedPtr_copy_cov (sps w ! j) (hp w))))"
    if "i < length (sps w) \<and> j < length (sps w) \<and> returns (SharedPtr_assign_cov i j w)"
    using that SharedPtr_assign_cov_effect [of i w j] by simp_all
  show "sps (final (SharedPtr_assign_move i j w)) =
        (sps w)[j := \<lparr>sp_ptr = None, sp_cb = None\<rparr>, i := sps w ! j]"
    and "wps (final (SharedPtr_assign_move i j w)) = wps w"
    and "hp (final (SharedPtr_assign_move i j w)) =
        final (SharedPtr_destructor ((sps w)[j := \<lparr>sp_ptr = None, sp_cb = None\<rparr>] ! i) (hp w))"
    if "i < length (sps w) \<and> j < length (sps w) \<and> returns (SharedPtr_assign_move i j w)"
    using that SharedPtr_assign_move_effect [of i w j] by simp_all
qed

theorem SharedPtr_assignment_witness:
  "(let w = \<lparr>hp = one_block 0 1 0, sps = [\<lparr>sp_ptr = None, sp_cb = Some 0\<rparr>, SharedPtr_default],
             wps = []\<rparr>
    in SharedPtr_assign 0 0 w = Returns () w \<and>
       \<not> returns (decl_SharedPtr_copy_cov 1 w) \<and>
       SharedPtr_assign_cov 0 1 w = decl_SharedPtr_copy_cov 1 w \<and>
       final (SharedPtr_assign_cov 0 1 w) = w \<and>
       returns (SharedPtr_assign 1 0 w) \<and>
       sps (final (SharedPtr_assign 1 0 w)) =
         [\<lparr>sp_ptr = None, sp_cb = Some 0\<rparr>, \<lparr>sp_ptr = None, sp_cb = Some 0\<rparr>] \<and>
       returns (SharedPtr_assign_move 1 0 w) \<and>
       sps (final (SharedPtr_assign_move 1 0 w)) =
         [\<lparr>sp_ptr = None, sp_cb = None\<rparr>, \<lparr>sp_ptr = None, sp_cb = Some 0\<rparr>] \<and>
       \<not> returns (decl_SharedPtr_copy 7 w) \<and> final (SharedPtr_assign 0 7 w) = w \<and>
       \<not> returns (decl_SharedPtr_move 7 w) \<and> final (SharedPtr_assign_move 0 7 w) = w \<and>
       returns (SharedPtr_assign_cov 1 0 w) \<and>
       sps (final (SharedPtr_assign_cov 1 0 w)) =
         [\<lparr>sp_ptr = None, sp_cb = Some 0\<rparr>, \<lparr>sp_ptr = None, sp_cb = Some 0\<rparr>])"
proof -
  let ?w = "\<lparr>hp = one_block 0 1 0, sps = [\<lparr>sp_ptr = None, sp_cb = Some 0\<rparr>, SharedPtr_default],
             wps = []\<rparr>"
  have e: "\<not> returns (decl_SharedPtr_copy_cov 1 ?w)" "returns (SharedPtr_assign 1 0 ?w)"
    "returns (SharedPtr_assign_move 1 0 ?w)"
    by code_simp+
  note th0 = SharedPtr_assignment [of 0 ?w 0]
  note th1 = SharedPtr_assignment [of 0 ?w 1]
  note th2 = SharedPtr_assignment [of 1 ?w 0]
  have l: "0 < length (sps ?w)" "1 < length (sps ?w)" "(1::nat) \<noteq> 0" by simp_all
  have 1: "SharedPtr_assign 0 0 ?w = Returns () ?w" using th0 l(1) by blast
  have 2: "SharedPtr_assign_cov 0 1 ?w = decl_SharedPtr_copy_cov 1 ?w"
    "final (SharedPtr_assign_cov 0 1 ?w) = ?w"
    using th1 e(1) l(1) by blast+
  have "sps (final (SharedPtr_assign 1 0 ?w)) = (sps ?w)[1 := sps ?w ! 0]"
    using th2 e(2) l by blast
  then have 3: "sps (final (SharedPtr_assign 1 0 ?w)) =
      [\<lparr>sp_ptr = None, sp_cb = Some 0\<rparr>, \<lparr>sp_ptr = None, sp_cb = Some 0\<rparr>]"
    by simp
  have "sps (final (SharedPtr_assign_move 1 0 ?w)) =
      (sps ?w)[0 := \<lparr>sp_ptr = None, sp_cb = None\<rparr>, 1 := sps ?w ! 0]"
    using th2 e(3) l by blast
  then have 4: "sps (final (SharedPtr_assign_move 1 0 ?w)) =
      [\<lparr>sp_ptr = None, sp_cb = None\<rparr>, \<lparr>sp_ptr = None, sp_cb = Some 0\<rparr>]"
    by simp
  have f: "\<not> returns (decl_SharedPtr_copy 7 ?w)" "\<not> returns (decl_SharedPtr_move 7 ?w)"
    "returns (SharedPtr_assign_cov 1 0 ?w)"
    by code_simp+
  have l7: "(0::nat) \<noteq> 7" by simp
  note th7 = SharedPtr_assignment [of 0 ?w 7]
  have 5: "final (SharedPtr_assign 0 7 ?w) = ?w" using th7 f(1) l l7 by blast
  have 6: "final (SharedPtr_assign_move 0 7 ?w) = ?w" using th7 f(2) l by blast
  have "sps (final (SharedPtr_assign_cov 1 0 ?w)) = (sps ?w)[1 := sps ?w ! 0]"
    using th2 f(3) l by blast
  then have 7: "sps (final (SharedPtr_assign_cov 1 0 ?w)) =
      [\<lparr>sp_ptr = None, sp_cb = Some 0\<rparr>, \<lparr>sp_ptr = None, sp_cb = Some 0\<rparr>]"
    by simp
  show ?thesis unfolding Let_def by (intro conjI 1 2 3 4 5 6 7 e f)
qed

end
